(* ===== verification/Prelude.thy ===== *)
theory Prelude
  imports Main
begin

text \<open>
  Shared vocabulary of the development: the named collections the component
  theories add to, the reply type every Express handler of the backend is
  modelled with (an error status with its message, or a success status with the
  JSON payload), and generic lemmas on lists and options that the component
  proofs share.
\<close>

named_theorems handler_defs
  "definitions of request handlers, unfolded when a handler is evaluated"

named_theorems js_simps
  "evaluation rules of the JavaScript built-ins the sources call"

type_synonym user_id = string

text \<open>
  A handler answers with \<open>res.status(code).json({success: false, message})\<close>
  (an \<open>Err\<close>) or with \<open>res.status(code).json({success: true, data})\<close>
  (an \<open>Ok\<close>); \<open>res.json(...)\<close> without an explicit status is code 200.
\<close>

datatype 'a reply = Err nat string | Ok nat 'a

fun reply_code :: "'a reply \<Rightarrow> nat" where
  "reply_code (Err c _) = c"
| "reply_code (Ok c _) = c"

fun is_ok :: "'a reply \<Rightarrow> bool" where
  "is_ok (Err _ _) = False"
| "is_ok (Ok _ _) = True"

fun reply_map :: "('a \<Rightarrow> 'b) \<Rightarrow> 'a reply \<Rightarrow> 'b reply" where
  "reply_map f (Err c m) = Err c m"
| "reply_map f (Ok c x) = Ok c (f x)"

subsection \<open>Lists\<close>

lemma map_update_same_key [simp]:
  "i < length xs \<Longrightarrow> f y = f (xs ! i) \<Longrightarrow> map f (xs[i := y]) = map f xs"
  by (metis list_update_id map_update nth_map)

lemma set_update_memD:
  "x \<in> set (xs[i := y]) \<Longrightarrow> x = y \<or> x \<in> set xs"
  using set_update_subset_insert by fastforce

lemma filter_update_length:
  assumes "i < length xs" and "P y = P (xs ! i)"
  shows "length (filter P (xs[i := y])) = length (filter P xs)"
  using assms
proof (induction xs arbitrary: i)
  case Nil
  then show ?case by simp
next
  case (Cons x xs)
  then show ?case by (cases i) auto
qed

lemma nth_mem_upt_map:
  "map f xs = [a..<b] \<Longrightarrow> i < length xs \<Longrightarrow> f (xs ! i) = a + i"
  by (metis length_map length_upt nth_map nth_upt less_diff_conv add.commute)

lemma map_upt_distinct:
  "map f xs = [a..<b] \<Longrightarrow> distinct (map f xs)"
  by simp

lemma dropWhile_all_not: "\<forall>x\<in>set xs. \<not> P x \<Longrightarrow> dropWhile P xs = xs"
  by (induction xs) auto

lemma find_const_False [simp]: "find (\<lambda>_. False) xs = None"
  by (induction xs) simp_all

lemma find_distinct_key:
  "distinct (map f xs) \<Longrightarrow> x \<in> set xs \<Longrightarrow> find (\<lambda>y. f y = f x) xs = Some x"
proof (induction xs)
  case Nil then show ?case by simp
next
  case (Cons a xs) then show ?case by (auto simp: rev_image_eqI)
qed

lemma find_SomeD: "find P xs = Some x \<Longrightarrow> P x \<and> x \<in> set xs"
  by (induction xs) (auto split: if_splits)

lemma reply_map_Ok: "reply_map f r = Ok c y \<longleftrightarrow> (\<exists>x. r = Ok c x \<and> y = f x)"
  by (cases r) auto

end
