(* ===== verification/JsValue.thy ===== *)
theory JsValue
  imports Prelude
begin

text \<open>
  The JavaScript run-time semantics the backend relies on: the values a JSON
  request body carries, truthiness (\<open>!x\<close>, \<open>x || d\<close>), the \<open>Number(x)\<close>
  conversion, \<open>parseInt(s, 10)\<close> and \<open>parseInt(s)\<close> on route parameters,
  \<open>String(n)\<close> on integers, \<open>toLowerCase\<close>, the object \<open>JSON.parse\<close>
  builds from duplicate keys, and \<open>Array.prototype.findIndex\<close>. These are language
  built-ins, not code of the repository; they are written after the ECMAScript
  specification, restricted to what the sources use: numbers are integers (the
  app's amounts and ids are whole numbers) and \<open>Number\<close> reads a string as an
  optionally signed decimal integer literal between white space (exponents, hex,
  fractions and \<open>Infinity\<close> are read as \<open>NaN\<close> here). A string is a list of
  8-bit characters, the UTF-16 code units below 256; white space is the
  ECMAScript white space among them (tab, line feed, vertical tab, form feed,
  carriage return, space, no-break space).
\<close>

datatype jsnum = NaN | Num int

datatype jsval = JUndef | JNull | JBool bool | JNum jsnum | JStr string

text \<open>A JSON object (\<open>req.body\<close>), as the list of its key/value pairs.\<close>

type_synonym jsobj = "(string \<times> jsval) list"

text \<open>
  Property access \<open>o.k\<close>: \<open>undefined\<close> when the key is absent; of duplicate
  keys, \<open>JSON.parse\<close> keeps the last.
\<close>

definition js_get :: "jsobj \<Rightarrow> string \<Rightarrow> jsval" where
  "js_get obj k = (case map_of (rev obj) k of None \<Rightarrow> JUndef | Some v \<Rightarrow> v)"

fun truthy :: "jsval \<Rightarrow> bool" where
  "truthy JUndef = False"
| "truthy JNull = False"
| "truthy (JBool b) = b"
| "truthy (JNum NaN) = False"
| "truthy (JNum (Num n)) = (n \<noteq> 0)"
| "truthy (JStr s) = (s \<noteq> [])"

text \<open>\<open>a || b\<close>.\<close>

definition js_or :: "jsval \<Rightarrow> jsval \<Rightarrow> jsval" where
  "js_or a b = (if truthy a then a else b)"

subsection \<open>Digits, signs and white space\<close>

definition is_digit :: "char \<Rightarrow> bool" where
  "is_digit c \<longleftrightarrow> (let n = (of_char c :: nat) in 48 \<le> n \<and> n \<le> 57)"

definition js_ws :: "char \<Rightarrow> bool" where
  "js_ws c \<longleftrightarrow> of_char c \<in> {9, 10, 11, 12, 13, 32, 160::nat}"

definition digit_val :: "char \<Rightarrow> nat" where
  "digit_val c = of_char c - 48"

definition digits_val :: "string \<Rightarrow> nat" where
  "digits_val ds = foldl (\<lambda>acc c. 10 * acc + digit_val c) 0 ds"

definition split_sign :: "string \<Rightarrow> int \<times> string" where
  "split_sign s =
     (if s \<noteq> [] \<and> hd s = CHR ''-'' then (-1, tl s)
      else if s \<noteq> [] \<and> hd s = CHR ''+'' then (1, tl s)
      else (1, s))"

subsection \<open>\<open>parseInt(s, 10)\<close>\<close>

text \<open>
  Leading white space is skipped, one sign is read, then the longest prefix of
  decimal digits; no digit at all is \<open>NaN\<close> (here \<open>None\<close>). Trailing characters
  are ignored, so \<open>parseInt("12abc", 10) = 12\<close>.
\<close>

definition parse_int10 :: "string \<Rightarrow> int option" where
  "parse_int10 s =
     (let (sg, r) = split_sign (dropWhile js_ws s);
          z = takeWhile is_digit r
      in if z = [] then None else Some (sg * int (digits_val z)))"

subsection \<open>\<open>Number(x)\<close>\<close>

definition trim_ws :: "string \<Rightarrow> string" where
  "trim_ws s = rev (dropWhile js_ws (rev (dropWhile js_ws s)))"

definition str_to_number :: "string \<Rightarrow> jsnum" where
  "str_to_number s =
     (let t = trim_ws s
      in if t = [] then Num 0
         else (let (sg, r) = split_sign t
               in if r \<noteq> [] \<and> list_all is_digit r then Num (sg * int (digits_val r))
                  else NaN))"

fun to_number :: "jsval \<Rightarrow> jsnum" where
  "to_number JUndef = NaN"
| "to_number JNull = Num 0"
| "to_number (JBool b) = Num (if b then 1 else 0)"
| "to_number (JNum n) = n"
| "to_number (JStr s) = str_to_number s"

text \<open>\<open>Number(x) || 0\<close>: \<open>NaN\<close> is falsy and becomes 0; every other number is kept.\<close>

definition number_or_zero :: "jsval \<Rightarrow> int" where
  "number_or_zero x = (case to_number x of NaN \<Rightarrow> 0 | Num n \<Rightarrow> n)"

subsection \<open>\<open>String(n)\<close> for a non-negative integer\<close>

definition digit_char :: "nat \<Rightarrow> char" where
  "digit_char d = char_of (48 + d)"

fun dec_str :: "nat \<Rightarrow> string" where
  "dec_str n = (if n < 10 then [digit_char n] else dec_str (n div 10) @ [digit_char (n mod 10)])"

declare dec_str.simps [simp del]

text \<open>\<open>String(n)\<close> for an integer.\<close>

definition int_str :: "int \<Rightarrow> string" where
  "int_str n = (if n < 0 then ''-'' @ dec_str (nat (- n)) else dec_str (nat n))"

subsection \<open>\<open>parseInt(s)\<close> without a radix\<close>

text \<open>
  With the radix left out, a \<open>0x\<close> or \<open>0X\<close> after the sign selects
  radix 16 (then the longest prefix of hexadecimal digits is read, none being
  \<open>NaN\<close>); any other string is read as by \<open>parseInt(s, 10)\<close>. Values are
  exact integers: JavaScript rounds those above \<open>2^53\<close>, which no id of the
  app reaches.
\<close>

definition hex_digit :: "char \<Rightarrow> bool" where
  "hex_digit c \<longleftrightarrow>
     is_digit c \<or> (let n = (of_char c :: nat) in 97 \<le> n \<and> n \<le> 102 \<or> 65 \<le> n \<and> n \<le> 70)"

definition hex_val :: "char \<Rightarrow> nat" where
  "hex_val c = (let n = (of_char c :: nat) in if n \<le> 57 then n - 48 else if n \<le> 70 then n - 55 else n - 87)"

definition parse_int :: "string \<Rightarrow> int option" where
  "parse_int s =
     (let (sg, r) = split_sign (dropWhile js_ws s)
      in if take 2 r = ''0x'' \<or> take 2 r = ''0X''
         then (let z = takeWhile hex_digit (drop 2 r)
               in if z = [] then None else Some (sg * int (foldl (\<lambda>acc c. 16 * acc + hex_val c) 0 z)))
         else parse_int10 s)"

subsection \<open>\<open>String.prototype.toLowerCase\<close>\<close>

text \<open>Of the characters modelled, \<open>A-Z\<close> and the Latin-1 capitals \<open>U+00C0-U+00DE\<close> but \<open>U+00D7\<close> have a lower-case form.\<close>

definition js_lower_char :: "char \<Rightarrow> char" where
  "js_lower_char c =
     (let n = (of_char c :: nat)
      in if 65 \<le> n \<and> n \<le> 90 \<or> 192 \<le> n \<and> n \<le> 222 \<and> n \<noteq> 215 then char_of (n + 32) else c)"

definition js_lower :: "string \<Rightarrow> string" where
  "js_lower s = map js_lower_char s"

subsection \<open>The object \<open>JSON.parse\<close> builds\<close>

text \<open>Each key once, in the order of its first occurrence, with the value of its last.\<close>

definition js_object :: "jsobj \<Rightarrow> jsobj" where
  "js_object obj = map (\<lambda>k. (k, js_get obj k)) (remdups (map fst obj))"

subsection \<open>\<open>Array.prototype.findIndex\<close>\<close>

text \<open>The index of the first element that satisfies the test; \<open>None\<close> for \<open>-1\<close>.\<close>

fun find_index :: "('a \<Rightarrow> bool) \<Rightarrow> 'a list \<Rightarrow> nat option" where
  "find_index P [] = None"
| "find_index P (x # xs) = (if P x then Some 0 else map_option Suc (find_index P xs))"

subsection \<open>Lemmas\<close>

lemma find_eq_find_index: "find P xs = map_option (\<lambda>i. xs ! i) (find_index P xs)"
  by (induction xs) (auto simp: option.map_comp comp_def)

lemma find_index_SomeD:
  "find_index P xs = Some i \<Longrightarrow> i < length xs \<and> P (xs ! i) \<and> (\<forall>j<i. \<not> P (xs ! j))"
proof (induction xs arbitrary: i)
  case Nil then show ?case by simp
next
  case (Cons x xs)
  then show ?case
    by (auto split: if_splits simp: less_Suc_eq_0_disj)
qed

lemma find_index_None_iff:
  "find_index P xs = None \<longleftrightarrow> (\<forall>x\<in>set xs. \<not> P x)"
  by (induction xs) auto

lemma find_index_nth:
  "i < length xs \<Longrightarrow> P (xs ! i) \<Longrightarrow> (\<forall>j<i. \<not> P (xs ! j)) \<Longrightarrow> find_index P xs = Some i"
proof (induction xs arbitrary: i)
  case Nil then show ?case by simp
next
  case (Cons x xs)
  show ?case
  proof (cases i)
    case 0 with Cons.prems show ?thesis by simp
  next
    case (Suc k)
    with Cons.prems have "\<not> P x" by auto
    moreover from Cons.prems Suc have "find_index P xs = Some k"
      by (intro Cons.IH) auto
    ultimately show ?thesis using Suc by simp
  qed
qed

lemma digit_char_props:
  assumes "d < 10"
  shows "is_digit (digit_char d)" "digit_val (digit_char d) = d" "\<not> js_ws (digit_char d)"
    "digit_char d \<noteq> CHR ''-''" "digit_char d \<noteq> CHR ''+''"
proof -
  have oc: "(of_char (digit_char d) :: nat) = 48 + d"
    using assms by (simp add: digit_char_def)
  show "is_digit (digit_char d)" using assms oc by (simp add: is_digit_def)
  show "digit_val (digit_char d) = d" using oc by (simp add: digit_val_def)
  show "\<not> js_ws (digit_char d)" using oc assms by (auto simp: js_ws_def)
  show "digit_char d \<noteq> CHR ''-''"
  proof
    assume "digit_char d = CHR ''-''"
    then have "(of_char (digit_char d) :: nat) = of_char (CHR ''-'')" by simp
    with oc show False by simp
  qed
  show "digit_char d \<noteq> CHR ''+''"
  proof
    assume "digit_char d = CHR ''+''"
    then have "(of_char (digit_char d) :: nat) = of_char (CHR ''+'')" by simp
    with oc show False by simp
  qed
qed


lemma dec_str_ne: "dec_str n \<noteq> []"
  by (subst dec_str.simps) simp

lemma dec_str_digits: "list_all is_digit (dec_str n)"
proof (induction n rule: dec_str.induct)
  case (1 n)
  then show ?case
    by (subst dec_str.simps) (simp add: digit_char_props)
qed

lemma digits_val_snoc: "digits_val (ds @ [c]) = 10 * digits_val ds + digit_val c"
  by (simp add: digits_val_def)

lemma digits_val_dec_str: "digits_val (dec_str n) = n"
proof (induction n rule: dec_str.induct)
  case (1 n)
  show ?case
  proof (cases "n < 10")
    case True
    then show ?thesis
      by (subst dec_str.simps) (simp add: digits_val_def digit_char_props)
  next
    case False
    with "1.IH" have "digits_val (dec_str (n div 10)) = n div 10" by simp
    with False show ?thesis
      by (subst dec_str.simps) (simp add: digits_val_snoc digit_char_props)
  qed
qed

lemma digit_not_ws_sign:
  "is_digit c \<Longrightarrow> \<not> js_ws c \<and> c \<noteq> CHR ''-'' \<and> c \<noteq> CHR ''+''"
  by (auto simp: is_digit_def js_ws_def)

lemma parse_int10_digits:
  assumes "ds \<noteq> []" and "list_all is_digit ds" and "rest = [] \<or> \<not> is_digit (hd rest)"
  shows "parse_int10 (ds @ rest) = Some (int (digits_val ds))"
proof -
  let ?s = "ds @ rest"
  have h: "is_digit (hd ?s)" using assms(1,2) by (cases ds) simp_all
  have "dropWhile js_ws ?s = ?s"
    using h assms(1) digit_not_ws_sign by (simp add: dropWhile_eq_self_iff)
  moreover have "split_sign ?s = (1, ?s)"
    using h assms(1) digit_not_ws_sign by (simp add: split_sign_def)
  moreover have "takeWhile is_digit ?s = ds"
    using assms(2,3) by (auto simp: list_all_iff takeWhile_eq_Nil_iff)
  ultimately show ?thesis
    using assms(1) by (simp add: parse_int10_def)
qed

lemma parse_int10_dec_str [simp]: "parse_int10 (dec_str n) = Some (int n)"
  using parse_int10_digits [OF dec_str_ne dec_str_digits, of "[]"]
  by (simp add: digits_val_dec_str)

lemma str_to_number_dec_str: "str_to_number (dec_str n) = Num (int n)"
proof -
  have ne: "dec_str n \<noteq> []" by (rule dec_str_ne)
  have "\<forall>c\<in>set (dec_str n). \<not> js_ws c"
    using dec_str_digits [of n] by (auto simp: list_all_iff is_digit_def js_ws_def Let_def)
  then have "trim_ws (dec_str n) = dec_str n"
    by (simp add: trim_ws_def dropWhile_all_not)
  moreover have "is_digit (hd (dec_str n))"
    using ne dec_str_digits [of n] by (cases "dec_str n") simp_all
  ultimately show ?thesis
    using ne dec_str_digits [of n] digit_not_ws_sign
    by (simp add: str_to_number_def split_sign_def digits_val_dec_str)
qed

lemma parse_int_digits:
  assumes "list_all is_digit s" and "s \<noteq> []"
  shows "parse_int s = parse_int10 s"
proof -
  have h: "is_digit (hd s)" using assms by (cases s) simp_all
  have d: "dropWhile js_ws s = s"
    using h assms(2) digit_not_ws_sign by (simp add: dropWhile_eq_self_iff)
  have sp: "split_sign s = (1, s)"
    using h assms(2) digit_not_ws_sign by (simp add: split_sign_def)
  have x: "\<not> is_digit (CHR ''x'')" "\<not> is_digit (CHR ''X'')" by (simp_all add: is_digit_def)
  have "take 2 s \<noteq> ''0x'' \<and> take 2 s \<noteq> ''0X''"
  proof (intro conjI notI)
    assume "take 2 s = ''0x''"
    then have "CHR ''x'' \<in> set s" using set_take_subset [of 2 s] by auto
    with assms(1) x show False by (auto simp: list_all_iff)
  next
    assume "take 2 s = ''0X''"
    then have "CHR ''X'' \<in> set s" using set_take_subset [of 2 s] by auto
    with assms(1) x show False by (auto simp: list_all_iff)
  qed
  then show ?thesis by (simp add: parse_int_def d sp)
qed

lemma parse_int_dec_str [simp]: "parse_int (dec_str n) = Some (int n)"
  using parse_int_digits [OF dec_str_digits dec_str_ne] by simp

lemma js_object_distinct:
  assumes "distinct (map fst obj)"
  shows "js_object obj = obj"
proof -
  have d: "distinct (map fst (rev obj))" using assms by (simp add: rev_map [symmetric])
  have "\<forall>p\<in>set obj. (fst p, js_get obj (fst p)) = p"
    using map_of_is_SomeI [OF d] by (auto simp: js_get_def)
  then have "map (\<lambda>p. (fst p, js_get obj (fst p))) obj = obj" by (intro map_idI) blast
  with assms show ?thesis by (simp add: js_object_def comp_def distinct_remdups_id)
qed

lemma js_object_single [simp]: "js_object [(k, v)] = [(k, v)]"
  by (simp add: js_object_def js_get_def)

lemma number_or_zero_Num [simp]: "number_or_zero (JNum (Num n)) = n"
  by (simp add: number_or_zero_def)

subsection \<open>Properties\<close>

text \<open>
  The decimal string \<open>String(n)\<close> of a booking id, as the dashboards put
  it into \<open>/bookings/${id}/status\<close>, is read back by \<open>parseInt(_, 10)\<close> as
  \<open>n\<close>, also when non-digit characters follow it (\<open>parseInt("7abc", 10)\<close> is 7).
\<close>

theorem parse_int10_roundtrip:
  assumes "rest = [] \<or> \<not> is_digit (hd rest)"
  shows "parse_int10 (dec_str n @ rest) = Some (int n)"
  using parse_int10_digits [OF dec_str_ne dec_str_digits assms] by (simp add: digits_val_dec_str)

theorem parse_int10_roundtrip_witness: "parse_int10 (dec_str 7 @ ''abc'') = Some 7"
proof -
  have "\<not> is_digit (hd ''abc'')" by (simp add: is_digit_def)
  then show ?thesis using parse_int10_roundtrip [of "''abc''" 7] by simp
qed

end
