(* ===== verification/Booking.thy ===== *)
theory Booking
  imports JsValue
begin

text \<open>
  The booking record of \<open>backend/routes/bookings.js\<close> (the shape documented in
  its lines 10-26), its controlled status vocabulary (line 120), the roles of the
  user model (\<open>backend/models/User.js\<close>, the enum of the \<open>role\<close> field) and the
  caller identity the \<open>auth\<close> middleware puts into \<open>req.user\<close>.
\<close>

datatype status = Pending | Confirmed | In_progress | Completed | Declined | Cancelled

fun status_str :: "status \<Rightarrow> string" where
  "status_str Pending = ''pending''"
| "status_str Confirmed = ''confirmed''"
| "status_str In_progress = ''in_progress''"
| "status_str Completed = ''completed''"
| "status_str Declined = ''declined''"
| "status_str Cancelled = ''cancelled''"

text \<open>\<open>const allowed = ['pending', 'confirmed', 'in_progress', 'completed', 'declined', 'cancelled']\<close>\<close>

definition allowed :: "status list" where
  "allowed = [Pending, Confirmed, In_progress, Completed, Declined, Cancelled]"

text \<open>
  \<open>allowed.includes(status)\<close> on the request's \<open>status\<close> value: only a string
  equal to one of the six names passes, and the booking then stores that name.
\<close>

definition parse_status :: "jsval \<Rightarrow> status option" where
  "parse_status v = find (\<lambda>st. v = JStr (status_str st)) allowed"

datatype role = Customer | Maid | Admin

fun role_str :: "role \<Rightarrow> string" where
  "role_str Customer = ''customer''"
| "role_str Maid = ''maid''"
| "role_str Admin = ''admin''"

text \<open>\<open>req.user\<close> as the booking routes read it: its \<open>id\<close> and its \<open>role\<close>.\<close>

record identity =
  uid :: user_id
  urole :: role

text \<open>
  A stored booking. \<open>id\<close> is \<open>booking_id\<close> (\<open>id\<close> is the identity function of
  HOL); the descriptive fields keep the JSON values the request carried;
  timestamps are the clock readings \<open>new Date()\<close> returned.
\<close>

record booking =
  booking_id :: nat
  customerId :: user_id
  maidId :: jsval
  service :: jsval
  date :: jsval
  time :: jsval
  address :: jsval
  amount :: int
  specialInstructions :: jsval
  status :: status
  createdAt :: nat
  updatedAt :: nat

subsection \<open>Lemmas\<close>

lemma status_str_inj: "status_str a = status_str b \<longleftrightarrow> a = b"
  by (cases a; cases b) simp_all

lemma set_allowed [simp]: "set allowed = UNIV"
proof -
  have "st \<in> set allowed" for st
    by (cases st) (simp_all add: allowed_def)
  then show ?thesis by blast
qed

lemma parse_status_SomeD: "parse_status v = Some st \<Longrightarrow> v = JStr (status_str st)"
  by (auto simp: parse_status_def dest: find_Some_iff [THEN iffD1])

lemma parse_status_str [simp]: "parse_status (JStr (status_str st)) = Some st"
  by (cases st) (simp_all add: parse_status_def allowed_def)

subsection \<open>Properties\<close>

text \<open>
  The status check of \<open>PUT /:id/status\<close> accepts exactly the six status
  names: a request value passes as status \<open>st\<close> if and only if it is the string
  \<open>status_str st\<close>; any other value (another string, a number, a missing field)
  is refused.
\<close>

theorem parse_status_roundtrip: "parse_status v = Some st \<longleftrightarrow> v = JStr (status_str st)"
  using parse_status_SomeD parse_status_str by blast

theorem parse_status_roundtrip_witness:
  "parse_status (JStr ''in_progress'') = Some In_progress \<and> parse_status (JStr ''Confirmed'') \<noteq> Some Confirmed"
  using parse_status_roundtrip [of "JStr ''in_progress''" In_progress]
    parse_status_roundtrip [of "JStr ''Confirmed''" Confirmed] by simp

end
