(* ===== verification/Auth.thy ===== *)
theory Auth
  imports Booking
begin

text \<open>
  Users and authentication: the user document of \<open>backend/models/User.js\<close>
  (the fields the backend reads or writes; \<open>rating\<close> is
  \<open>profile.rating.average\<close>, default 0; a profile update carrying a nested
  \<open>profile\<close> object, which could set it, is not modelled), the \<open>auth\<close> middleware of
  \<open>backend/middleware/auth.js\<close>, and the handlers of
  \<open>backend/controllers/authController.js\<close> behind \<open>backend/routes/auth.js\<close>.
  The MongoDB collection is a list of documents with a counter from which
  \<open>new User(...)\<close> draws a fresh \<open>_id\<close>; the unique index on \<open>email\<close> is a
  check at save time. bcrypt is modelled symbolically: a password that went
  through the \<open>pre('save')\<close> hook is stored as \<open>Hashed p\<close>, a string written
  by an update that bypasses the hook as \<open>Plain p\<close>, and \<open>bcrypt.compare\<close>
  accepts a candidate only against the hash of that candidate (bcryptjs answers
  \<open>false\<close> for a stored string that is no 60-character hash). A JWT is the
  claims it was signed with; \<open>jwt.verify\<close> is a parameter that yields the
  \<open>id\<close> claim of a token it accepts (signature and expiry are the library's).
  \<open>validator.isEmail\<close> and \<open>normalizeEmail\<close> are parameters as well.
\<close>

datatype pw = Hashed string | Plain string

record user =
  user_oid :: string
  name :: string
  email :: string
  password :: pw
  role :: role
  phone :: string
  isActive :: bool
  rating :: int

record user_db =
  users :: "user list"
  nextOid :: nat

definition oid :: "nat \<Rightarrow> string" where
  "oid n = ''oid'' @ dec_str n"

text \<open>\<open>user.comparePassword(candidate)\<close> (User.js lines 86-88).\<close>

fun bcrypt_compare :: "string \<Rightarrow> pw \<Rightarrow> bool" where
  "bcrypt_compare c (Hashed p) = (c = p)"
| "bcrypt_compare c (Plain h) = False"

text \<open>Reading a string field of the request body (the validators ran on strings).\<close>

fun str_of :: "jsval \<Rightarrow> string" where
  "str_of (JStr s) = s"
| "str_of _ = ''''"

text \<open>The \<open>role\<close> enum of the schema (User.js lines 23-27): any other value fails validation.\<close>

definition role_of :: "jsval \<Rightarrow> role option" where
  "role_of v = find (\<lambda>r. v = JStr (role_str r)) [Customer, Maid, Admin]"

text \<open>The claims \<open>generateToken\<close> signs (authController.js lines 6-10, 47-51).\<close>

record claims =
  cl_id :: string
  cl_role :: role
  cl_email :: string

definition token_of :: "user \<Rightarrow> claims" where
  "token_of u = \<lparr>cl_id = user_oid u, cl_role = role u, cl_email = email u\<rparr>"

definition identity_of :: "user \<Rightarrow> identity" where
  "identity_of u = \<lparr>uid = user_oid u, urole = role u\<rparr>"

subsection \<open>The \<open>auth\<close> middleware\<close>

text \<open>
  Lines 4-35 of auth.js: the header must start with \<open>Bearer \<close>; the rest must
  verify; the user it names must still exist. Every failure is 401. An \<open>id\<close>
  claim that is no well-formed ObjectId makes \<open>findById\<close> throw, which the
  \<open>catch\<close> answers with \<open>Invalid token.\<close>; ids are abstract strings here, so
  such a token is answered by the not-found branch, with the same status 401.
\<close>

definition auth_mw ::
  "(string \<Rightarrow> string option) \<Rightarrow> user_db \<Rightarrow> string option \<Rightarrow> (nat \<times> string) + user" where
  "auth_mw verify db hdr =
     (case hdr of
        None \<Rightarrow> Inl (401, ''Access denied. No valid token provided.'')
      | Some h \<Rightarrow>
          if take 7 h \<noteq> ''Bearer '' then Inl (401, ''Access denied. No valid token provided.'')
          else (case verify (drop 7 h) of
                  None \<Rightarrow> Inl (401, ''Invalid token.'')
                | Some i \<Rightarrow> (case find (\<lambda>u. user_oid u = i) (users db) of
                              None \<Rightarrow> Inl (401, ''Token is no longer valid.'')
                            | Some u \<Rightarrow> Inr u)))"

subsection \<open>The schema's setters and validators\<close>

text \<open>
  The \<open>match\<close> validator of \<open>email\<close> (User.js line 16),
  \<open>/^\w+([\.-]?\w+)*@\w+([\.-]?\w+)*(\.\w{2,3})+$/\<close>, as a decision
  procedure: \<open>\w\<close> is \<open>[A-Za-z0-9_]\<close>; \<open>\w+([\.-]?\w+)*\<close> is a
  non-empty word that starts and ends with a word character and has no two
  separators \<open>.\<close>, \<open>-\<close> in a row; \<open>(\.\w{2,3})+\<close> is one or more
  groups of a dot and two or three word characters.
\<close>

definition is_word_char :: "char \<Rightarrow> bool" where
  "is_word_char c \<longleftrightarrow>
     is_digit c \<or> c = CHR ''_'' \<or> (let n = (of_char c :: nat) in 65 \<le> n \<and> n \<le> 90 \<or> 97 \<le> n \<and> n \<le> 122)"

definition is_sep :: "char \<Rightarrow> bool" where
  "is_sep c \<longleftrightarrow> c = CHR ''.'' \<or> c = CHR ''-''"

fun no_double_sep :: "string \<Rightarrow> bool" where
  "no_double_sep (a # b # cs) = (\<not> (is_sep a \<and> is_sep b) \<and> no_double_sep (b # cs))"
| "no_double_sep _ = True"

definition word_seq :: "string \<Rightarrow> bool" where
  "word_seq w \<longleftrightarrow>
     w \<noteq> [] \<and> is_word_char (hd w) \<and> is_word_char (last w) \<and>
     list_all (\<lambda>c. is_word_char c \<or> is_sep c) w \<and> no_double_sep w"

fun tld_groups :: "string \<Rightarrow> bool" where
  "tld_groups [] = False"
| "tld_groups (c # cs) =
     (c = CHR ''.'' \<and>
      (2 \<le> length cs \<and> list_all is_word_char (take 2 cs) \<and> (drop 2 cs = [] \<or> tld_groups (drop 2 cs)) \<or>
       3 \<le> length cs \<and> list_all is_word_char (take 3 cs) \<and> (drop 3 cs = [] \<or> tld_groups (drop 3 cs))))"

definition email_match :: "string \<Rightarrow> bool" where
  "email_match e \<longleftrightarrow>
     (let l = takeWhile (\<lambda>c. c \<noteq> CHR ''@'') e; r = dropWhile (\<lambda>c. c \<noteq> CHR ''@'') e
      in r \<noteq> [] \<and> word_seq l \<and>
         list_ex (\<lambda>i. word_seq (take i (tl r)) \<and> tld_groups (drop i (tl r))) [1..<length (tl r)])"

text \<open>
  Mongoose's cast of a JSON value to a \<open>String\<close> path: strings as they are,
  numbers and booleans through \<open>String(...)\<close>; \<open>null\<close> (here \<open>None\<close>)
  stays \<open>null\<close>, which the \<open>required\<close> validators refuse.
\<close>

fun mg_str :: "jsval \<Rightarrow> string option" where
  "mg_str (JStr s) = Some s"
| "mg_str (JNum (Num n)) = Some (int_str n)"
| "mg_str (JBool b) = Some (if b then ''true'' else ''false'')"
| "mg_str _ = None"

text \<open>
  Mongoose's cast to the \<open>Boolean\<close> path \<open>isActive\<close>: \<open>true\<close>, \<open>'true'\<close>,
  \<open>1\<close>, \<open>'1'\<close>, \<open>'yes'\<close> and their negative counterparts; anything else is a
  cast error (\<open>None\<close>). \<open>null\<close> is stored as \<open>null\<close>, which the only reader,
  \<open>find({ isActive: true })\<close> of users.js, treats as not active: it is
  written \<open>False\<close>.
\<close>

fun mg_bool :: "jsval \<Rightarrow> bool option" where
  "mg_bool (JBool b) = Some b"
| "mg_bool JNull = Some False"
| "mg_bool (JNum (Num n)) = (if n = 1 then Some True else if n = 0 then Some False else None)"
| "mg_bool (JStr s) =
     (if s \<in> {''true'', ''1'', ''yes''} then Some True
      else if s \<in> {''false'', ''0'', ''no''} then Some False else None)"
| "mg_bool _ = None"

subsection \<open>Registration\<close>

text \<open>The \<open>registerValidation\<close> chain of routes/auth.js (lines 9-14).\<close>

definition register_valid :: "(string \<Rightarrow> bool) \<Rightarrow> jsobj \<Rightarrow> bool" where
  "register_valid is_email body \<longleftrightarrow>
     (let n = trim_ws (str_of (js_get body ''name'')) in 2 \<le> length n \<and> length n \<le> 100) \<and>
     is_email (str_of (js_get body ''email'')) \<and>
     6 \<le> length (str_of (js_get body ''password'')) \<and>
     str_of (js_get body ''phone'') \<noteq> []"

text \<open>
  \<open>exports.register\<close> (authController.js lines 13-73) in its two phases around
  the awaits: first the validation, the \<open>findOne({email})\<close> check and
  \<open>new User(...)\<close>; then \<open>user.save()\<close>, where the role enum, the email
  \<open>match\<close> validator and the unique index may still refuse the document (all
  end in the \<open>catch\<close>, 500). The schema's \<open>lowercase\<close> setter applies to the
  new document and to the query. The name validators (\<open>required\<close>, \<open>trim\<close>,
  \<open>maxlength\<close> 100) and the password and phone validators pass whenever the
  route's validation chain did.
\<close>

definition register_check ::
  "(string \<Rightarrow> bool) \<Rightarrow> (string \<Rightarrow> string) \<Rightarrow> jsobj \<Rightarrow> user_db \<Rightarrow>
     ((nat \<times> string) + (user \<times> jsval)) \<times> user_db" where
  "register_check is_email norm_email body db =
     (if \<not> register_valid is_email body then (Inl (400, ''validation errors''), db)
      else
        (let e = js_lower (norm_email (str_of (js_get body ''email'')))
         in if (\<exists>u\<in>set (users db). email u = e)
            then (Inl (400, ''User with this email already exists''), db)
            else
              (let u = \<lparr>user_oid = oid (nextOid db),
                        name = trim_ws (str_of (js_get body ''name'')),
                        email = e, password = Hashed (str_of (js_get body ''password'')),
                        role = Customer, phone = str_of (js_get body ''phone''),
                        isActive = True, rating = 0\<rparr>
               in (Inr (u, js_or (js_get body ''role'') (JStr ''customer'')),
                   db\<lparr>nextOid := Suc (nextOid db)\<rparr>))))"

definition register_save ::
  "user \<times> jsval \<Rightarrow> user_db \<Rightarrow> (user \<times> claims) reply \<times> user_db" where
  "register_save ur db =
     (let (u, rv) = ur
      in case role_of rv of
           None \<Rightarrow> (Err 500 ''Internal server error during registration'', db)
         | Some r \<Rightarrow>
             if \<not> email_match (email u) then (Err 500 ''Internal server error during registration'', db)
             else if (\<exists>v\<in>set (users db). email v = email u)
             then (Err 500 ''Internal server error during registration'', db)
             else (let u' = u\<lparr>role := r\<rparr>
                   in (Ok 201 (u', token_of u'), db\<lparr>users := users db @ [u']\<rparr>)))"

definition register ::
  "(string \<Rightarrow> bool) \<Rightarrow> (string \<Rightarrow> string) \<Rightarrow> jsobj \<Rightarrow> user_db \<Rightarrow> (user \<times> claims) reply \<times> user_db" where
  "register is_email norm_email body db =
     (case register_check is_email norm_email body db of
        (Inl (c, m), db') \<Rightarrow> (Err c m, db')
      | (Inr ur, db') \<Rightarrow> register_save ur db')"

subsection \<open>Login and profile\<close>

text \<open>
  \<open>exports.login\<close> (lines 76-133) after \<open>loginValidation\<close> (lines 16-19);
  the \<open>lowercase\<close> setter also casts the query's email.
\<close>

definition login ::
  "(string \<Rightarrow> bool) \<Rightarrow> (string \<Rightarrow> string) \<Rightarrow> jsobj \<Rightarrow> user_db \<Rightarrow> (user \<times> claims) reply" where
  "login is_email norm_email body db =
     (let e = str_of (js_get body ''email''); p = str_of (js_get body ''password'')
      in if \<not> (is_email e \<and> p \<noteq> []) then Err 400 ''validation errors''
         else (case find (\<lambda>u. email u = js_lower (norm_email e)) (users db) of
                 None \<Rightarrow> Err 401 ''Invalid email or password''
               | Some u \<Rightarrow>
                   if \<not> bcrypt_compare p (password u) then Err 401 ''Invalid email or password''
                   else Ok 200 (u, token_of u)))"

text \<open>\<open>exports.getProfile\<close> (lines 136-159).\<close>

definition get_profile :: "identity \<Rightarrow> user_db \<Rightarrow> user reply" where
  "get_profile me db =
     (case find (\<lambda>u. user_oid u = uid me) (users db) of
        None \<Rightarrow> Err 404 ''User not found''
      | Some u \<Rightarrow> Ok 200 u)"

text \<open>
  One field of \<open>req.body\<close> written by \<open>findByIdAndUpdate\<close> with
  \<open>runValidators\<close>: each value is cast and run through the path's setters
  and then its validators (User.js lines 5-31): \<open>name\<close> is trimmed, then
  required and at most 100 characters; \<open>email\<close> is lower-cased, then required
  and matched; \<open>password\<close> needs 6 characters and, the save hook not running,
  is stored as given; \<open>role\<close> must be in the enum; \<open>phone\<close> is required;
  \<open>isActive\<close> is cast to a boolean. Keys outside the schema are dropped by
  Mongoose's strict mode; the schema paths the user record does not hold
  (\<open>address\<close>, \<open>profile\<close>, \<open>_id\<close>, the timestamps) are not modelled and
  left aside. \<open>None\<close> is a cast or validation failure.
\<close>

fun set_field :: "user \<Rightarrow> string \<times> jsval \<Rightarrow> user option" where
  "set_field u (k, v) =
     (if k = ''name'' then
        (case mg_str v of
           Some s \<Rightarrow> (let t = trim_ws s in if t \<noteq> [] \<and> length t \<le> 100 then Some (u\<lparr>name := t\<rparr>) else None)
         | None \<Rightarrow> None)
      else if k = ''email'' then
        (case mg_str v of
           Some s \<Rightarrow> (let e = js_lower s in if e \<noteq> [] \<and> email_match e then Some (u\<lparr>email := e\<rparr>) else None)
         | None \<Rightarrow> None)
      else if k = ''password'' then
        (case mg_str v of
           Some p \<Rightarrow> if 6 \<le> length p then Some (u\<lparr>password := Plain p\<rparr>) else None
         | None \<Rightarrow> None)
      else if k = ''role'' then
        (case mg_str v of Some r \<Rightarrow> map_option (\<lambda>r. u\<lparr>role := r\<rparr>) (role_of (JStr r)) | None \<Rightarrow> None)
      else if k = ''phone'' then
        (case mg_str v of Some p \<Rightarrow> if p \<noteq> [] then Some (u\<lparr>phone := p\<rparr>) else None | None \<Rightarrow> None)
      else if k = ''isActive'' then map_option (\<lambda>b. u\<lparr>isActive := b\<rparr>) (mg_bool v)
      else Some u)"

fun apply_update :: "user \<Rightarrow> jsobj \<Rightarrow> user option" where
  "apply_update u [] = Some u"
| "apply_update u (kv # kvs) = (case set_field u kv of None \<Rightarrow> None | Some u' \<Rightarrow> apply_update u' kvs)"

text \<open>
  \<open>exports.updateProfile\<close> (lines 162-184): the whole parsed body is the
  update; a cast or validation error or a duplicate email (unique index) ends
  in the \<open>catch\<close>.
\<close>

definition update_profile :: "identity \<Rightarrow> jsobj \<Rightarrow> user_db \<Rightarrow> user reply \<times> user_db" where
  "update_profile me body db =
     (case find_index (\<lambda>u. user_oid u = uid me) (users db) of
        None \<Rightarrow> (Err 500 ''Internal server error'', db)
      | Some i \<Rightarrow>
          (case apply_update (users db ! i) (js_object body) of
             None \<Rightarrow> (Err 500 ''Internal server error'', db)
           | Some u' \<Rightarrow>
               if (\<exists>j<length (users db). j \<noteq> i \<and> email (users db ! j) = email u')
               then (Err 500 ''Internal server error'', db)
               else (Ok 200 u', db\<lparr>users := (users db)[i := u']\<rparr>)))"

subsection \<open>The user collection as a state machine\<close>

text \<open>
  The databases the handlers can produce, with the two phases of a registration
  as separate steps so that registrations interleave at their await point: a
  save commits a document that a check produced on some reachable database,
  checks and saves of several requests in any order.
\<close>

inductive udb_reach :: "user_db \<Rightarrow> bool" where
  init: "udb_reach \<lparr>users = [], nextOid = 0\<rparr>"
| check: "udb_reach db \<Longrightarrow> register_check ie ne b db = (r, db') \<Longrightarrow> udb_reach db'"
| save: "udb_reach db0 \<Longrightarrow> register_check ie ne b db0 = (Inr ur, db1) \<Longrightarrow>
          udb_reach db \<Longrightarrow> register_save ur db = (r, db') \<Longrightarrow> udb_reach db'"
| update: "udb_reach db \<Longrightarrow> update_profile me b db = (r, db') \<Longrightarrow> udb_reach db'"

subsection \<open>Example data\<close>

abbreviation reg_body :: jsobj where
  "reg_body \<equiv> [(''name'', JStr ''Asha''), (''email'', JStr ''asha@example.in''),
     (''password'', JStr ''secret1''), (''phone'', JStr ''9000000000''), (''role'', JStr ''admin'')]"

abbreviation empty_db :: user_db where
  "empty_db \<equiv> \<lparr>users = [], nextOid = 0\<rparr>"

abbreviation reg_db :: user_db where
  "reg_db \<equiv> snd (register (\<lambda>_. True) id reg_body empty_db)"

abbreviation demo_verify :: "string \<Rightarrow> string option" where
  "demo_verify \<equiv> (\<lambda>t. if t = ''tok'' then Some (oid 0) else None)"

subsection \<open>Lemmas\<close>

lemma register_check_users: "register_check ie ne b db = (r, db') \<Longrightarrow> users db' = users db"
  by (auto simp: register_check_def Let_def split: if_splits)

lemma register_save_cases:
  "register_save (u, rv) db = (r, db') \<Longrightarrow>
     (db' = db \<and> \<not> is_ok r) \<or>
     (\<exists>ro. role_of rv = Some ro \<and> (\<forall>v\<in>set (users db). email v \<noteq> email u) \<and>
        r = Ok 201 (u\<lparr>role := ro\<rparr>, token_of (u\<lparr>role := ro\<rparr>)) \<and>
        db' = db\<lparr>users := users db @ [u\<lparr>role := ro\<rparr>]\<rparr>)"
  by (auto simp: register_save_def Let_def split: option.splits if_splits)

lemma find_append_None: "find P xs = None \<Longrightarrow> find P (xs @ ys) = find P ys"
  by (induction xs) (auto split: if_splits)

lemma register_save_distinct:
  assumes "register_save ur db = (r, db')" and "distinct (map email (users db))"
  shows "distinct (map email (users db'))"
proof -
  obtain u rv where ur: "ur = (u, rv)" by fastforce
  from register_save_cases [of u rv db r db'] assms(1) ur
  consider "db' = db"
    | ro where "\<forall>v\<in>set (users db). email v \<noteq> email u"
        "db' = db\<lparr>users := users db @ [u\<lparr>role := ro\<rparr>]\<rparr>"
    by blast
  then show ?thesis
  proof cases
    case 1
    with assms(2) show ?thesis by simp
  next
    case (2 ro)
    then have "email u \<notin> email ` set (users db)" by (metis imageE)
    with 2 assms(2) show ?thesis by simp
  qed
qed

lemma update_profile_cases:
  assumes "update_profile me b db = (r, db')"
  shows "(db' = db \<and> \<not> is_ok r) \<or>
     (\<exists>i u'. i < length (users db) \<and> user_oid (users db ! i) = uid me \<and>
        apply_update (users db ! i) (js_object b) = Some u' \<and>
        (\<forall>j<length (users db). j \<noteq> i \<longrightarrow> email (users db ! j) \<noteq> email u') \<and>
        r = Ok 200 u' \<and> db' = db\<lparr>users := (users db)[i := u']\<rparr>)"
proof (cases "find_index (\<lambda>u. user_oid u = uid me) (users db)")
  case None
  with assms show ?thesis by (auto simp: update_profile_def)
next
  case (Some i)
  note i = find_index_SomeD [OF Some]
  show ?thesis
  proof (cases "apply_update (users db ! i) (js_object b)")
    case None
    with Some assms show ?thesis by (auto simp: update_profile_def)
  next
    case (Some u')
    note fi = \<open>find_index _ _ = Some i\<close>
    show ?thesis
    proof (cases "\<exists>j<length (users db). j \<noteq> i \<and> email (users db ! j) = email u'")
      case True
      with fi Some assms show ?thesis by (auto simp: update_profile_def)
    next
      case False
      with fi Some assms have "r = Ok 200 u' \<and> db' = db\<lparr>users := (users db)[i := u']\<rparr>"
        by (simp add: update_profile_def)
      with i Some False show ?thesis by blast
    qed
  qed
qed

lemma distinct_update_other:
  assumes "distinct xs" and "i < length xs" and "\<forall>j<length xs. j \<noteq> i \<longrightarrow> xs ! j \<noteq> y"
  shows "distinct (xs[i := y])"
  using assms by (auto simp: distinct_conv_nth nth_list_update)

lemma update_profile_distinct:
  assumes "update_profile me b db = (r, db')" and "distinct (map email (users db))"
  shows "distinct (map email (users db'))"
  using update_profile_cases [OF assms(1)]
proof
  assume "db' = db \<and> \<not> is_ok r" with assms(2) show ?thesis by simp
next
  assume "\<exists>i u'. i < length (users db) \<and> user_oid (users db ! i) = uid me \<and>
        apply_update (users db ! i) (js_object b) = Some u' \<and>
        (\<forall>j<length (users db). j \<noteq> i \<longrightarrow> email (users db ! j) \<noteq> email u') \<and>
        r = Ok 200 u' \<and> db' = db\<lparr>users := (users db)[i := u']\<rparr>"
  then obtain i u' where i: "i < length (users db)"
    and other: "\<forall>j<length (users db). j \<noteq> i \<longrightarrow> email (users db ! j) \<noteq> email u'"
    and db': "db' = db\<lparr>users := (users db)[i := u']\<rparr>" by blast
  have "distinct ((map email (users db))[i := email u'])"
    using distinct_update_other [OF assms(2), of i "email u'"] i other by simp
  with db' show ?thesis by (simp add: map_update)
qed

lemma js_get_pair:
  "js_get [(''email'', a), (''password'', b)] ''email'' = a"
  "js_get [(''email'', a), (''password'', b)] ''password'' = b"
  by (simp_all add: js_get_def)

lemma login_ok:
  assumes "login ie ne body db = Ok c (u, t)"
  shows "u \<in> set (users db) \<and> t = token_of u \<and> c = 200"
  using assms
  by (auto simp: login_def Let_def split: if_splits option.splits dest: find_Some_iff [THEN iffD1]
      intro: nth_mem)

lemma auth_mw_bearer: "take 7 (''Bearer '' @ tok) = ''Bearer ''" "drop 7 (''Bearer '' @ tok) = tok"
  by simp_all

lemma apply_update_password:
  "apply_update u [(''password'', JStr p)] = Some u' \<Longrightarrow> u' = u\<lparr>password := Plain p\<rparr>"
  by (auto split: if_splits)

abbreviation demo_user :: user where
  "demo_user \<equiv> \<lparr>user_oid = oid 0, name = ''Asha'', email = ''asha@example.in'',
     password = Hashed ''secret1'', role = Admin, phone = ''9000000000'', isActive = True,
     rating = 0\<rparr>"

lemma reg_eq:
  "register (\<lambda>_. True) id reg_body empty_db =
     (Ok 201 (demo_user, token_of demo_user), \<lparr>users = [demo_user], nextOid = 1\<rparr>)"
  by code_simp

lemma reg_db_reach: "udb_reach reg_db"
proof -
  have c: "register_check (\<lambda>_. True) id reg_body empty_db =
      (Inr (demo_user\<lparr>role := Customer\<rparr>, JStr ''admin''), \<lparr>users = [], nextOid = 1\<rparr>)"
    by code_simp
  have s: "register_save (demo_user\<lparr>role := Customer\<rparr>, JStr ''admin'') \<lparr>users = [], nextOid = 1\<rparr> =
      (Ok 201 (demo_user, token_of demo_user), \<lparr>users = [demo_user], nextOid = 1\<rparr>)"
    by code_simp
  show ?thesis
    using udb_reach.save [OF udb_reach.init c udb_reach.check [OF udb_reach.init c] s] by (simp add: reg_eq)
qed

lemma reg_login:
  "login (\<lambda>_. True) id [(''email'', JStr ''asha@example.in''), (''password'', JStr ''secret1'')] reg_db =
     Ok 200 (demo_user, token_of demo_user)"
  by code_simp

lemma reg_update_password:
  "update_profile (identity_of demo_user) [(''password'', JStr ''newpass1'')] reg_db =
     (Ok 200 (demo_user\<lparr>password := Plain ''newpass1''\<rparr>),
      \<lparr>users = [demo_user\<lparr>password := Plain ''newpass1''\<rparr>], nextOid = 1\<rparr>)"
  by code_simp

lemma reg_update_role:
  "update_profile (identity_of demo_user) [(''role'', JStr (role_str Maid))] reg_db =
     (Ok 200 (demo_user\<lparr>role := Maid\<rparr>), \<lparr>users = [demo_user\<lparr>role := Maid\<rparr>], nextOid = 1\<rparr>)"
  by code_simp

lemma reg_auth: "auth_mw demo_verify reg_db (Some ''Bearer tok'') = Inr demo_user"
  by code_simp

lemma set_field_oid: "set_field u kv = Some u' \<Longrightarrow> user_oid u' = user_oid u"
  by (cases kv) (auto split: if_splits option.splits simp: role_of_def Let_def)

lemma apply_update_oid: "apply_update u kvs = Some u' \<Longrightarrow> user_oid u' = user_oid u"
  by (induction kvs arbitrary: u) (auto split: option.splits dest: set_field_oid)

lemma oid_ne: "oid n \<noteq> []"
  by (simp add: oid_def)

lemma udb_reach_oids: "udb_reach db \<Longrightarrow> \<forall>u\<in>set (users db). user_oid u \<noteq> []"
proof (induction rule: udb_reach.induct)
  case init then show ?case by simp
next
  case (check db ie ne b r db') then show ?case by (simp add: register_check_users)
next
  case (save db0 ie ne b ur db1 db r db')
  then have "user_oid (fst ur) \<noteq> []"
    by (auto simp: register_check_def Let_def oid_ne split: if_splits)
  with save show ?case
    by (auto simp: register_save_def Let_def split: prod.splits option.splits if_splits)
next
  case (update db me b r db')
  from update_profile_cases [OF update.hyps(2)] show ?case
  proof
    assume "db' = db \<and> \<not> is_ok r" then show ?thesis using update.IH by simp
  next
    assume "\<exists>i u'. i < length (users db) \<and> user_oid (users db ! i) = uid me \<and>
        apply_update (users db ! i) (js_object b) = Some u' \<and>
        (\<forall>j<length (users db). j \<noteq> i \<longrightarrow> email (users db ! j) \<noteq> email u') \<and>
        r = Ok 200 u' \<and> db' = db\<lparr>users := (users db)[i := u']\<rparr>"
    then obtain i u' where i: "i < length (users db)" and a: "apply_update (users db ! i) (js_object b) = Some u'"
      and d: "db' = db\<lparr>users := (users db)[i := u']\<rparr>" by blast
    have "user_oid u' \<noteq> []" using apply_update_oid [OF a] update.IH i by simp
    then show ?thesis using update.IH d by (auto dest!: set_update_memD)
  qed
qed

lemma register_reach: "udb_reach db \<Longrightarrow> udb_reach (snd (register ie ne b db))"
proof -
  assume r: "udb_reach db"
  obtain x db1 where c: "register_check ie ne b db = (x, db1)" by fastforce
  have r1: "udb_reach db1" using udb_reach.check [OF r c] .
  show ?thesis
  proof (cases x)
    case (Inl cm) then show ?thesis using c r1 by (cases cm) (simp add: register_def)
  next
    case (Inr ur)
    obtain rr db' where sv: "register_save ur db1 = (rr, db')" by fastforce
    have "udb_reach db'" using udb_reach.save [OF r c [unfolded Inr] r1 sv] .
    then show ?thesis using c sv Inr by (simp add: register_def)
  qed
qed

text \<open>The role a successful registration stores is the one the body names, customer by default.\<close>

lemma register_role:
  assumes "register ie ne body db = (Ok c (u, t), db')"
  shows "role_of (js_or (js_get body ''role'') (JStr ''customer'')) = Some (role u)"
proof -
  from assms obtain ur db1 where chk: "register_check ie ne body db = (Inr ur, db1)"
    and sv: "register_save ur db1 = (Ok c (u, t), db')"
    by (auto simp: register_def split: prod.splits sum.splits)
  have rv: "snd ur = js_or (js_get body ''role'') (JStr ''customer'')"
    using chk by (auto simp: register_check_def Let_def split: if_splits)
  from register_save_cases [of "fst ur" "snd ur" db1 "Ok c (u, t)" db'] sv
  obtain ro where "role_of (snd ur) = Some ro" and "u = (fst ur)\<lparr>role := ro\<rparr>" by auto
  with rv show ?thesis by simp
qed

subsection \<open>Properties\<close>

text \<open>
  C21. In every database the handlers produce, even when registrations
  interleave between their \<open>findOne\<close> check and their \<open>save\<close>, no two users
  share an email: the check refuses a known email, the unique index refuses a
  duplicate at save, and a profile update to a taken email fails.
\<close>

theorem udb_reach_unique_emails: "udb_reach db \<Longrightarrow> distinct (map email (users db))"
proof (induction rule: udb_reach.induct)
  case init then show ?case by simp
next
  case (check db ie ne b r db') then show ?case by (simp add: register_check_users)
next
  case (save db0 ie ne b ur db1 db r db') then show ?case by (blast intro: register_save_distinct)
next
  case (update db me b r db') then show ?case by (blast intro: update_profile_distinct)
qed

theorem udb_reach_unique_emails_witness:
  "udb_reach reg_db \<and> distinct (map email (users reg_db))"
  using reg_db_reach udb_reach_unique_emails [OF reg_db_reach] by simp

text \<open>
  C22. Register then log in: after a successful registration, logging in with
  the email and password of the registration request returns the new user and
  its token.
\<close>

theorem register_then_login:
  assumes "register ie ne body db = (Ok c (u, t), db')"
  shows "login ie ne [(''email'', js_get body ''email''), (''password'', js_get body ''password'')] db' =
           Ok 200 (u, t)"
proof -
  obtain ur db1 where chk: "register_check ie ne body db = (Inr ur, db1)"
    and sv: "register_save ur db1 = (Ok c (u, t), db')"
    using assms by (auto simp: register_def split: prod.splits sum.splits)
  have valid: "register_valid ie body"
    using chk by (auto simp: register_check_def split: if_splits)
  have ur: "fst ur = \<lparr>user_oid = oid (nextOid db), name = trim_ws (str_of (js_get body ''name'')),
      email = js_lower (ne (str_of (js_get body ''email''))), password = Hashed (str_of (js_get body ''password'')),
      role = Customer, phone = str_of (js_get body ''phone''), isActive = True, rating = 0\<rparr>"
    and db1: "users db1 = users db"
    using chk by (auto simp: register_check_def Let_def split: if_splits)
  obtain ro where ro: "u = (fst ur)\<lparr>role := ro\<rparr>" and t: "t = token_of u"
    and fresh: "\<forall>v\<in>set (users db1). email v \<noteq> email (fst ur)"
    and db': "users db' = users db1 @ [u]"
    using register_save_cases [of "fst ur" "snd ur" db1 "Ok c (u, t)" db'] sv by auto
  have "find (\<lambda>v. email v = js_lower (ne (str_of (js_get body ''email'')))) (users db') = Some u"
    using fresh db' ro ur by (simp add: find_append_None find_None_iff)
  moreover have "ie (str_of (js_get body ''email''))" "str_of (js_get body ''password'') \<noteq> []"
    using valid by (auto simp: register_valid_def Let_def)
  ultimately show ?thesis
    using ro ur t by (simp add: login_def js_get_pair Let_def)
qed

theorem register_then_login_witness:
  "login (\<lambda>_. True) id [(''email'', JStr ''asha@example.in''), (''password'', JStr ''secret1'')]
     \<lparr>users = [demo_user], nextOid = 1\<rparr> = Ok 200 (demo_user, token_of demo_user)"
  using register_then_login [OF reg_eq] by (simp add: js_get_def)

text \<open>
  C23. The \<open>auth\<close> middleware lets a request through only with an
  \<open>Authorization\<close> header \<open>Bearer <token>\<close> whose token verifies to the id of
  a user who exists, and \<open>req.user\<close> is that user.
\<close>

theorem auth_mw_sound:
  assumes "auth_mw verify db h = Inr u"
  shows "\<exists>tok. h = Some (''Bearer '' @ tok) \<and> verify tok = Some (user_oid u) \<and> u \<in> set (users db)"
proof -
  obtain hh where h: "h = Some hh" and pre: "take 7 hh = ''Bearer ''"
    using assms by (auto simp: auth_mw_def split: option.splits if_splits)
  then have hh: "hh = ''Bearer '' @ drop 7 hh" by (metis append_take_drop_id)
  obtain i where v: "verify (drop 7 hh) = Some i"
    and f: "find (\<lambda>u. user_oid u = i) (users db) = Some u"
    using assms h pre by (auto simp: auth_mw_def split: option.splits)
  from f have "u \<in> set (users db)" and "user_oid u = i"
    by (auto simp: find_Some_iff intro: nth_mem)
  with h hh v show ?thesis by blast
qed

theorem auth_mw_sound_witness:
  "auth_mw demo_verify reg_db (Some ''Bearer tok'') = Inr demo_user \<and>
   (\<exists>tok. Some ''Bearer tok'' = Some (''Bearer '' @ tok) \<and> demo_verify tok = Some (user_oid demo_user) \<and>
          demo_user \<in> set (users reg_db))"
  using reg_auth auth_mw_sound [OF reg_auth] by blast

text \<open>
  A token from a successful login authenticates: with a verifier that
  accepts it and yields its \<open>id\<close> claim, the middleware admits the header
  \<open>Bearer <token>\<close> as the user who logged in, whose identity for the booking
  routes carries the token's id and role.
\<close>

theorem login_token_authenticates:
  assumes "login ie ne body db = Ok c (u, t)" and "verify tok = Some (cl_id t)"
    and "distinct (map user_oid (users db))"
  shows "auth_mw verify db (Some (''Bearer '' @ tok)) = Inr u \<and> identity_of u = \<lparr>uid = cl_id t, urole = cl_role t\<rparr>"
proof -
  from login_ok [OF assms(1)] have u: "u \<in> set (users db)" and t: "t = token_of u" by simp_all
  have "find (\<lambda>v. user_oid v = user_oid u) (users db) = Some u"
    by (rule find_distinct_key [OF assms(3) u])
  with assms(2) t show ?thesis
    by (simp add: auth_mw_def token_of_def identity_of_def)
qed

theorem login_token_authenticates_witness:
  "auth_mw demo_verify reg_db (Some (''Bearer '' @ ''tok'')) = Inr demo_user \<and>
   identity_of demo_user = \<lparr>uid = oid 0, urole = Admin\<rparr>"
proof -
  have v: "demo_verify ''tok'' = Some (cl_id (token_of demo_user))" by (simp add: token_of_def)
  have d: "distinct (map user_oid (users reg_db))" by (simp add: reg_eq)
  from login_token_authenticates [OF reg_login, of demo_verify "''tok''"] v d
  show ?thesis by (simp add: token_of_def)
qed

text \<open>
  C25. Changing the password through \<open>PUT /api/auth/profile\<close> locks the user
  out: \<open>findByIdAndUpdate\<close> skips the \<open>pre('save')\<close> hook, so the new password
  is stored unhashed and \<open>bcrypt.compare\<close> then rejects it at login.
\<close>

theorem profile_password_breaks_login:
  assumes "update_profile me [(''password'', JStr p)] db = (Ok c u', db')"
    and "distinct (map email (users db'))" and "js_lower (ne e) = email u'"
  shows "\<not> is_ok (login ie ne [(''email'', JStr e), (''password'', JStr p)] db')"
proof -
  from update_profile_cases [OF assms(1)] obtain i where i: "i < length (users db)"
    and upd: "apply_update (users db ! i) [(''password'', JStr p)] = Some u'"
    and db': "db' = db\<lparr>users := (users db)[i := u']\<rparr>"
    by auto
  have pw: "password u' = Plain p" using apply_update_password [OF upd] by simp
  have "u' \<in> set (users db')" using i db' by (simp add: set_update_memI)
  then have "find (\<lambda>v. email v = js_lower (ne e)) (users db') = Some u'"
    using find_distinct_key [OF assms(2)] assms(3) by simp
  with pw show ?thesis by (simp add: login_def js_get_pair Let_def)
qed

theorem profile_password_breaks_login_witness:
  "\<not> is_ok (login (\<lambda>_. True) id [(''email'', JStr ''asha@example.in''), (''password'', JStr ''newpass1'')]
       (\<lparr>users = [demo_user\<lparr>password := Plain ''newpass1''\<rparr>], nextOid = 1\<rparr>))"
proof -
  have d: "distinct (map email (users (\<lparr>users = [demo_user\<lparr>password := Plain ''newpass1''\<rparr>], nextOid = 1\<rparr>)))"
    by simp
  have e: "js_lower (id ''asha@example.in'') = email (demo_user\<lparr>password := Plain ''newpass1''\<rparr>)"
    by code_simp
  from profile_password_breaks_login [where ne = id and e = "''asha@example.in''" and ie = "\<lambda>_. True",
      OF reg_update_password d e] show ?thesis .
qed

text \<open>
  C26. The role of an account is whatever the client sends: registration
  stores the requested \<open>role\<close> (\<open>'customer'\<close> when absent), \<open>admin\<close>
  included, and a profile update sets any role of the enum.
\<close>

theorem self_assigned_role:
  "(register ie ne body db = (Ok c (u, t), db') \<longrightarrow>
      role_of (js_or (js_get body ''role'') (JStr ''customer'')) = Some (role u)) \<and>
   (update_profile me [(''role'', JStr (role_str r))] db2 = (Ok c' u', db2') \<longrightarrow> role u' = r)"
proof (intro conjI impI)
  assume "register ie ne body db = (Ok c (u, t), db')"
  then show "role_of (js_or (js_get body ''role'') (JStr ''customer'')) = Some (role u)"
    by (rule register_role)
next
  assume "update_profile me [(''role'', JStr (role_str r))] db2 = (Ok c' u', db2')"
  from update_profile_cases [OF this] obtain i where
    "apply_update (users db2 ! i) [(''role'', JStr (role_str r))] = Some u'" by auto
  then show "role u' = r"
    by (cases r) (auto simp: role_of_def)
qed

theorem self_assigned_role_witness:
  "role_of (js_or (js_get reg_body ''role'') (JStr ''customer'')) = Some Admin \<and>
   role (demo_user\<lparr>role := Maid\<rparr>) = Maid"
  using self_assigned_role [of "\<lambda>_. True" id reg_body empty_db 201 demo_user "token_of demo_user"
      "\<lparr>users = [demo_user], nextOid = 1\<rparr>" "identity_of demo_user" Maid reg_db 200
      "demo_user\<lparr>role := Maid\<rparr>" "\<lparr>users = [demo_user\<lparr>role := Maid\<rparr>], nextOid = 1\<rparr>"]
    reg_eq reg_update_role by simp

end
