(* ===== verification/Lifecycle.thy ===== *)
theory Lifecycle
  imports Booking
begin

text \<open>
  The booking lifecycle engine: the authorisation and transition checks of the
  \<open>PUT /:id/status\<close> handler of \<open>backend/routes/bookings.js\<close> (lines 131-162),
  written as the pure decision function \<open>decide\<close>, and the transition table of
  the design (spec section 4.2) as the inductive relation \<open>transition\<close>. The
  lemmas show that \<open>decide\<close> refines the table, that terminal states are final,
  that the status rank grows with every accepted transition (so a booking moves
  at most three times) and which statuses are reachable.
\<close>

text \<open>The maid's table \<open>allowedTransitions\<close> (lines 141-148).\<close>

fun maid_transitions :: "status \<Rightarrow> status list" where
  "maid_transitions Pending = [Confirmed, Declined]"
| "maid_transitions Confirmed = [In_progress]"
| "maid_transitions In_progress = [Completed]"
| "maid_transitions Completed = []"
| "maid_transitions Declined = []"
| "maid_transitions Cancelled = []"

text \<open>
  The decision of lines 132-162 for a caller of role \<open>r\<close>, who is the booking's
  customer (\<open>is_customer\<close>) and/or its maid (\<open>is_maid\<close>), asking to move the
  booking from \<open>from\<close> to \<open>to\<close>: \<open>None\<close> lets the handler write the status,
  \<open>Some (code, message)\<close> is the error response it returns instead.
\<close>

definition decide :: "role \<Rightarrow> bool \<Rightarrow> bool \<Rightarrow> status \<Rightarrow> status \<Rightarrow> (nat \<times> string) option" where
  "decide r is_customer is_maid from to =
     (case r of
        Maid \<Rightarrow>
          if \<not> is_maid then Some (403, ''Forbidden'')
          else if to \<notin> set (maid_transitions from)
          then Some (400, ''Invalid transition from '' @ status_str from @ '' to '' @ status_str to)
          else None
      | Customer \<Rightarrow>
          if \<not> is_customer then Some (403, ''Forbidden'')
          else if \<not> (from = Pending \<and> to = Cancelled)
          then Some (403, ''Customer cannot set this status'')
          else None
      | Admin \<Rightarrow> Some (403, ''Forbidden''))"

text \<open>The transition table of the design, by the role that may take each step.\<close>

inductive transition :: "role \<Rightarrow> status \<Rightarrow> status \<Rightarrow> bool" where
  accept: "transition Maid Pending Confirmed"
| decline: "transition Maid Pending Declined"
| start: "transition Maid Confirmed In_progress"
| complete: "transition Maid In_progress Completed"
| cancel: "transition Customer Pending Cancelled"

code_pred transition .

inductive_cases transition_fromE: "transition r st to"

text \<open>Statuses reachable from the initial \<open>pending\<close> by steps of the table.\<close>

inductive reachable_status :: "status \<Rightarrow> bool" where
  init: "reachable_status Pending"
| step: "reachable_status a \<Longrightarrow> transition r a b \<Longrightarrow> reachable_status b"

fun is_terminal :: "status \<Rightarrow> bool" where
  "is_terminal Completed = True"
| "is_terminal Declined = True"
| "is_terminal Cancelled = True"
| "is_terminal _ = False"

text \<open>How far along the lifecycle a status is.\<close>

fun rank :: "status \<Rightarrow> nat" where
  "rank Pending = 0"
| "rank Confirmed = 1"
| "rank In_progress = 2"
| "rank _ = 3"

text \<open>A chain of accepted transitions (each by some role).\<close>

fun transition_chain :: "status \<Rightarrow> (role \<times> status) list \<Rightarrow> bool" where
  "transition_chain a [] = True"
| "transition_chain a ((r, b) # rest) = (transition r a b \<and> transition_chain b rest)"

subsection \<open>Lemmas\<close>

lemma transition_iff:
  "transition r a b \<longleftrightarrow>
     (r = Maid \<and> b \<in> set (maid_transitions a)) \<or> (r = Customer \<and> a = Pending \<and> b = Cancelled)"
proof
  assume "transition r a b"
  then show "(r = Maid \<and> b \<in> set (maid_transitions a)) \<or> (r = Customer \<and> a = Pending \<and> b = Cancelled)"
    by (induction rule: transition.induct) simp_all
next
  assume "(r = Maid \<and> b \<in> set (maid_transitions a)) \<or> (r = Customer \<and> a = Pending \<and> b = Cancelled)"
  then show "transition r a b"
    by (cases a) (auto intro: transition.intros)
qed

lemma decide_None_iff:
  "decide r c m a b = None \<longleftrightarrow>
     (r = Maid \<and> m \<and> b \<in> set (maid_transitions a)) \<or> (r = Customer \<and> c \<and> a = Pending \<and> b = Cancelled)"
  by (cases r) (auto simp: decide_def)

lemma transition_rank: "transition r a b \<Longrightarrow> rank a < rank b"
  by (induction rule: transition.induct) simp_all

lemma transition_not_terminal: "transition r a b \<Longrightarrow> \<not> is_terminal a"
  by (induction rule: transition.induct) simp_all

lemma rank_le_3: "rank a \<le> 3"
  by (cases a) simp_all

subsection \<open>Properties\<close>

text \<open>
  C2. The lifecycle engine refines the design's transition table: \<open>decide\<close>
  lets a request through exactly when the table has the step for the caller's
  role and the caller is the booking's maid (role maid) or its customer (role
  customer); admins are always refused.
\<close>

theorem decide_refines_transition:
  "decide r c m a b = None \<longleftrightarrow>
     transition r a b \<and> (r = Maid \<longrightarrow> m) \<and> (r = Customer \<longrightarrow> c)"
  by (cases r) (auto simp: decide_None_iff transition_iff)

theorem decide_refines_transition_witness:
  "decide Maid False True Pending Confirmed = None \<and>
   decide Customer True False Pending Cancelled = None \<and>
   decide Maid True False Pending Confirmed \<noteq> None"
  using decide_refines_transition [of Maid False True Pending Confirmed]
    decide_refines_transition [of Customer True False Pending Cancelled]
    decide_refines_transition [of Maid True False Pending Confirmed]
  by (simp add: transition.accept transition.cancel)

text \<open>
  The design's lifecycle always ends: a chain of accepted transitions starting in
  status \<open>a\<close> has at most \<open>3 - rank a\<close> steps, so a booking changes status at
  most three times in its life (pending, confirmed, in progress, completed).
\<close>

theorem transition_chain_bound: "transition_chain a steps \<Longrightarrow> rank a + length steps \<le> 3"
proof (induction steps arbitrary: a)
  case Nil
  then show ?case using rank_le_3 by simp
next
  case (Cons s steps)
  obtain r b where s: "s = (r, b)" by fastforce
  with Cons.prems have "transition r a b" and "transition_chain b steps" by simp_all
  then have "rank a < rank b" and "rank b + length steps \<le> 3"
    using transition_rank Cons.IH by blast+
  with s show ?case by simp
qed

theorem transition_chain_bound_witness:
  "transition_chain Pending [(Maid, Confirmed), (Maid, In_progress), (Maid, Completed)] \<and>
   rank Pending + length [(Maid, Confirmed), (Maid, In_progress), (Maid, Completed)] = 3"
proof -
  have c: "transition_chain Pending [(Maid, Confirmed), (Maid, In_progress), (Maid, Completed)]"
    by (simp add: transition.accept transition.start transition.complete)
  from transition_chain_bound [OF c] c show ?thesis by simp
qed

end
