(* ===== verification/Store.thy ===== *)
theory Store
  imports Lifecycle
begin

text \<open>
  The in-memory booking repository of \<open>backend/routes/bookings.js\<close>: the module
  state \<open>bookings\<close>/\<open>nextBookingId\<close> (lines 7-8) as a record, and the five
  handlers of the router, each a function of the caller identity, the request
  parameters, the clock reading \<open>now\<close> of \<open>new Date()\<close> and the state. Each
  handler runs to completion without yielding (none awaits), so under Node's
  single event loop a handler is one atomic step on the state: interleavings of
  requests are sequences of these functions.
\<close>

record store =
  bookings :: "booking list"
  nextBookingId :: nat

definition init_store :: store where
  "init_store = \<lparr>bookings = [], nextBookingId = 1\<rparr>"

text \<open>\<open>POST /\<close> (lines 29-76).\<close>

definition create_booking :: "identity \<Rightarrow> jsobj \<Rightarrow> nat \<Rightarrow> store \<Rightarrow> booking reply \<times> store" where
  "create_booking u body now s =
     (if urole u \<noteq> Customer then (Err 403 ''Only customers can create bookings'', s)
      else
        (let maid = js_get body ''maidId''; svc = js_get body ''service'';
             d = js_get body ''date''; t = js_get body ''time'';
             addr = js_get body ''address''; amt = js_get body ''amount'';
             si = js_get body ''specialInstructions''
         in if \<not> truthy maid then (Err 400 ''maidId is required'', s)
            else if \<not> truthy svc \<or> \<not> truthy d \<or> \<not> truthy t \<or> \<not> truthy addr
            then (Err 400 ''service, date, time, and address are required'', s)
            else
              (let b = \<lparr>booking_id = nextBookingId s, customerId = uid u, maidId = maid,
                        service = svc, date = d, time = t, address = addr,
                        amount = number_or_zero amt,
                        specialInstructions = js_or si (JStr ''''),
                        status = Pending, createdAt = now, updatedAt = now\<rparr>
               in (Ok 201 b, s\<lparr>bookings := bookings s @ [b],
                               nextBookingId := Suc (nextBookingId s)\<rparr>))))"

text \<open>\<open>GET /\<close> (lines 79-95): the caller's bookings, in insertion order.\<close>

definition list_bookings :: "identity \<Rightarrow> store \<Rightarrow> booking list reply" where
  "list_bookings u s =
     Ok 200 (case urole u of
               Customer \<Rightarrow> filter (\<lambda>b. customerId b = uid u) (bookings s)
             | Maid \<Rightarrow> filter (\<lambda>b. maidId b = JStr (uid u)) (bookings s)
             | Admin \<Rightarrow> [])"

text \<open>
  \<open>GET /:id\<close> (lines 98-113). \<open>b.id === parseInt(p, 10)\<close> never holds when the
  parameter does not parse (\<open>NaN\<close> equals nothing).
\<close>

definition get_booking :: "identity \<Rightarrow> string \<Rightarrow> store \<Rightarrow> booking reply" where
  "get_booking u p s =
     (case find (\<lambda>b. parse_int10 p = Some (int (booking_id b))) (bookings s) of
        None \<Rightarrow> Err 404 ''Booking not found''
      | Some b \<Rightarrow>
          if customerId b \<noteq> uid u \<and> maidId b \<noteq> JStr (uid u) then Err 403 ''Forbidden''
          else Ok 200 b)"

text \<open>
  \<open>PUT /:id/status\<close> (lines 116-172): the status token is checked first, then
  the booking is looked up, then \<open>decide\<close> (the lifecycle engine) rules, and
  only then are \<open>status\<close> and \<open>updatedAt\<close> written in place.
\<close>

definition update_status ::
  "identity \<Rightarrow> string \<Rightarrow> jsobj \<Rightarrow> nat \<Rightarrow> store \<Rightarrow> booking reply \<times> store" where
  "update_status u p body now s =
     (case parse_status (js_get body ''status'') of
        None \<Rightarrow> (Err 400 ''Invalid status'', s)
      | Some new \<Rightarrow>
          (case find_index (\<lambda>b. parse_int10 p = Some (int (booking_id b))) (bookings s) of
             None \<Rightarrow> (Err 404 ''Booking not found'', s)
           | Some idx \<Rightarrow>
               (let b = bookings s ! idx
                in case decide (urole u) (customerId b = uid u) (maidId b = JStr (uid u))
                          (status b) new of
                     Some (c, m) \<Rightarrow> (Err c m, s)
                   | None \<Rightarrow>
                       (let b' = b\<lparr>status := new, updatedAt := now\<rparr>
                        in (Ok 200 b', s\<lparr>bookings := (bookings s)[idx := b']\<rparr>)))))"

text \<open>\<open>GET /stats\<close> (lines 175-201).\<close>

record stats =
  total :: nat
  completed :: nat
  pending :: nat
  totalSpent :: int

definition get_stats :: "identity \<Rightarrow> store \<Rightarrow> stats reply" where
  "get_stats u s =
     (let ub = (case urole u of
                  Maid \<Rightarrow> filter (\<lambda>b. maidId b = JStr (uid u)) (bookings s)
                | Customer \<Rightarrow> filter (\<lambda>b. customerId b = uid u) (bookings s)
                | Admin \<Rightarrow> [])
      in Ok 200 \<lparr>total = length ub,
                 completed = length (filter (\<lambda>b. status b = Completed) ub),
                 pending = length (filter (\<lambda>b. status b = Pending) ub),
                 totalSpent = (if urole u = Customer
                               then foldl (\<lambda>sum b. sum + number_or_zero (JNum (Num (amount b)))) 0 ub
                               else 0)\<rparr>)"

declare create_booking_def [handler_defs] list_bookings_def [handler_defs]
  get_booking_def [handler_defs] update_status_def [handler_defs] get_stats_def [handler_defs]

subsection \<open>The store as a state machine\<close>

text \<open>
  The stores a sequence of requests can produce: only \<open>POST /\<close> and
  \<open>PUT /:id/status\<close> write the state; the three reads return no new state.
\<close>

inductive store_reach :: "store \<Rightarrow> bool" where
  init: "store_reach init_store"
| create: "store_reach s \<Longrightarrow> create_booking u body now s = (r, s') \<Longrightarrow> store_reach s'"
| update: "store_reach s \<Longrightarrow> update_status u p body now s = (r, s') \<Longrightarrow> store_reach s'"

text \<open>
  The repository invariant: ids are exactly \<open>1, 2, ...\<close> in insertion order
  (so unique, and all below the counter), and every stored status is reachable
  from \<open>pending\<close> in the transition table.
\<close>

definition store_inv :: "store \<Rightarrow> bool" where
  "store_inv s \<longleftrightarrow>
     0 < nextBookingId s \<and>
     map booking_id (bookings s) = [1..<nextBookingId s] \<and>
     (\<forall>b\<in>set (bookings s). reachable_status (status b))"

text \<open>The fields of a booking no handler writes after creation.\<close>

definition booking_core :: "booking \<Rightarrow> booking" where
  "booking_core b = b\<lparr>status := Pending, updatedAt := 0\<rparr>"

text \<open>
  What the stats handler promises, stated over the caller's booking list: the
  count, the completed and pending counts, and for a customer the sum of the
  amounts.
\<close>

definition aggregate :: "role \<Rightarrow> booking list \<Rightarrow> stats" where
  "aggregate r bs =
     \<lparr>total = length bs,
      completed = count_list (map status bs) Completed,
      pending = count_list (map status bs) Pending,
      totalSpent = (if r = Customer then sum_list (map amount bs) else 0)\<rparr>"

text \<open>
  The two requests that write the repository, \<open>POST /\<close> and \<open>PUT /:id/status\<close>,
  as the operations of a run, each served at its clock reading; the reads
  leave the store as it is.
\<close>

datatype write_req = WCreate identity jsobj | WUpdate identity string jsobj

definition write_step :: "write_req \<Rightarrow> nat \<Rightarrow> store \<Rightarrow> store" where
  "write_step w now s =
     (case w of
        WCreate u body \<Rightarrow> snd (create_booking u body now s)
      | WUpdate u p body \<Rightarrow> snd (update_status u p body now s))"

text \<open>The status of booking \<open>n\<close>, if it exists.\<close>

definition booking_status :: "nat \<Rightarrow> store \<Rightarrow> status option" where
  "booking_status n s = map_option status (find (\<lambda>b. booking_id b = n) (bookings s))"

text \<open>How many requests of a run change the status of an existing booking \<open>n\<close>.\<close>

fun status_changes :: "nat \<Rightarrow> write_req list \<Rightarrow> nat \<Rightarrow> store \<Rightarrow> nat" where
  "status_changes n [] now s = 0"
| "status_changes n (w # ws) now s =
     (let s' = write_step w now s
      in (if booking_status n s \<noteq> None \<and> booking_status n s' \<noteq> booking_status n s then 1 else 0) +
         status_changes n ws (Suc now) s')"

text \<open>How many more status changes the lifecycle leaves a booking (three for one not yet created).\<close>

definition status_budget :: "status option \<Rightarrow> nat" where
  "status_budget st = (case st of None \<Rightarrow> 3 | Some a \<Rightarrow> 3 - rank a)"

subsection \<open>Example data\<close>

abbreviation demo_customer :: identity where
  "demo_customer \<equiv> \<lparr>uid = ''c1'', urole = Customer\<rparr>"

abbreviation demo_maid :: identity where
  "demo_maid \<equiv> \<lparr>uid = ''m1'', urole = Maid\<rparr>"

abbreviation demo_body :: jsobj where
  "demo_body \<equiv> [(''maidId'', JStr ''m1''), (''service'', JStr ''House Cleaning''),
     (''date'', JStr ''2025-01-01''), (''time'', JStr ''10:00''), (''address'', JStr ''1 Main St''),
     (''amount'', JNum (Num 800))]"

abbreviation status_body :: "status \<Rightarrow> jsobj" where
  "status_body st \<equiv> [(''status'', JStr (status_str st))]"

abbreviation demo_store :: store where
  "demo_store \<equiv> snd (create_booking demo_customer demo_body 0 init_store)"

subsection \<open>Lemmas\<close>

lemma decide_None_transition: "decide r c m a b = None \<Longrightarrow> transition r a b"
  by (auto simp: decide_None_iff transition_iff)

lemma create_booking_cases:
  assumes "create_booking u body now s = (r, s')"
  shows "(s' = s \<and> \<not> is_ok r) \<or>
         (\<exists>b. r = Ok 201 b \<and> urole u = Customer \<and> booking_id b = nextBookingId s \<and>
              customerId b = uid u \<and> status b = Pending \<and>
              s' = s\<lparr>bookings := bookings s @ [b], nextBookingId := Suc (nextBookingId s)\<rparr>)"
  using assms unfolding create_booking_def Let_def
  by (auto split: if_splits)

lemma update_status_cases:
  assumes "update_status u p body now s = (r, s')"
  shows "(s' = s \<and> \<not> is_ok r) \<or>
         (\<exists>idx new. idx < length (bookings s) \<and>
            parse_status (js_get body ''status'') = Some new \<and>
            decide (urole u) (customerId (bookings s ! idx) = uid u)
              (maidId (bookings s ! idx) = JStr (uid u)) (status (bookings s ! idx)) new = None \<and>
            r = Ok 200 ((bookings s ! idx)\<lparr>status := new, updatedAt := now\<rparr>) \<and>
            s' = s\<lparr>bookings := (bookings s)[idx := (bookings s ! idx)\<lparr>status := new, updatedAt := now\<rparr>]\<rparr>)"
  using assms unfolding update_status_def Let_def
  by (auto split: option.splits prod.splits dest: find_index_SomeD)

lemma create_booking_inv:
  "create_booking u body now s = (r, s') \<Longrightarrow> store_inv s \<Longrightarrow> store_inv s'"
  by (drule create_booking_cases) (auto simp: store_inv_def reachable_status.init)

lemma update_status_inv:
  assumes "update_status u p body now s = (r, s')" and "store_inv s"
  shows "store_inv s'"
  using update_status_cases [OF assms(1)]
proof
  assume "s' = s \<and> \<not> is_ok r"
  with assms(2) show ?thesis by simp
next
  assume "\<exists>idx new. idx < length (bookings s) \<and>
            parse_status (js_get body ''status'') = Some new \<and>
            decide (urole u) (customerId (bookings s ! idx) = uid u)
              (maidId (bookings s ! idx) = JStr (uid u)) (status (bookings s ! idx)) new = None \<and>
            r = Ok 200 ((bookings s ! idx)\<lparr>status := new, updatedAt := now\<rparr>) \<and>
            s' = s\<lparr>bookings := (bookings s)[idx := (bookings s ! idx)\<lparr>status := new, updatedAt := now\<rparr>]\<rparr>"
  then obtain idx new where idx: "idx < length (bookings s)"
    and dec: "decide (urole u) (customerId (bookings s ! idx) = uid u)
              (maidId (bookings s ! idx) = JStr (uid u)) (status (bookings s ! idx)) new = None"
    and s': "s' = s\<lparr>bookings := (bookings s)[idx := (bookings s ! idx)\<lparr>status := new, updatedAt := now\<rparr>]\<rparr>"
    by blast
  have "reachable_status (status (bookings s ! idx))"
    using assms(2) idx by (simp add: store_inv_def)
  then have "reachable_status new"
    using dec by (blast intro: reachable_status.step decide_None_transition)
  with assms(2) idx s' show ?thesis
    by (auto simp: store_inv_def dest: set_update_memD)
qed

lemma store_inv_ids:
  assumes "store_inv s" and "i < length (bookings s)"
  shows "booking_id (bookings s ! i) = Suc i"
  using assms nth_mem_upt_map [of booking_id "bookings s" 1 "nextBookingId s" i]
  by (simp add: store_inv_def)

lemma store_inv_length:
  "store_inv s \<Longrightarrow> length (bookings s) = nextBookingId s - 1"
  by (metis length_map length_upt store_inv_def)

lemma find_index_booking_id:
  assumes inv: "store_inv s"
  shows "find_index (\<lambda>b. k = Some (int (booking_id b))) (bookings s) =
    (case k of None \<Rightarrow> None
     | Some n \<Rightarrow> if 0 < n \<and> n < int (nextBookingId s) then Some (nat n - 1) else None)"
proof (cases k)
  case None
  then show ?thesis by (simp add: find_index_None_iff)
next
  case (Some n)
  have len: "length (bookings s) = nextBookingId s - 1"
    using inv by (rule store_inv_length)
  show ?thesis
  proof (cases "0 < n \<and> n < int (nextBookingId s)")
    case True
    then have i: "nat n - 1 < length (bookings s)" using len by linarith
    have "find_index (\<lambda>b. k = Some (int (booking_id b))) (bookings s) = Some (nat n - 1)"
    proof (rule find_index_nth)
      show "nat n - 1 < length (bookings s)" by (rule i)
      show "k = Some (int (booking_id (bookings s ! (nat n - 1))))"
        using store_inv_ids [OF inv i] True Some by simp
      show "\<forall>j<nat n - 1. \<not> k = Some (int (booking_id (bookings s ! j)))"
        using store_inv_ids [OF inv] i Some by auto
    qed
    with True Some show ?thesis by simp
  next
    case False
    have "\<forall>b\<in>set (bookings s). k \<noteq> Some (int (booking_id b))"
    proof
      fix b assume "b \<in> set (bookings s)"
      then obtain i where "i < length (bookings s)" and "b = bookings s ! i"
        by (auto simp: in_set_conv_nth)
      with store_inv_ids [OF inv] len False Some show "k \<noteq> Some (int (booking_id b))"
        by auto
    qed
    then have "find_index (\<lambda>b. k = Some (int (booking_id b))) (bookings s) = None"
      by (simp only: find_index_None_iff)
    with False Some show ?thesis by (simp del: option.inject)
  qed
qed

lemma siblings_no_transition:
  "transition r1 a t1 \<Longrightarrow> transition r2 a t2 \<Longrightarrow> t1 \<noteq> t2 \<Longrightarrow> \<not> transition r t1 t2"
  by (auto elim!: transition.cases)

lemma update_status_entry:
  assumes "update_status u p body now s = (r, s')" and "i < length (bookings s)"
  shows "length (bookings s') = length (bookings s) \<and>
         (bookings s' ! i = bookings s ! i \<or>
          (decide (urole u) (customerId (bookings s ! i) = uid u) (maidId (bookings s ! i) = JStr (uid u))
             (status (bookings s ! i)) (status (bookings s' ! i)) = None \<and>
           bookings s' ! i = (bookings s ! i)\<lparr>status := status (bookings s' ! i), updatedAt := now\<rparr>))"
  using update_status_cases [OF assms(1)] assms(2)
  by (cases "i = 0") (auto simp: nth_list_update)

lemma update_status_unchanged_on_error:
  "update_status u p body now s = (r, s') \<Longrightarrow> \<not> is_ok r \<Longrightarrow> s' = s"
  by (drule update_status_cases) auto

lemma update_status_lookup:
  assumes "store_inv s" and "0 < n" and "n < nextBookingId s"
  shows "find_index (\<lambda>b. parse_int10 (dec_str n) = Some (int (booking_id b))) (bookings s) = Some (n - 1)"
  using find_index_booking_id [OF assms(1), of "Some (int n)"] assms(2,3)
  by (simp add: parse_int10_dec_str)

lemma js_get_single [simp]: "js_get [(k, v)] k = v"
  by (simp add: js_get_def)

lemma update_status_at:
  assumes "store_inv s" and "0 < n" and "n < nextBookingId s" and "b = bookings s ! (n - 1)"
  shows "update_status u (dec_str n) [(''status'', JStr (status_str new))] now s =
          (case decide (urole u) (customerId b = uid u) (maidId b = JStr (uid u)) (status b) new of
             Some (c, m) \<Rightarrow> (Err c m, s)
           | None \<Rightarrow> (Ok 200 (b\<lparr>status := new, updatedAt := now\<rparr>),
                      s\<lparr>bookings := (bookings s)[n - 1 := b\<lparr>status := new, updatedAt := now\<rparr>]\<rparr>))"
  using update_status_lookup [OF assms(1-3)] assms(4)
  by (simp add: update_status_def Let_def split: option.split)

lemma foldl_add_sum_list: "foldl (\<lambda>acc x. acc + f x) a xs = a + sum_list (map f xs)"
  by (induction xs arbitrary: a) (simp_all add: add.assoc)

lemma length_filter_count_list: "length (filter (\<lambda>b. f b = x) xs) = count_list (map f xs) x"
  by (induction xs) simp_all

lemma create_booking_ok:
  "create_booking u body now s = (Ok c b, s') \<Longrightarrow>
     c = 201 \<and> booking_id b = nextBookingId s \<and> customerId b = uid u \<and> status b = Pending \<and>
     s' = s\<lparr>bookings := bookings s @ [b], nextBookingId := Suc (nextBookingId s)\<rparr>"
  by (drule create_booking_cases) auto

lemma get_booking_lookup:
  assumes "store_inv s" and "0 < n" and "n < nextBookingId s"
  shows "find (\<lambda>b. parse_int10 (dec_str n) = Some (int (booking_id b))) (bookings s) =
           Some (bookings s ! (n - 1))"
  using update_status_lookup [OF assms] by (simp add: find_eq_find_index)

lemma demo_store_eq:
  "demo_store = \<lparr>bookings = [\<lparr>booking_id = 1, customerId = ''c1'', maidId = JStr ''m1'',
     service = JStr ''House Cleaning'', date = JStr ''2025-01-01'', time = JStr ''10:00'',
     address = JStr ''1 Main St'', amount = 800, specialInstructions = JStr '''',
     status = Pending, createdAt = 0, updatedAt = 0\<rparr>], nextBookingId = 2\<rparr>"
  by (simp add: create_booking_def init_store_def js_get_def js_or_def Let_def numeral_2_eq_2)

lemma demo_store_reach: "store_reach demo_store"
  by (rule store_reach.create [OF store_reach.init, of demo_customer demo_body 0
        "fst (create_booking demo_customer demo_body 0 init_store)"]) simp

lemma demo_store_inv: "store_inv demo_store"
  by (simp add: demo_store_eq store_inv_def reachable_status.init numeral_2_eq_2)

lemma demo_update:
  "update_status u (dec_str 1) (status_body new) now demo_store =
     (case decide (urole u) (''c1'' = uid u) (JStr ''m1'' = JStr (uid u)) Pending new of
        Some (c, m) \<Rightarrow> (Err c m, demo_store)
      | None \<Rightarrow> (Ok 200 ((bookings demo_store ! 0)\<lparr>status := new, updatedAt := now\<rparr>),
                 demo_store\<lparr>bookings := [(bookings demo_store ! 0)\<lparr>status := new, updatedAt := now\<rparr>]\<rparr>))"
  using update_status_at [OF demo_store_inv, of 1 "bookings demo_store ! 0" u new now]
  by (simp add: demo_store_eq split: option.split)

lemma store_inv_find_id:
  assumes "store_inv s"
  shows "find (\<lambda>b. booking_id b = n) (bookings s) =
           (if 0 < n \<and> n < nextBookingId s then Some (bookings s ! (n - 1)) else None)"
proof -
  have P: "(\<lambda>b. Some (int n) = Some (int (booking_id b))) = (\<lambda>b. booking_id b = n)"
    by (auto simp: fun_eq_iff)
  have l: "length (bookings s) = nextBookingId s - 1" by (rule store_inv_length [OF assms])
  show ?thesis
    using find_index_booking_id [OF assms, of "Some (int n)"] l
    unfolding P by (auto simp: find_eq_find_index)
qed

lemma booking_status_inv:
  "store_inv s \<Longrightarrow> booking_status n s =
     (if 0 < n \<and> n < nextBookingId s then Some (status (bookings s ! (n - 1))) else None)"
  by (simp add: booking_status_def store_inv_find_id)

lemma write_step_inv: "store_inv s \<Longrightarrow> store_inv (write_step w now s)"
  by (cases w) (auto simp: write_step_def intro: create_booking_inv update_status_inv [OF prod.collapse [symmetric]]
                      create_booking_inv [OF prod.collapse [symmetric]])

text \<open>One write moves a booking's status at most one step up the lifecycle.\<close>

lemma write_step_status:
  assumes "store_inv s"
  shows "booking_status n (write_step w now s) = booking_status n s \<or>
         (booking_status n s = None \<and> booking_status n (write_step w now s) = Some Pending) \<or>
         (\<exists>a b. booking_status n s = Some a \<and> booking_status n (write_step w now s) = Some b \<and> rank a < rank b)"
proof (cases w)
  case (WCreate u body)
  obtain r s' where c: "create_booking u body now s = (r, s')" by fastforce
  have i': "store_inv s'" by (rule create_booking_inv [OF c assms])
  have l: "length (bookings s) = nextBookingId s - 1" by (rule store_inv_length [OF assms])
  from create_booking_cases [OF c] show ?thesis
  proof
    assume "s' = s \<and> \<not> is_ok r" with c WCreate show ?thesis by (simp add: write_step_def)
  next
    assume "\<exists>b. r = Ok 201 b \<and> urole u = Customer \<and> booking_id b = nextBookingId s \<and>
              customerId b = uid u \<and> status b = Pending \<and>
              s' = s\<lparr>bookings := bookings s @ [b], nextBookingId := Suc (nextBookingId s)\<rparr>"
    then obtain b where st: "status b = Pending"
      and s': "s' = s\<lparr>bookings := bookings s @ [b], nextBookingId := Suc (nextBookingId s)\<rparr>" by blast
    have "0 < nextBookingId s" using assms by (simp add: store_inv_def)
    then show ?thesis
      using c WCreate booking_status_inv [OF i', of n] booking_status_inv [OF assms, of n] s' st l
      by (auto simp: write_step_def nth_append less_Suc_eq)
  qed
next
  case (WUpdate u p body)
  obtain r s' where c: "update_status u p body now s = (r, s')" by fastforce
  have i': "store_inv s'" by (rule update_status_inv [OF c assms])
  from update_status_cases [OF c] show ?thesis
  proof
    assume "s' = s \<and> \<not> is_ok r" with c WUpdate show ?thesis by (simp add: write_step_def)
  next
    assume "\<exists>idx new. idx < length (bookings s) \<and>
            parse_status (js_get body ''status'') = Some new \<and>
            decide (urole u) (customerId (bookings s ! idx) = uid u)
              (maidId (bookings s ! idx) = JStr (uid u)) (status (bookings s ! idx)) new = None \<and>
            r = Ok 200 ((bookings s ! idx)\<lparr>status := new, updatedAt := now\<rparr>) \<and>
            s' = s\<lparr>bookings := (bookings s)[idx := (bookings s ! idx)\<lparr>status := new, updatedAt := now\<rparr>]\<rparr>"
    then obtain idx new where idx: "idx < length (bookings s)"
      and d: "decide (urole u) (customerId (bookings s ! idx) = uid u)
              (maidId (bookings s ! idx) = JStr (uid u)) (status (bookings s ! idx)) new = None"
      and s': "s' = s\<lparr>bookings := (bookings s)[idx := (bookings s ! idx)\<lparr>status := new, updatedAt := now\<rparr>]\<rparr>"
      by blast
    have rk: "rank (status (bookings s ! idx)) < rank new"
      by (rule transition_rank [OF decide_None_transition [OF d]])
    have ws: "write_step w now s = s'" using c WUpdate by (simp add: write_step_def)
    show ?thesis
    proof (cases "0 < n \<and> n < nextBookingId s \<and> n - 1 = idx")
      case True
      then have "booking_status n s = Some (status (bookings s ! idx))" and "booking_status n s' = Some new"
        using booking_status_inv [OF assms, of n] booking_status_inv [OF i', of n] s' idx by simp_all
      with rk ws show ?thesis by simp
    next
      case False
      then have "booking_status n s' = booking_status n s"
        using booking_status_inv [OF assms, of n] booking_status_inv [OF i', of n] s' by auto
      with ws show ?thesis by simp
    qed
  qed
qed

lemma write_step_budget:
  assumes "store_inv s"
  shows "(if booking_status n s \<noteq> None \<and> booking_status n (write_step w now s) \<noteq> booking_status n s then 1 else 0) +
           status_budget (booking_status n (write_step w now s)) \<le> status_budget (booking_status n s)"
  using write_step_status [OF assms, of n w now]
proof (elim disjE exE conjE)
  fix a b assume "booking_status n s = Some a" and "booking_status n (write_step w now s) = Some b"
    and "rank a < rank b"
  moreover have "rank b \<le> 3" by (rule rank_le_3)
  ultimately show ?thesis by (simp add: status_budget_def, arith)
qed (simp_all add: status_budget_def)

subsection \<open>Properties\<close>

text \<open>
  C1. Every store that a sequence of create and status-update requests produces
  from the empty store satisfies the repository invariant: booking ids are
  \<open>1, 2, ...\<close> in insertion order, hence unique and below \<open>nextBookingId\<close>,
  and every stored status is reachable from \<open>pending\<close> through the transition
  table, so no request path sets an arbitrary status.
\<close>

theorem store_reach_inv: "store_reach s \<Longrightarrow> store_inv s"
proof (induction rule: store_reach.induct)
  case init
  show ?case by (simp add: store_inv_def init_store_def)
next
  case (create s u body now r s')
  then show ?case by (blast intro: create_booking_inv)
next
  case (update s u p body now r s')
  then show ?case by (blast intro: update_status_inv)
qed

theorem store_reach_inv_witness: "store_reach demo_store \<and> store_inv demo_store"
  using demo_store_reach store_reach_inv [OF demo_store_reach] by simp

text \<open>
  C3. On a store satisfying the invariant, a status request for an existing
  booking \<open>n\<close> (the path parameter the dashboards send, \<open>String(n)\<close>) succeeds,
  returning the booking with the new status and the clock reading and writing
  exactly that booking, if and only if the transition table allows the move for
  the caller's role and the caller is that booking's maid (for a maid) or
  customer (for a customer).
\<close>

theorem update_status_spec:
  assumes "store_inv s" and "0 < n" and "n < nextBookingId s"
    and "b = bookings s ! (n - 1)" and "b' = b\<lparr>status := new, updatedAt := now\<rparr>"
  shows "update_status u (dec_str n) [(''status'', JStr (status_str new))] now s =
           (Ok 200 b', s\<lparr>bookings := (bookings s)[n - 1 := b']\<rparr>) \<longleftrightarrow>
         transition (urole u) (status b) new \<and>
         (urole u = Maid \<longrightarrow> maidId b = JStr (uid u)) \<and>
         (urole u = Customer \<longrightarrow> customerId b = uid u)"
  using update_status_at [OF assms(1-4), of u new now] assms(5)
  by (cases "urole u") (auto simp: decide_def transition_iff split: option.splits)

theorem update_status_spec_witness:
  "update_status demo_maid (dec_str 1) (status_body Confirmed) 5 demo_store =
     (Ok 200 ((bookings demo_store ! 0)\<lparr>status := Confirmed, updatedAt := 5\<rparr>),
      demo_store\<lparr>bookings := (bookings demo_store)[0 := (bookings demo_store ! 0)\<lparr>status := Confirmed, updatedAt := 5\<rparr>]\<rparr>)"
proof -
  have n: "0 < (1::nat)" "1 < nextBookingId demo_store" by (simp_all add: demo_store_eq)
  have "transition (urole demo_maid) (status (bookings demo_store ! (1 - 1))) Confirmed"
    by (simp add: demo_store_eq transition.accept)
  moreover have "maidId (bookings demo_store ! (1 - 1)) = JStr (uid demo_maid)"
    by (simp add: demo_store_eq)
  ultimately show ?thesis
    using update_status_spec [OF demo_store_inv n refl refl, of demo_maid Confirmed 5] by simp
qed

text \<open>
  C4. A status request changes a booking only when the caller is a party to it
  with the matching role: a maid who is not its \<open>maidId\<close>, a customer who is
  not its \<open>customerId\<close>, and every admin leave it unchanged.
\<close>

theorem update_only_by_party:
  assumes "update_status u p body now s = (r, s')" and "i < length (bookings s)"
    and "bookings s' ! i \<noteq> bookings s ! i"
  shows "(urole u = Maid \<and> maidId (bookings s ! i) = JStr (uid u)) \<or>
         (urole u = Customer \<and> customerId (bookings s ! i) = uid u)"
  using update_status_entry [OF assms(1,2)] assms(3) by (auto simp: decide_None_iff)

theorem update_only_by_party_witness:
  "urole demo_maid = Maid \<and> maidId (bookings demo_store ! 0) = JStr (uid demo_maid) \<and>
   bookings (snd (update_status demo_maid (dec_str 1) (status_body Confirmed) 5 demo_store)) ! 0 \<noteq>
   bookings demo_store ! 0"
proof -
  let ?r = "update_status demo_maid (dec_str 1) (status_body Confirmed) 5 demo_store"
  have r: "?r = (Ok 200 ((bookings demo_store ! 0)\<lparr>status := Confirmed, updatedAt := 5\<rparr>),
      demo_store\<lparr>bookings := [(bookings demo_store ! 0)\<lparr>status := Confirmed, updatedAt := 5\<rparr>]\<rparr>)"
    using demo_update [of demo_maid Confirmed 5] by (simp add: decide_def)
  have ch: "bookings (snd ?r) ! 0 \<noteq> bookings demo_store ! 0"
    using r by (simp add: demo_store_eq)
  have "0 < length (bookings demo_store)" by (simp add: demo_store_eq)
  from update_only_by_party [OF prod.collapse [symmetric] this ch] ch show ?thesis
    by simp
qed

text \<open>
  C5. Terminal states are final: once a booking is \<open>completed\<close>,
  \<open>declined\<close> or \<open>cancelled\<close>, no status request by any caller changes it.
\<close>

theorem terminal_booking_frozen:
  assumes "update_status u p body now s = (r, s')" and "i < length (bookings s)"
    and "is_terminal (status (bookings s ! i))"
  shows "bookings s' ! i = bookings s ! i"
  using update_status_entry [OF assms(1,2)] assms(3)
  by (auto dest: decide_None_transition transition_not_terminal)

theorem terminal_booking_frozen_witness:
  "is_terminal (status (bookings (snd (update_status demo_maid (dec_str 1) (status_body Declined) 5 demo_store)) ! 0)) \<and>
   bookings (snd (update_status demo_customer (dec_str 1) (status_body Cancelled) 6
      (snd (update_status demo_maid (dec_str 1) (status_body Declined) 5 demo_store)))) ! 0 =
   bookings (snd (update_status demo_maid (dec_str 1) (status_body Declined) 5 demo_store)) ! 0"
proof -
  let ?s = "snd (update_status demo_maid (dec_str 1) (status_body Declined) 5 demo_store)"
  have r: "?s = demo_store\<lparr>bookings := [(bookings demo_store ! 0)\<lparr>status := Declined, updatedAt := 5\<rparr>]\<rparr>"
    using demo_update [of demo_maid Declined 5] by (simp add: decide_def)
  have t: "is_terminal (status (bookings ?s ! 0))" and l: "0 < length (bookings ?s)"
    using r by simp_all
  show ?thesis
    using t terminal_booking_frozen [OF prod.collapse [symmetric] l t,
        of demo_customer "dec_str 1" "status_body Cancelled" 6] by simp
qed

text \<open>
  C6. A status request either leaves a booking's status as it was or moves it
  along one edge of the transition table, for the caller's role.
\<close>

theorem update_follows_table:
  assumes "update_status u p body now s = (r, s')" and "i < length (bookings s)"
  shows "status (bookings s' ! i) = status (bookings s ! i) \<or>
         transition (urole u) (status (bookings s ! i)) (status (bookings s' ! i))"
  using update_status_entry [OF assms(1,2)] by (auto dest: decide_None_transition)

theorem update_follows_table_witness:
  "transition (urole demo_maid) (status (bookings demo_store ! 0))
     (status (bookings (snd (update_status demo_maid (dec_str 1) (status_body Confirmed) 5 demo_store)) ! 0))"
proof -
  let ?r = "update_status demo_maid (dec_str 1) (status_body Confirmed) 5 demo_store"
  have l: "0 < length (bookings demo_store)" by (simp add: demo_store_eq)
  have r: "?r = (Ok 200 ((bookings demo_store ! 0)\<lparr>status := Confirmed, updatedAt := 5\<rparr>),
      demo_store\<lparr>bookings := [(bookings demo_store ! 0)\<lparr>status := Confirmed, updatedAt := 5\<rparr>]\<rparr>)"
    using demo_update [of demo_maid Confirmed 5] by (simp add: decide_def)
  have ne: "status (bookings (snd ?r) ! 0) \<noteq> status (bookings demo_store ! 0)"
    using r by (simp add: demo_store_eq)
  from update_follows_table [OF prod.collapse [symmetric] l] ne show ?thesis by blast
qed

text \<open>
  C8. Insert then look up: a booking created on a store satisfying the invariant
  is found again by \<open>GET /:id\<close> under the id it was given, by its customer, as
  a \<open>pending\<close> booking of that customer.
\<close>

theorem create_then_get:
  assumes "store_inv s" and "create_booking u body now s = (Ok c b, s')"
  shows "get_booking u (dec_str (booking_id b)) s' = Ok 200 b \<and> status b = Pending \<and>
         customerId b = uid u"
proof -
  from create_booking_ok [OF assms(2)] have c: "c = 201" and id: "booking_id b = nextBookingId s"
    and cu: "customerId b = uid u" and st: "status b = Pending"
    and s': "s' = s\<lparr>bookings := bookings s @ [b], nextBookingId := Suc (nextBookingId s)\<rparr>"
    by simp_all
  have inv': "store_inv s'" using create_booking_inv [OF assms(2,1)] .
  have pos: "0 < nextBookingId s" using assms(1) by (simp add: store_inv_def)
  have len: "length (bookings s) = nextBookingId s - 1" using assms(1) by (rule store_inv_length)
  have "find (\<lambda>x. parse_int10 (dec_str (booking_id b)) = Some (int (booking_id x))) (bookings s') =
          Some (bookings s' ! (booking_id b - 1))"
    using get_booking_lookup [OF inv', of "booking_id b"] id pos s' by simp
  moreover have "bookings s' ! (booking_id b - 1) = b"
    using s' id len pos by (simp add: nth_append)
  ultimately show ?thesis using cu st by (simp add: get_booking_def)
qed

theorem create_then_get_witness:
  "get_booking demo_customer (dec_str 1) demo_store = Ok 200 (bookings demo_store ! 0)"
proof -
  have inv: "store_inv init_store" by (simp add: store_inv_def init_store_def)
  have eq: "create_booking demo_customer demo_body 0 init_store = (Ok 201 (bookings demo_store ! 0), demo_store)"
    by (simp add: create_booking_def init_store_def js_get_def js_or_def Let_def)
  have "booking_id (bookings demo_store ! 0) = 1" by (simp add: demo_store_eq)
  with create_then_get [OF inv eq] show ?thesis by simp
qed

text \<open>
  C9. The stats handler aggregates exactly the list the list handler returns to
  the same caller: its total, completed and pending counts are those of that
  list, and \<open>totalSpent\<close> (the \<open>reduce\<close> over \<open>Number(b.amount) || 0\<close>) is
  the sum of its amounts for a customer and 0 otherwise.
\<close>

theorem get_stats_refines_list:
  "get_stats u s = reply_map (aggregate (urole u)) (list_bookings u s)"
  by (cases "urole u")
     (simp_all add: get_stats_def list_bookings_def aggregate_def foldl_add_sum_list Let_def
        length_filter_count_list)

text \<open>
  C10. Two status requests on the same booking that aim at different statuses,
  each allowed from the status both callers saw, never both succeed when they
  are served one after the other (as Node serves them): the second finds the
  booking already moved and is refused.
\<close>

theorem conflicting_updates_one_wins:
  assumes "store_inv s" and "0 < n" and "n < nextBookingId s"
    and "update_status u1 (dec_str n) [(''status'', JStr (status_str t1))] now1 s = (r1, s1)"
    and "update_status u2 (dec_str n) [(''status'', JStr (status_str t2))] now2 s1 = (r2, s2)"
    and "t1 \<noteq> t2"
    and "transition (urole u1) (status (bookings s ! (n - 1))) t1"
    and "transition (urole u2) (status (bookings s ! (n - 1))) t2"
  shows "\<not> (is_ok r1 \<and> is_ok r2)"
proof
  assume ok: "is_ok r1 \<and> is_ok r2"
  let ?i = "n - 1" and ?b = "bookings s ! (n - 1)"
  have len: "?i < length (bookings s)"
    using assms(2,3) store_inv_length [OF assms(1)] by simp
  from ok assms(4) update_status_at [OF assms(1-3) refl, of u1 t1 now1]
  have s1: "s1 = s\<lparr>bookings := (bookings s)[?i := ?b\<lparr>status := t1, updatedAt := now1\<rparr>]\<rparr>"
    by (auto split: option.splits)
  have inv1: "store_inv s1" using update_status_inv [OF assms(4,1)] .
  have next1: "nextBookingId s1 = nextBookingId s" using s1 by simp
  have st1: "status (bookings s1 ! ?i) = t1" using s1 len by simp
  from ok assms(5) update_status_at [OF inv1 assms(2) assms(3)[folded next1] refl, of u2 t2 now2]
  have "transition (urole u2) (status (bookings s1 ! ?i)) t2"
    by (auto split: option.splits dest: decide_None_transition)
  with st1 siblings_no_transition [OF assms(7,8,6)] show False by simp
qed

theorem conflicting_updates_one_wins_witness:
  "\<not> (is_ok (fst (update_status demo_maid (dec_str 1) (status_body Confirmed) 5 demo_store)) \<and>
      is_ok (fst (update_status demo_customer (dec_str 1) (status_body Cancelled) 6
                   (snd (update_status demo_maid (dec_str 1) (status_body Confirmed) 5 demo_store)))))"
proof -
  have n: "0 < (1::nat)" "1 < nextBookingId demo_store" by (simp_all add: demo_store_eq)
  have t1: "transition (urole demo_maid) (status (bookings demo_store ! (1 - 1))) Confirmed"
    by (simp add: demo_store_eq transition.accept)
  have t2: "transition (urole demo_customer) (status (bookings demo_store ! (1 - 1))) Cancelled"
    by (simp add: demo_store_eq transition.cancel)
  show ?thesis
    using conflicting_updates_one_wins [OF demo_store_inv n prod.collapse [symmetric]
        prod.collapse [symmetric] _ t1 t2] by simp
qed

text \<open>
  C14. \<open>POST /\<close> creates a booking exactly when the caller is a customer and
  \<open>maidId\<close>, \<open>service\<close>, \<open>date\<close>, \<open>time\<close> and \<open>address\<close> are all truthy; in
  every other case it answers with an error.
\<close>

theorem create_booking_accepts:
  "is_ok (fst (create_booking u body now s)) \<longleftrightarrow>
     urole u = Customer \<and> truthy (js_get body ''maidId'') \<and> truthy (js_get body ''service'') \<and>
     truthy (js_get body ''date'') \<and> truthy (js_get body ''time'') \<and> truthy (js_get body ''address'')"
  by (simp add: create_booking_def Let_def)

theorem create_booking_accepts_witness:
  "is_ok (fst (create_booking demo_customer demo_body 0 init_store)) \<and>
   \<not> is_ok (fst (create_booking demo_customer (tl demo_body) 0 init_store)) \<and>
   \<not> is_ok (fst (create_booking demo_maid demo_body 0 init_store))"
  using create_booking_accepts [of demo_customer demo_body 0 init_store]
    create_booking_accepts [of demo_customer "tl demo_body" 0 init_store]
    create_booking_accepts [of demo_maid demo_body 0 init_store]
  by (simp add: js_get_def)

text \<open>
  C15. \<open>GET /:id\<close> returns only a stored booking of which the caller is the
  customer or the assigned maid.
\<close>

theorem get_booking_authorized:
  "get_booking u p s = Ok c b \<Longrightarrow>
     b \<in> set (bookings s) \<and> (customerId b = uid u \<or> maidId b = JStr (uid u))"
  by (auto simp: get_booking_def split: option.splits if_splits dest: find_Some_iff [THEN iffD1])

theorem get_booking_authorized_witness:
  "bookings demo_store ! 0 \<in> set (bookings demo_store) \<and>
   maidId (bookings demo_store ! 0) = JStr (uid demo_maid)"
proof -
  have "get_booking demo_maid (dec_str 1) demo_store = Ok 200 (bookings demo_store ! 0)"
    using update_status_lookup [OF demo_store_inv, of 1]
    by (simp add: get_booking_def find_eq_find_index) (simp add: demo_store_eq)
  from get_booking_authorized [OF this] show ?thesis by (simp add: demo_store_eq)
qed

text \<open>
  C16. A status request never rewrites who and what a booking is about: apart
  from \<open>status\<close> and \<open>updatedAt\<close> every field of every booking, and the id
  counter, stay as they were.
\<close>

theorem update_keeps_fixed_fields:
  "map booking_core (bookings (snd (update_status u p body now s))) = map booking_core (bookings s) \<and>
   nextBookingId (snd (update_status u p body now s)) = nextBookingId s"
proof -
  obtain r s' where eq: "update_status u p body now s = (r, s')" by fastforce
  from update_status_cases [OF eq] have "map booking_core (bookings s') = map booking_core (bookings s) \<and>
     nextBookingId s' = nextBookingId s"
    by (auto simp: booking_core_def)
  with eq show ?thesis by simp
qed

text \<open>
  C13. The booking lifecycle ends, whatever the requests: in any run of create
  and status requests, by any callers in any order, starting from a store
  satisfying the invariant, at most \<open>3 - rank\<close> of the requests change the
  status of an existing booking (at most three for one created during the
  run), because every accepted status request moves it up the lifecycle.
\<close>

theorem status_changes_bound:
  "store_inv s \<Longrightarrow> status_changes n ws now s \<le> status_budget (booking_status n s)"
proof (induction ws arbitrary: now s)
  case Nil then show ?case by simp
next
  case (Cons w ws)
  have "status_changes n ws (Suc now) (write_step w now s) \<le> status_budget (booking_status n (write_step w now s))"
    using Cons.IH [OF write_step_inv [OF Cons.prems]] .
  with write_step_budget [OF Cons.prems, of n w now] show ?case by (simp add: Let_def)
qed

theorem status_changes_bound_witness:
  "status_changes 1 [WUpdate demo_maid ''1'' (status_body Confirmed), WUpdate demo_customer ''1'' (status_body Cancelled),
      WUpdate demo_maid ''1'' (status_body In_progress), WUpdate demo_maid ''1'' (status_body Completed),
      WUpdate demo_customer ''1'' (status_body Cancelled)] 5 demo_store = 3 \<and>
   status_budget (booking_status 1 demo_store) = 3"
proof -
  let ?ws = "[WUpdate demo_maid ''1'' (status_body Confirmed), WUpdate demo_customer ''1'' (status_body Cancelled),
      WUpdate demo_maid ''1'' (status_body In_progress), WUpdate demo_maid ''1'' (status_body Completed),
      WUpdate demo_customer ''1'' (status_body Cancelled)]"
  have c: "status_changes 1 ?ws 5 demo_store = 3" by code_simp
  have b: "status_budget (booking_status 1 demo_store) = 3" by code_simp
  from status_changes_bound [OF demo_store_inv, of 1 ?ws 5] c b show ?thesis by simp
qed

end
