(* ===== verification/Router.thy ===== *)
theory Router
  imports Store
begin

text \<open>
  Express's dispatch of the bookings router (\<open>backend/routes/bookings.js\<close>,
  mounted at \<open>/api/bookings\<close> by \<open>backend/server.js\<close> line 55): the routes in
  the order the file registers them, path matching of literal and \<open>:param\<close>
  segments, and the first route whose method and path match wins. A request
  that no route takes falls through to the \<open>notFound\<close> handler of
  \<open>backend/middleware/errorHandler.js\<close>. Paths are given as their segments
  after the mount point, with Express's default non-strict routing (a
  trailing slash is ignored); letter case is not modelled (the app's paths are
  lower case). The caller identity is the one the \<open>auth\<close> middleware
  produced; \<open>Auth\<close> models how.
\<close>

datatype http_method = GET | POST | PUT

datatype seg = Lit string | Param string

datatype handler = HCreate | HList | HGet | HUpdate | HStats

text \<open>Lines 29, 79, 98, 116 and 175, in this order.\<close>

definition bookings_routes :: "(http_method \<times> seg list \<times> handler) list" where
  "bookings_routes =
     [(POST, [], HCreate),
      (GET, [], HList),
      (GET, [Param ''id''], HGet),
      (PUT, [Param ''id'', Lit ''status''], HUpdate),
      (GET, [Lit ''stats''], HStats)]"

text \<open>
  A path pattern against the request's segments: a literal matches itself, a
  parameter any non-empty segment, which it binds.
\<close>

fun match_path :: "seg list \<Rightarrow> string list \<Rightarrow> (string \<times> string) list option" where
  "match_path [] [] = Some []"
| "match_path (Lit l # ps) (x # xs) = (if l = x then match_path ps xs else None)"
| "match_path (Param n # ps) (x # xs) =
     (if x = [] then None else map_option (\<lambda>bs. (n, x) # bs) (match_path ps xs))"
| "match_path _ _ = None"

fun dispatch :: "(http_method \<times> seg list \<times> 'h) list \<Rightarrow> http_method \<Rightarrow> string list \<Rightarrow>
    ('h \<times> (string \<times> string) list) option" where
  "dispatch [] m path = None"
| "dispatch ((m', pat, h) # rs) m path =
     (if m' = m then (case match_path pat path of
                        Some bs \<Rightarrow> Some (h, bs)
                      | None \<Rightarrow> dispatch rs m path)
      else dispatch rs m path)"

text \<open>\<open>req.params.id\<close>.\<close>

definition param :: "(string \<times> string) list \<Rightarrow> string \<Rightarrow> string" where
  "param bs n = (case map_of bs n of Some v \<Rightarrow> v | None \<Rightarrow> [])"

text \<open>
  \<open>backend/middleware/errorHandler.js\<close>: \<open>notFound\<close> (lines 8-12) turns an
  unmatched request into an error with status 404, which \<open>errorHandler\<close>
  (lines 1-6) answers with \<open>err.statusCode || 500\<close> and
  \<open>err.message || 'Server Error'\<close>.
\<close>

record http_error =
  statusCode :: nat
  message :: string

definition error_handler :: "http_error \<Rightarrow> 'a reply" where
  "error_handler e =
     Err (if statusCode e = 0 then 500 else statusCode e)
         (if message e = [] then ''Server Error'' else message e)"

definition not_found :: "string \<Rightarrow> http_error" where
  "not_found url = \<lparr>statusCode = 404, message = ''Not Found - '' @ url\<rparr>"

text \<open>\<open>req.originalUrl\<close> of a request under the mount point \<open>base\<close>.\<close>

definition original_url :: "string \<Rightarrow> string list \<Rightarrow> string" where
  "original_url base path = base @ concat (map (\<lambda>x. ''/'' @ x) path)"

datatype payload = PBooking booking | PBookings "booking list" | PStats stats

text \<open>
  One request to \<open>/api/bookings...\<close> by an authenticated caller: the route
  Express picks, the handler it runs, and the \<open>notFound\<close> answer
  (\<open>Not Found - <url>\<close>, status 404) when no route matches.
\<close>

definition handle_bookings ::
  "identity \<Rightarrow> http_method \<Rightarrow> string list \<Rightarrow> jsobj \<Rightarrow> nat \<Rightarrow> store \<Rightarrow> payload reply \<times> store" where
  "handle_bookings u m path body now s =
     (case dispatch bookings_routes m path of
        None \<Rightarrow> (error_handler (not_found (original_url ''/api/bookings'' path)), s)
      | Some (HCreate, bs) \<Rightarrow>
          (let (r, s') = create_booking u body now s in (reply_map PBooking r, s'))
      | Some (HList, bs) \<Rightarrow> (reply_map PBookings (list_bookings u s), s)
      | Some (HGet, bs) \<Rightarrow> (reply_map PBooking (get_booking u (param bs ''id'') s), s)
      | Some (HUpdate, bs) \<Rightarrow>
          (let (r, s') = update_status u (param bs ''id'') body now s in (reply_map PBooking r, s'))
      | Some (HStats, bs) \<Rightarrow> (reply_map PStats (get_stats u s), s))"

text \<open>
  Node serves requests one after another; a handler that does not await runs
  to completion before the next starts. A run is a list of requests, the
  \<open>k\<close>-th of them served at clock reading \<open>now + k\<close>.
\<close>

type_synonym request = "identity \<times> http_method \<times> string list \<times> jsobj"

fun serve :: "request list \<Rightarrow> nat \<Rightarrow> store \<Rightarrow> payload reply list \<times> store" where
  "serve [] now s = ([], s)"
| "serve ((u, m, path, body) # rqs) now s =
     (let (r, s') = handle_bookings u m path body now s;
          (rs, s'') = serve rqs (Suc now) s'
      in (r # rs, s''))"

subsection \<open>Lemmas\<close>

lemma dispatch_stats_path:
  "dispatch bookings_routes GET [''stats''] = Some (HGet, [(''id'', ''stats'')])"
  by (simp add: bookings_routes_def)

lemma parse_int10_stats: "parse_int10 ''stats'' = None"
  by (simp add: parse_int10_def split_sign_def is_digit_def js_ws_def)

subsection \<open>Properties\<close>

text \<open>
  C7. The stats endpoint is unreachable: \<open>GET /stats\<close> is registered after
  \<open>GET /:id\<close>, which takes every one-segment path, so Express never runs the
  stats handler (no method and path reach it), and \<open>GET /api/bookings/stats\<close>
  answers 404 \<open>Booking not found\<close> for every caller and store
  (\<open>parseInt("stats")\<close> is \<open>NaN\<close>), although the stats handler itself would
  answer 200.
\<close>

theorem stats_route_unreachable:
  "dispatch bookings_routes m path \<noteq> Some (HStats, bs) \<and>
   handle_bookings u GET [''stats''] body now s = (Err 404 ''Booking not found'', s) \<and>
   is_ok (get_stats u s)"
proof -
  have "dispatch bookings_routes m path \<noteq> Some (HStats, bs)"
    by (cases m; cases path; auto simp: bookings_routes_def split: option.splits list.splits)
  moreover have "handle_bookings u GET [''stats''] body now s = (Err 404 ''Booking not found'', s)"
    by (simp add: handle_bookings_def dispatch_stats_path param_def get_booking_def parse_int10_stats
        find_None_iff)
  moreover have "is_ok (get_stats u s)" by (simp add: get_stats_def Let_def)
  ultimately show ?thesis by blast
qed

end
