(* ===== verification/Users.thy ===== *)
theory Users
  imports Auth Router "HOL-Library.Multiset"
begin

text \<open>
  The users router of \<open>backend/routes/users.js\<close>, mounted at \<open>/api/users\<close>:
  \<open>GET /maids\<close> (lines 8-24), public, lists the active maids without their
  password, best rated first. A user document travels as the JSON Mongoose
  makes of it: its \<open>_id\<close> and fields, and no \<open>id\<close> virtual (virtuals are not
  serialised by default). MongoDB leaves the order of equal ratings open; the
  model takes the stable sort, one of the admitted orders, and the properties
  hold of every order that sorts by rating.
\<close>

text \<open>\<open>.select('-password')\<close> and \<open>res.json\<close> of a user document.\<close>

definition user_json :: "user \<Rightarrow> jsobj" where
  "user_json u =
     [(''_id'', JStr (user_oid u)), (''name'', JStr (name u)), (''email'', JStr (email u)),
      (''role'', JStr (role_str (role u))), (''phone'', JStr (phone u)),
      (''isActive'', JBool (isActive u)), (''rating'', JNum (Num (rating u)))]"

text \<open>\<open>User.find({role: 'maid', isActive: true}).sort({'profile.rating.average': -1})\<close>.\<close>

definition active_maids :: "user_db \<Rightarrow> user list" where
  "active_maids db = filter (\<lambda>u. role u = Maid \<and> isActive u) (users db)"

definition get_maids :: "user_db \<Rightarrow> jsobj list reply" where
  "get_maids db = Ok 200 (map user_json (sort_key (\<lambda>u. - rating u) (active_maids db)))"

datatype users_handler = UMaids

definition users_routes :: "(http_method \<times> seg list \<times> users_handler) list" where
  "users_routes = [(GET, [Lit ''maids''], UMaids)]"

definition handle_users :: "http_method \<Rightarrow> string list \<Rightarrow> user_db \<Rightarrow> jsobj list reply" where
  "handle_users m path db =
     (case dispatch users_routes m path of
        None \<Rightarrow> error_handler (not_found (original_url ''/api/users'' path))
      | Some (UMaids, bs) \<Rightarrow> get_maids db)"

subsection \<open>Example data\<close>

abbreviation maid_a :: user where
  "maid_a \<equiv> \<lparr>user_oid = oid 1, name = ''Ravi'', email = ''ravi@example.in'', password = Hashed ''pw1234'',
     role = Maid, phone = ''9000000001'', isActive = True, rating = 3\<rparr>"

abbreviation maid_b :: user where
  "maid_b \<equiv> \<lparr>user_oid = oid 2, name = ''Meena'', email = ''meena@example.in'', password = Hashed ''pw5678'',
     role = Maid, phone = ''9000000002'', isActive = True, rating = 5\<rparr>"

abbreviation maids_db :: user_db where
  "maids_db \<equiv> \<lparr>users = [maid_a, \<lparr>user_oid = oid 0, name = ''Asha'', email = ''asha@example.in'',
     password = Hashed ''secret1'', role = Customer, phone = ''9000000000'', isActive = True, rating = 0\<rparr>,
     maid_b, maid_a\<lparr>user_oid := oid 3, email := ''off@example.in'', isActive := False\<rparr>], nextOid = 4\<rparr>"

subsection \<open>Lemmas\<close>

lemma user_json_password: "js_get (user_json u) ''password'' = JUndef"
  by (simp add: user_json_def js_get_def)

lemma user_json_id: "js_get (user_json u) ''_id'' = JStr (user_oid u)"
  by (simp add: user_json_def js_get_def)

lemma sorted_sort_key_neg:
  "sorted_wrt (\<lambda>a b. rating b \<le> rating a) (sort_key (\<lambda>u. - rating u) xs)"
proof -
  have "sorted (map (\<lambda>u. - rating u) (sort_key (\<lambda>u. - rating u) xs))" by simp
  then show ?thesis by (simp add: sorted_map sorted_wrt_iff_nth_less)
qed

lemma get_maids_hd:
  assumes "get_maids db = Ok c ms" and "ms \<noteq> []"
  shows "\<exists>m\<in>set (users db). role m = Maid \<and> isActive m \<and> hd ms = user_json m"
proof -
  let ?us = "sort_key (\<lambda>u. - rating u) (active_maids db)"
  have ms: "ms = map user_json ?us" using assms(1) by (simp add: get_maids_def)
  with assms(2) have "?us \<noteq> []" by simp
  then have "hd ?us \<in> set (active_maids db)" using hd_in_set set_sort by metis
  with ms \<open>?us \<noteq> []\<close> show ?thesis by (auto simp: active_maids_def hd_map)
qed

subsection \<open>Properties\<close>

text \<open>
  C35. \<open>GET /api/users/maids\<close> answers exactly the active maids, each once,
  best rated first, and no listed document carries a password.
\<close>

theorem get_maids_spec:
  "\<exists>us. get_maids db = Ok 200 (map user_json us) \<and>
        mset us = mset (filter (\<lambda>u. role u = Maid \<and> isActive u) (users db)) \<and>
        sorted_wrt (\<lambda>a b. rating b \<le> rating a) us \<and>
        (\<forall>j\<in>set (map user_json us). js_get j ''password'' = JUndef)"
  by (rule exI [of _ "sort_key (\<lambda>u. - rating u) (active_maids db)"])
     (simp add: get_maids_def active_maids_def sorted_sort_key_neg user_json_password)

theorem get_maids_spec_witness:
  "\<exists>us. get_maids maids_db = Ok 200 (map user_json us) \<and> mset us = {#maid_a, maid_b#} \<and>
        sorted_wrt (\<lambda>a b. rating b \<le> rating a) us"
  using get_maids_spec [of maids_db] by (auto simp: add_mset_commute)

end
