(* ===== verification/Services.thy ===== *)
theory Services
  imports Router
begin

text \<open>
  The service catalogue of \<open>backend/routes/services.js\<close>, mounted at
  \<open>/api/services\<close>: a constant array of four services (lines 5-38), the list
  route \<open>GET /\<close> (lines 41-46) and the lookup \<open>GET /:id\<close> (lines 49-63), which
  compares each service's numeric id with \<open>parseInt(req.params.id)\<close> by
  \<open>===\<close>; \<open>NaN\<close> equals nothing. The \<open>parseInt\<close> call has no radix, so
  unlike the bookings routes, which pass 10, it also reads \<open>0x\<close>
  hexadecimal. Neither route needs authentication.
\<close>

record service =
  sv_id :: int
  sv_name :: string
  description :: string
  basePrice :: int
  duration :: nat
  category :: string

definition services :: "service list" where
  "services =
     [\<lparr>sv_id = 1, sv_name = ''House Cleaning'',
       description = ''Regular house cleaning including dusting, vacuuming, and bathroom cleaning'',
       basePrice = 80, duration = 2, category = ''residential''\<rparr>,
      \<lparr>sv_id = 2, sv_name = ''Deep Cleaning'',
       description = ''Thorough deep cleaning including inside appliances and detailed work'',
       basePrice = 150, duration = 4, category = ''residential''\<rparr>,
      \<lparr>sv_id = 3, sv_name = ''Office Cleaning'',
       description = ''Professional office space cleaning'',
       basePrice = 100, duration = 3, category = ''commercial''\<rparr>,
      \<lparr>sv_id = 4, sv_name = ''Move-in/Move-out Cleaning'',
       description = ''Complete cleaning for moving situations'',
       basePrice = 200, duration = 5, category = ''specialized''\<rparr>]"

definition get_services :: "service list reply" where
  "get_services = Ok 200 services"

definition get_service :: "string \<Rightarrow> service reply" where
  "get_service p =
     (case find (\<lambda>s. parse_int p = Some (sv_id s)) services of
        None \<Rightarrow> Err 404 ''Service not found''
      | Some s \<Rightarrow> Ok 200 s)"

datatype svc_handler = SList | SGet

datatype svc_payload = PServices "service list" | PService service

text \<open>Lines 41 and 49, in this order.\<close>

definition services_routes :: "(http_method \<times> seg list \<times> svc_handler) list" where
  "services_routes = [(GET, [], SList), (GET, [Param ''id''], SGet)]"

definition handle_services :: "http_method \<Rightarrow> string list \<Rightarrow> svc_payload reply" where
  "handle_services m path =
     (case dispatch services_routes m path of
        None \<Rightarrow> error_handler (not_found (original_url ''/api/services'' path))
      | Some (SList, bs) \<Rightarrow> reply_map PServices get_services
      | Some (SGet, bs) \<Rightarrow> reply_map PService (get_service (param bs ''id'')))"

subsection \<open>Lemmas\<close>

lemma services_ids: "map sv_id services = [1, 2, 3, 4]"
  by (simp add: services_def)

lemma find_services:
  "find (\<lambda>s. k = Some (sv_id s)) services = Some s \<longleftrightarrow> s \<in> set services \<and> k = Some (sv_id s)"
proof -
  have d: "distinct (map sv_id services)" by (simp add: services_ids)
  show ?thesis
  proof
    assume "find (\<lambda>s. k = Some (sv_id s)) services = Some s"
    then show "s \<in> set services \<and> k = Some (sv_id s)"
      by (auto simp: find_Some_iff intro: nth_mem)
  next
    assume a: "s \<in> set services \<and> k = Some (sv_id s)"
    then show "find (\<lambda>s. k = Some (sv_id s)) services = Some s"
      using find_distinct_key [OF d, of s] by (simp add: eq_commute)
  qed
qed

lemma services_ids_pos: "s \<in> set services \<Longrightarrow> 0 < sv_id s"
  by (auto simp: services_def)

lemma dispatch_services_one: "x \<noteq> [] \<Longrightarrow> dispatch services_routes GET [x] = Some (SGet, [(''id'', x)])"
  by (simp add: services_routes_def)

subsection \<open>Properties\<close>

text \<open>
  C33. \<open>GET /api/services/:id\<close> answers a service exactly when it is in the
  catalogue and \<open>parseInt\<close> of the parameter, read without a radix, is its
  id (so \<open>/2abc\<close> and \<open>/0x2\<close> find service 2); otherwise 404
  \<open>Service not found\<close>.
\<close>

theorem get_service_iff:
  "get_service p = Ok c s \<longleftrightarrow> c = 200 \<and> s \<in> set services \<and> parse_int p = Some (sv_id s)"
proof -
  have "get_service p = Ok c s \<longleftrightarrow>
      c = 200 \<and> find (\<lambda>s. parse_int p = Some (sv_id s)) services = Some s"
    by (auto simp: get_service_def split: option.splits)
  also have "\<dots> \<longleftrightarrow> c = 200 \<and> s \<in> set services \<and> parse_int p = Some (sv_id s)"
    by (simp only: find_services)
  finally show ?thesis .
qed

text \<open>The hexadecimal reading: \<open>/api/services/0x2\<close> and \<open>/api/services/2\<close> answer the same service.\<close>

theorem get_service_hex: "get_service ''0x2'' = get_service ''2'' \<and> get_service ''0x2'' = Ok 200 (services ! 1)"
  by code_simp

text \<open>
  Through the router, every catalogue entry is found under the decimal
  string of its id, as the frontend's service ids are written.
\<close>

theorem handle_service_by_id:
  assumes "s \<in> set services"
  shows "handle_services GET [dec_str (nat (sv_id s))] = Ok 200 (PService s)"
proof -
  have p: "parse_int (dec_str (nat (sv_id s))) = Some (sv_id s)"
    using services_ids_pos [OF assms] by simp
  have "find (\<lambda>t. Some (sv_id s) = Some (sv_id t)) services = Some s"
    using find_services [of "Some (sv_id s)" s] assms by blast
  then have "find (\<lambda>t. parse_int (dec_str (nat (sv_id s))) = Some (sv_id t)) services = Some s"
    by (simp only: p)
  then show ?thesis
    by (simp add: handle_services_def dispatch_services_one dec_str_ne param_def get_service_def)
qed

theorem handle_service_by_id_witness:
  "handle_services GET [''2''] = Ok 200 (PService (services ! 1))"
proof -
  have m: "services ! 1 \<in> set services" by (simp add: services_def)
  have "dec_str (nat (sv_id (services ! 1))) = ''2''" by (simp add: services_def) code_simp
  with handle_service_by_id [OF m] show ?thesis by simp
qed

end
