(* ===== verification/Payments.thy ===== *)
theory Payments
  imports Auth
begin

text \<open>
  The payment routes of \<open>backend/routes/payments.js\<close>, mounted at
  \<open>/api/payments\<close>: \<open>POST /create-order\<close> (lines 19-53) builds the Razorpay
  order options and calls \<open>razorpay.orders.create\<close>; \<open>POST /verify\<close>
  (lines 56-83) checks the checkout's HMAC signature; \<open>POST /webhook\<close>
  (lines 87-105) checks the webhook's HMAC signature over the raw body. The
  Razorpay API, \<open>crypto.createHmac(...).digest('hex')\<close> and \<open>JSON.parse\<close> are
  parameters: \<open>rz\<close> answers an order or fails (\<open>None\<close>, the \<open>catch\<close>),
  \<open>hmac k m\<close> is the hex digest of message \<open>m\<close> under key \<open>k\<close>, and the
  environment's secrets are \<open>string option\<close> (\<open>None\<close> when unset, where
  \<open>createHmac\<close> throws). The caller is the user the \<open>auth\<close> middleware put in
  \<open>req.user\<close>. Amounts are integers, as in \<open>JsValue\<close>.
\<close>

subsection \<open>JavaScript helpers\<close>

text \<open>\<open>String(x)\<close>, as a template literal \<open>`${x}`\<close> converts a value.\<close>

fun js_string :: "jsval \<Rightarrow> string" where
  "js_string JUndef = ''undefined''"
| "js_string JNull = ''null''"
| "js_string (JBool b) = (if b then ''true'' else ''false'')"
| "js_string (JNum NaN) = ''NaN''"
| "js_string (JNum (Num n)) = int_str n"
| "js_string (JStr s) = s"

text \<open>\<open>x <= 0\<close> against a number: \<open>x\<close> is converted by \<open>ToNumber\<close>; \<open>NaN\<close> compares false.\<close>

definition js_le_zero :: "jsval \<Rightarrow> bool" where
  "js_le_zero v = (case to_number v of NaN \<Rightarrow> False | Num n \<Rightarrow> n \<le> 0)"

text \<open>\<open>Math.round(x * 100)\<close>, exact on integers.\<close>

definition js_times100 :: "jsval \<Rightarrow> jsnum" where
  "js_times100 v = (case to_number v of NaN \<Rightarrow> NaN | Num n \<Rightarrow> Num (100 * n))"

subsection \<open>\<open>POST /create-order\<close>\<close>

record order_opts =
  o_amount :: jsnum
  o_currency :: jsval
  o_receipt :: jsval
  o_notes :: jsobj

record order =
  order_id :: string
  ord_amount :: jsnum
  ord_currency :: jsval

record order_data =
  orderId :: string
  od_amount :: jsnum
  od_currency :: jsval
  od_key :: jsval

text \<open>
  The \<open>options\<close> object of lines 21 and 27-36: \<open>currency\<close> defaults to
  \<open>'INR'\<close> only when absent (a destructuring default), \<open>receipt\<close> to
  \<open>order_<Date.now()>\<close> when falsy, and the spread of the client's \<open>notes\<close> is
  followed by \<open>userId\<close> and \<open>userEmail\<close>, which override keys of the same name.
  \<open>notes\<close> is the body's \<open>notes\<close> object (\<open>{}\<close> when absent).
\<close>

definition order_options :: "user \<Rightarrow> jsobj \<Rightarrow> jsobj \<Rightarrow> nat \<Rightarrow> order_opts" where
  "order_options u body notes now =
     \<lparr>o_amount = js_times100 (js_get body ''amount''),
      o_currency = (case js_get body ''currency'' of JUndef \<Rightarrow> JStr ''INR'' | c \<Rightarrow> c),
      o_receipt = js_or (js_get body ''receipt'') (JStr (''order_'' @ dec_str now)),
      o_notes = notes @ [(''userId'', JStr (user_oid u)), (''userEmail'', JStr (email u))]\<rparr>"

definition create_order ::
  "(order_opts \<Rightarrow> order option) \<Rightarrow> jsval \<Rightarrow> user \<Rightarrow> jsobj \<Rightarrow> jsobj \<Rightarrow> nat \<Rightarrow> order_data reply" where
  "create_order rz key u body notes now =
     (let a = js_get body ''amount''
      in if \<not> truthy a \<or> js_le_zero a then Err 400 ''Invalid amount''
         else (case rz (order_options u body notes now) of
                 None \<Rightarrow> Err 500 ''Payment order creation failed''
               | Some ord \<Rightarrow>
                   Ok 200 \<lparr>orderId = order_id ord, od_amount = ord_amount ord,
                           od_currency = ord_currency ord, od_key = key\<rparr>))"

subsection \<open>\<open>POST /verify\<close>\<close>

text \<open>
  The three fields must be truthy; the expected signature is the HMAC of
  \<open>`${order_id}|${payment_id}`\<close> under \<open>RAZORPAY_KEY_SECRET\<close>, compared with
  \<open>!==\<close>, so only the same string passes.
\<close>

definition verify_payment ::
  "(string \<Rightarrow> string \<Rightarrow> string) \<Rightarrow> string option \<Rightarrow> jsobj \<Rightarrow> (jsval \<times> jsval) reply" where
  "verify_payment hmac secret body =
     (let oi = js_get body ''razorpay_order_id''; pa = js_get body ''razorpay_payment_id'';
          sg = js_get body ''razorpay_signature''
      in if \<not> truthy oi \<or> \<not> truthy pa \<or> \<not> truthy sg
         then Err 400 ''Missing payment verification fields''
         else (case secret of
                 None \<Rightarrow> Err 500 ''Payment verification failed''
               | Some k \<Rightarrow>
                   if JStr (hmac k (js_string oi @ ''|'' @ js_string pa)) \<noteq> sg
                   then Err 400 ''Invalid payment signature''
                   else Ok 200 (oi, pa)))"

subsection \<open>\<open>POST /webhook\<close> and the body parsers\<close>

text \<open>
  What \<open>req.body\<close> holds when a handler runs: an object or an array a body
  parser built (\<open>express.json\<close> in its default strict mode accepts both at
  the top level; the elements of an array are primitives here, nested objects
  and arrays are not modelled), or the raw bytes \<open>express.raw\<close> keeps.
\<close>

datatype req_body = BObj jsobj | BArr "jsval list" | BRaw string

text \<open>
  The parser chain a \<open>POST /api/payments/webhook\<close> request goes through:
  \<open>express.json\<close> is installed application-wide (server.js line 31), before
  the route's own \<open>express.raw({type: 'application/json'})\<close> (payments.js line
  87). A JSON body is therefore parsed first, into an object or an array (the
  parameters \<open>parse_obj\<close> and \<open>parse_arr\<close> are \<open>JSON.parse\<close> on texts whose
  value is an object, respectively an array; any other text is a parse error,
  answered 400 by the error handler, here \<open>None\<close>), and \<open>express.raw\<close> then
  skips the already-read body; any other body leaves \<open>req.body\<close> the empty
  object.
\<close>

definition webhook_body ::
  "(string \<Rightarrow> jsobj option) \<Rightarrow> (string \<Rightarrow> jsval list option) \<Rightarrow> string \<Rightarrow> string \<Rightarrow> req_body option" where
  "webhook_body parse_obj parse_arr ctype raw =
     (if ctype = ''application/json''
      then (case parse_obj raw of Some o' \<Rightarrow> Some (BObj o') | None \<Rightarrow> map_option BArr (parse_arr raw))
      else Some (BObj []))"

text \<open>
  \<open>Array.prototype.join(',')\<close>, which \<open>Array.prototype.toString\<close> calls:
  each element converted by \<open>String\<close>, \<open>null\<close> and \<open>undefined\<close> as the
  empty string.
\<close>

fun elem_text :: "jsval \<Rightarrow> string" where
  "elem_text JNull = ''''"
| "elem_text JUndef = ''''"
| "elem_text v = js_string v"

fun js_join :: "jsval list \<Rightarrow> string" where
  "js_join [] = ''''"
| "js_join [x] = elem_text x"
| "js_join (x # y # ys) = elem_text x @ '','' @ js_join (y # ys)"

text \<open>
  \<open>req.body.toString('utf8')\<close> and the string \<open>JSON.parse(req.body)\<close> reads:
  the bytes of a buffer, \<open>Object.prototype.toString\<close> for an object and
  \<open>Array.prototype.toString\<close> for an array (both ignore the argument).
\<close>

fun body_text :: "req_body \<Rightarrow> string" where
  "body_text (BObj _) = ''[object Object]''"
| "body_text (BArr xs) = js_join xs"
| "body_text (BRaw s) = s"

text \<open>
  Lines 87-105: a missing \<open>RAZORPAY_WEBHOOK_SECRET\<close> makes \<open>createHmac\<close>
  throw; the digest must equal the \<open>x-razorpay-signature\<close> header; then
  \<open>JSON.parse\<close> (the parameter \<open>json_ok\<close> tells whether it accepts a text)
  must succeed. Both failures after the secret end in the \<open>catch\<close> or the 400.
\<close>

definition webhook ::
  "(string \<Rightarrow> string \<Rightarrow> string) \<Rightarrow> string option \<Rightarrow> (string \<Rightarrow> bool) \<Rightarrow> string option \<Rightarrow>
     req_body \<Rightarrow> unit reply" where
  "webhook hmac wsecret json_ok sig b =
     (case wsecret of
        None \<Rightarrow> Err 500 ''''
      | Some k \<Rightarrow>
          if Some (hmac k (body_text b)) \<noteq> sig then Err 400 ''Invalid webhook signature''
          else if \<not> json_ok (body_text b) then Err 500 ''''
          else Ok 200 ())"

text \<open>One webhook request through the parsers and the handler.\<close>

definition webhook_request ::
  "(string \<Rightarrow> jsobj option) \<Rightarrow> (string \<Rightarrow> jsval list option) \<Rightarrow> (string \<Rightarrow> string \<Rightarrow> string) \<Rightarrow>
     string option \<Rightarrow> (string \<Rightarrow> bool) \<Rightarrow> string option \<Rightarrow> string \<Rightarrow> string \<Rightarrow> unit reply" where
  "webhook_request parse_obj parse_arr hmac wsecret json_ok sig ctype raw =
     (case webhook_body parse_obj parse_arr ctype raw of
        None \<Rightarrow> Err 400 ''Unexpected token in JSON''
      | Some b \<Rightarrow> webhook hmac wsecret json_ok sig b)"

subsection \<open>Example data\<close>

abbreviation rz_echo :: "order_opts \<Rightarrow> order option" where
  "rz_echo \<equiv> \<lambda>op. Some \<lparr>order_id = ''order_1'', ord_amount = o_amount op, ord_currency = o_currency op\<rparr>"

abbreviation vbody :: "jsval \<Rightarrow> jsval \<Rightarrow> jsval \<Rightarrow> jsobj" where
  "vbody o1 p1 s1 \<equiv> [(''razorpay_order_id'', o1), (''razorpay_payment_id'', p1), (''razorpay_signature'', s1)]"

subsection \<open>Lemmas\<close>

lemma js_get_append_right: "k \<in> fst ` set ys \<Longrightarrow> js_get (xs @ ys) k = js_get ys k"
  by (auto simp: js_get_def map_of_eq_None_iff split: option.splits)

lemma order_options_notes:
  "js_get (o_notes (order_options u body notes now)) ''userId'' = JStr (user_oid u)"
  "js_get (o_notes (order_options u body notes now)) ''userEmail'' = JStr (email u)"
  by (simp_all add: order_options_def js_get_append_right) (simp_all add: js_get_def)

lemma o_amount_order_options:
  "o_amount (order_options u body notes now) = js_times100 (js_get body ''amount'')"
  by (simp add: order_options_def)

lemma create_order_cases:
  assumes "create_order rz key u body notes now = Ok c d"
  shows "truthy (js_get body ''amount'') \<and> \<not> js_le_zero (js_get body ''amount'') \<and> c = 200 \<and>
         rz (order_options u body notes now) =
           Some \<lparr>order_id = orderId d, ord_amount = od_amount d, ord_currency = od_currency d\<rparr>"
  using assms by (auto simp: create_order_def Let_def split: if_splits option.splits)

subsection \<open>Properties\<close>

text \<open>
  C27. \<open>POST /create-order\<close> answers 400 \<open>Invalid amount\<close> exactly when
  the amount is falsy or compares \<open><= 0\<close>; every other request reaches
  Razorpay (a failure there is 500).
\<close>

theorem create_order_guard:
  "create_order rz key u body notes now = Err 400 ''Invalid amount'' \<longleftrightarrow>
   \<not> truthy (js_get body ''amount'') \<or> js_le_zero (js_get body ''amount'')"
  by (auto simp: create_order_def Let_def split: option.splits)

theorem create_order_guard_witness:
  "create_order rz_echo JUndef demo_user [(''amount'', JNum (Num 0))] [] 5 = Err 400 ''Invalid amount'' \<and>
   create_order rz_echo JUndef demo_user [(''amount'', JNull)] [] 5 = Err 400 ''Invalid amount''"
  using create_order_guard [of rz_echo JUndef demo_user "[(''amount'', JNum (Num 0))]" "[]" 5]
    create_order_guard [of rz_echo JUndef demo_user "[(''amount'', JNull)]" "[]" 5]
  by (simp add: js_get_def js_le_zero_def)

text \<open>
  C28. When an order is created, Razorpay was asked with the options of lines
  27-36, whose notes carry the caller's id and email whatever the client put
  in its \<open>notes\<close>, and whose amount, for a numeric amount \<open>n\<close>, is positive
  and in paise (\<open>100 * n\<close>); the reply echoes Razorpay's order.
\<close>

theorem create_order_options:
  assumes "create_order rz key u body notes now = Ok c d"
  shows "rz (order_options u body notes now) =
           Some \<lparr>order_id = orderId d, ord_amount = od_amount d, ord_currency = od_currency d\<rparr> \<and>
         js_get (o_notes (order_options u body notes now)) ''userId'' = JStr (user_oid u) \<and>
         js_get (o_notes (order_options u body notes now)) ''userEmail'' = JStr (email u) \<and>
         (\<forall>n. to_number (js_get body ''amount'') = Num n \<longrightarrow>
              0 < n \<and> o_amount (order_options u body notes now) = Num (100 * n))"
  using create_order_cases [OF assms]
  by (auto simp: order_options_notes o_amount_order_options js_times100_def js_le_zero_def)

theorem create_order_options_witness:
  "o_amount (order_options demo_user [(''amount'', JNum (Num 800))] [(''userId'', JStr ''forged'')] 5) =
     Num 80000 \<and>
   js_get (o_notes (order_options demo_user [(''amount'', JNum (Num 800))] [(''userId'', JStr ''forged'')] 5))
     ''userId'' = JStr (oid 0)"
proof -
  have ok: "create_order rz_echo JUndef demo_user [(''amount'', JNum (Num 800))] [(''userId'', JStr ''forged'')] 5 =
      Ok 200 \<lparr>orderId = ''order_1'', od_amount = Num 80000, od_currency = JStr ''INR'', od_key = JUndef\<rparr>"
    by code_simp
  from create_order_options [OF ok] show ?thesis by (simp add: js_get_def)
qed

text \<open>
  A non-numeric amount string passes the amount check (\<open>"abc" <= 0\<close> is
  false) and Razorpay is asked for an order of \<open>NaN\<close> paise: the check the
  route makes does not ensure a numeric amount.
\<close>

theorem create_order_nan_amount:
  assumes "str_to_number s = NaN"
  shows "create_order rz key u [(''amount'', JStr s)] notes now \<noteq> Err 400 ''Invalid amount'' \<and>
         o_amount (order_options u [(''amount'', JStr s)] notes now) = NaN"
proof -
  have "s \<noteq> []" using assms by (auto simp: str_to_number_def trim_ws_def)
  with assms show ?thesis
    by (auto simp: create_order_def order_options_def js_times100_def js_le_zero_def js_get_def Let_def
        split: option.splits)
qed

theorem create_order_nan_amount_witness:
  "create_order rz_echo JUndef demo_user [(''amount'', JStr ''abc'')] [] 5 \<noteq> Err 400 ''Invalid amount''"
proof -
  have "str_to_number ''abc'' = NaN" by code_simp
  from create_order_nan_amount [OF this] show ?thesis by blast
qed

text \<open>
  C30. \<open>POST /verify\<close> accepts exactly when the three fields are present and
  truthy, the key secret is set, and the signature is the HMAC under it of the
  order id and payment id joined by \<open>|\<close>.
\<close>

theorem verify_payment_iff:
  "is_ok (verify_payment hmac secret body) \<longleftrightarrow>
   truthy (js_get body ''razorpay_order_id'') \<and> truthy (js_get body ''razorpay_payment_id'') \<and>
   truthy (js_get body ''razorpay_signature'') \<and>
   (\<exists>k. secret = Some k \<and>
        js_get body ''razorpay_signature'' =
          JStr (hmac k (js_string (js_get body ''razorpay_order_id'') @ ''|'' @
                        js_string (js_get body ''razorpay_payment_id''))))"
  by (auto simp: verify_payment_def Let_def split: option.splits)

text \<open>
  The signed message does not determine the pair: the pairs
  \<open>(a|b, c)\<close> and \<open>(a, b|c)\<close> join to the same string, so a signature
  verifies for one exactly when it verifies for the other.
\<close>

theorem verify_join_ambiguity:
  assumes "a \<noteq> []" and "c \<noteq> []"
  shows "verify_payment hmac secret (vbody (JStr (a @ ''|'' @ b)) (JStr c) sg) =
           reply_map (\<lambda>_. (JStr (a @ ''|'' @ b), JStr c)) (verify_payment hmac secret (vbody (JStr a) (JStr (b @ ''|'' @ c)) sg))"
  using assms by (auto simp: verify_payment_def js_get_def Let_def split: option.splits)

theorem verify_join_ambiguity_witness:
  "verify_payment (\<lambda>k m. k @ m) (Some ''k'') (vbody (JStr ''a|b'') (JStr ''c'') (JStr ''ka|b|c'')) =
     Ok 200 (JStr ''a|b'', JStr ''c'')"
proof -
  have "verify_payment (\<lambda>k m. k @ m) (Some ''k'') (vbody (JStr ''a'') (JStr ''b|c'') (JStr ''ka|b|c'')) =
      Ok 200 (JStr ''a'', JStr ''b|c'')" by code_simp
  with verify_join_ambiguity [of "''a''" "''c''" "\<lambda>k m. k @ m" "Some ''k''" "''b''" "JStr ''ka|b|c''"]
  show ?thesis by simp
qed

text \<open>
  C32. The webhook answers success only for a body Razorpay never sends:
  \<open>express.json\<close> has already parsed the JSON body, so an object (every
  Razorpay event) is hashed and parsed as the string \<open>[object Object]\<close>,
  which \<open>JSON.parse\<close> rejects; success needs a JSON array whose
  comma-joined elements are themselves JSON text and signed as such (for
  \<open>[1]\<close>, the text \<open>1\<close>).
\<close>

theorem webhook_success_iff:
  assumes "\<not> json_ok ''[object Object]''"
  shows "is_ok (webhook_request parse_obj parse_arr hmac wsecret json_ok sig ctype raw) \<longleftrightarrow>
           ctype = ''application/json'' \<and> parse_obj raw = None \<and>
           (\<exists>xs k. parse_arr raw = Some xs \<and> wsecret = Some k \<and> sig = Some (hmac k (js_join xs)) \<and>
                   json_ok (js_join xs))"
  using assms
  by (auto simp: webhook_request_def webhook_body_def webhook_def split: option.splits if_splits)

theorem webhook_success_iff_witness:
  "is_ok (webhook_request (\<lambda>_. None) (\<lambda>t. if t = ''[1]'' then Some [JNum (Num 1)] else None) (\<lambda>k m. k @ m)
     (Some ''k'') (\<lambda>t. t \<noteq> ''[object Object]'') (Some ''k1'') ''application/json'' ''[1]'') \<and>
   \<not> is_ok (webhook_request (\<lambda>_. Some []) (\<lambda>_. None) (\<lambda>k m. k @ m) (Some ''k'') (\<lambda>t. t \<noteq> ''[object Object]'')
     (Some ''k[object Object]'') ''application/json'' ''{}'')"
proof -
  have j: "js_join [JNum (Num 1)] = ''1''" by code_simp
  show ?thesis
    using webhook_success_iff [of "\<lambda>t. t \<noteq> ''[object Object]''" "\<lambda>_. None"
        "\<lambda>t. if t = ''[1]'' then Some [JNum (Num 1)] else None" "\<lambda>k m. k @ m" "Some ''k''" "Some ''k1''"
        "''application/json''" "''[1]''"]
      webhook_success_iff [of "\<lambda>t. t \<noteq> ''[object Object]''" "\<lambda>_. Some []" "\<lambda>_. None" "\<lambda>k m. k @ m"
        "Some ''k''" "Some ''k[object Object]''" "''application/json''" "''{}''"] j
    by simp
qed

end
