(* ===== verification/Frontend.thy ===== *)
theory Frontend
  imports Users Services Payments
begin

text \<open>
  The state logic of the React pages under \<open>frontend/src\<close> that call the
  backend: the booking form (\<open>pages/ServiceBooking.js\<close>), the payment button
  (\<open>components/RazorpayPayment.js\<close>) and the page that creates the booking
  after payment (\<open>pages/PaymentPage.js\<close>), the maid's dashboard
  (\<open>pages/MaidDashboard.js\<close>) and the customer's (\<open>pages/CustomerDashboard.js\<close>).
  A page is a function from what it holds and what the backend answered to
  what it shows or sends next; a \<open>setState\<close> is a returned value. axios
  throws on a non-2xx answer, and the pages then read the answer's
  \<open>message\<close>; the token is sent by the default header \<open>AuthContext\<close> sets, so
  every call is made as the logged-in user. Rendering is not modelled.
\<close>

subsection \<open>The booking form\<close>

record fe_service =
  fs_id :: string
  fs_name :: string
  price :: int

text \<open>The page's own service list (ServiceBooking.js lines 23-28).\<close>

definition fe_services :: "fe_service list" where
  "fe_services =
     [\<lparr>fs_id = ''1'', fs_name = ''House Cleaning'', price = 800\<rparr>,
      \<lparr>fs_id = ''2'', fs_name = ''Deep Cleaning'', price = 1500\<rparr>,
      \<lparr>fs_id = ''3'', fs_name = ''Office Cleaning'', price = 1200\<rparr>,
      \<lparr>fs_id = ''4'', fs_name = ''Move-in/Move-out'', price = 2000\<rparr>]"

record booking_form =
  f_serviceId :: string
  f_address :: string
  f_date :: string
  f_time :: string
  f_specialInstructions :: string
  f_maidId :: string

definition initial_form :: booking_form where
  "initial_form = \<lparr>f_serviceId = ''1'', f_address = '''', f_date = '''', f_time = '''',
                   f_specialInstructions = '''', f_maidId = ''''\<rparr>"

text \<open>The identifier the page takes for a listed maid (line 39).\<close>

definition maid_id_of :: "jsobj \<Rightarrow> string" where
  "maid_id_of m =
     js_string (js_or (js_get m ''id'') (js_or (js_get m ''_id'') (js_or (js_get m ''email'') (JStr ''''))))"

text \<open>
  \<open>loadMaids\<close> (lines 31-46): the maid list, the form with the first maid
  preselected, and the error shown.
\<close>

definition load_maids :: "jsobj list reply \<Rightarrow> booking_form \<Rightarrow> jsobj list \<times> booking_form \<times> string" where
  "load_maids r f =
     (case r of
        Ok _ ms \<Rightarrow> (ms, if ms = [] then f else f\<lparr>f_maidId := maid_id_of (hd ms)\<rparr>, '''')
      | Err _ m \<Rightarrow> ([], f, if m = [] then ''Failed to load maids'' else m))"

text \<open>
  \<open>onChange\<close> (line 50): the value of the control named \<open>n\<close> replaces the
  form field of that name; the form has a control for each of its fields.
\<close>

definition on_change :: "string \<Rightarrow> string \<Rightarrow> booking_form \<Rightarrow> booking_form" where
  "on_change n v f =
     (if n = ''serviceId'' then f\<lparr>f_serviceId := v\<rparr>
      else if n = ''address'' then f\<lparr>f_address := v\<rparr>
      else if n = ''date'' then f\<lparr>f_date := v\<rparr>
      else if n = ''time'' then f\<lparr>f_time := v\<rparr>
      else if n = ''specialInstructions'' then f\<lparr>f_specialInstructions := v\<rparr>
      else if n = ''maidId'' then f\<lparr>f_maidId := v\<rparr>
      else f)"

text \<open>The service select's options (line 96): value and label.\<close>

definition service_options :: "(string \<times> string) list" where
  "service_options = map (\<lambda>s. (fs_id s, fs_name s)) fe_services"

text \<open>
  One option of the maid select (lines 114-117): its value
  \<open>m.id || m._id || m.email\<close>, the text \<open>`${m.name || m.email} `\<close>, and the
  rating shown after it when \<open>m.profile?.rating?.average\<close> is truthy.
\<close>

definition maid_option :: "jsobj \<Rightarrow> string \<times> string \<times> jsval option" where
  "maid_option m =
     (js_string (js_or (js_get m ''id'') (js_or (js_get m ''_id'') (js_get m ''email''))),
      js_string (js_or (js_get m ''name'') (js_get m ''email'')) @ '' '',
      if truthy (js_get m ''rating'') then Some (js_get m ''rating'') else None)"

datatype maid_select = MsLoading | MsNone | MsOptions "(string \<times> string \<times> jsval option) list"

text \<open>The maid control (lines 102-120): a loading note, a note that no maid is available, or the select.\<close>

definition maid_select :: "bool \<Rightarrow> jsobj list \<Rightarrow> maid_select" where
  "maid_select loading ms =
     (if loading then MsLoading else if ms = [] then MsNone else MsOptions (map maid_option ms))"

record booking_data =
  bd_serviceId :: string
  bd_serviceName :: string
  bd_amount :: int
  bd_date :: string
  bd_time :: string
  bd_address :: string
  bd_specialInstructions :: string
  bd_maidId :: string

text \<open>
  The \<open>required\<close> controls (lines 107-112, 123-134): the browser submits only
  when address, date and time are filled, and the maid select, shown when
  maids were listed, has a value.
\<close>

definition form_submittable :: "bool \<Rightarrow> booking_form \<Rightarrow> bool" where
  "form_submittable has_maids f \<longleftrightarrow>
     f_address f \<noteq> [] \<and> f_date f \<noteq> [] \<and> f_time f \<noteq> [] \<and> (\<not> has_maids \<or> f_maidId f \<noteq> [])"

text \<open>\<open>onSubmit\<close> (lines 52-80): the error shown, or the \<open>bookingData\<close> passed on.\<close>

definition on_submit :: "booking_form \<Rightarrow> string + booking_data" where
  "on_submit f =
     (case find (\<lambda>s. fs_id s = f_serviceId f) fe_services of
        None \<Rightarrow> Inl ''Invalid service''
      | Some svc \<Rightarrow>
          if f_maidId f = [] then Inl ''Please select a maid''
          else Inr \<lparr>bd_serviceId = fs_id svc, bd_serviceName = fs_name svc, bd_amount = price svc,
                    bd_date = f_date f, bd_time = f_time f, bd_address = f_address f,
                    bd_specialInstructions = f_specialInstructions f, bd_maidId = f_maidId f\<rparr>)"

subsection \<open>Payment and booking creation\<close>

text \<open>The body \<open>createBooking\<close> posts (PaymentPage.js lines 22-30).\<close>

definition booking_payload :: "booking_data \<Rightarrow> jsobj" where
  "booking_payload bd =
     [(''service'', JStr (bd_serviceName bd)), (''date'', JStr (bd_date bd)), (''time'', JStr (bd_time bd)),
      (''address'', JStr (bd_address bd)), (''amount'', JNum (Num (bd_amount bd))),
      (''specialInstructions'', js_or (JStr (bd_specialInstructions bd)) (JStr '''')),
      (''maidId'', JStr (bd_maidId bd))]"

text \<open>
  The create-order request of RazorpayPayment.js (lines 24-28): the body and
  its \<open>notes\<close> object.
\<close>

definition order_request :: "booking_data \<Rightarrow> jsobj \<times> jsobj" where
  "order_request bd =
     ([(''amount'', JNum (Num (bd_amount bd))), (''currency'', JStr ''INR'')],
      [(''service'', js_or (JStr (bd_serviceName bd)) (JStr ''''))])"

text \<open>The amount handed to the Razorpay checkout (line 36).\<close>

definition checkout_amount :: "booking_data \<Rightarrow> int" where
  "checkout_amount bd = bd_amount bd * 100"

record rzp_response =
  razorpay_order_id :: string
  razorpay_payment_id :: string
  razorpay_signature :: string

definition response_body :: "rzp_response \<Rightarrow> jsobj" where
  "response_body r =
     [(''razorpay_order_id'', JStr (razorpay_order_id r)), (''razorpay_payment_id'', JStr (razorpay_payment_id r)),
      (''razorpay_signature'', JStr (razorpay_signature r))]"

datatype pay_outcome = PayFailed string | CheckoutOpen | Paid "booking reply"

text \<open>
  The \<open>bookingData\<close> object of the navigation state (ServiceBooking.js lines
  68-77), as the payment page and the payment button read it.
\<close>

definition booking_data_obj :: "booking_data \<Rightarrow> jsobj" where
  "booking_data_obj bd =
     [(''serviceId'', JStr (bd_serviceId bd)), (''serviceName'', JStr (bd_serviceName bd)),
      (''amount'', JNum (Num (bd_amount bd))), (''date'', JStr (bd_date bd)), (''time'', JStr (bd_time bd)),
      (''address'', JStr (bd_address bd)), (''specialInstructions'', JStr (bd_specialInstructions bd)),
      (''maidId'', JStr (bd_maidId bd))]"

text \<open>The checkout's \<open>prefill\<close> (RazorpayPayment.js lines 50-54): name, email and contact.\<close>

definition checkout_prefill :: "jsobj \<Rightarrow> string \<times> string \<times> string" where
  "checkout_prefill o' =
     (js_string (js_or (js_get o' ''customerName'') (JStr '''')),
      js_string (js_or (js_get o' ''customerEmail'') (JStr '''')),
      js_string (js_or (js_get o' ''customerPhone'') (JStr '''')))"

text \<open>
  \<open>pay\<close> (RazorpayPayment.js lines 16-65) with the callbacks of
  PaymentPage.js (lines 13-46): load the SDK, create the order, open the
  checkout; the checkout's handler (the parameter \<open>checkout\<close>, \<open>None\<close> while
  the customer has not paid) posts the response to \<open>/verify\<close>, and on success
  \<open>handlePaymentSuccess\<close> creates the booking.
\<close>

definition pay ::
  "bool \<Rightarrow> (order_opts \<Rightarrow> order option) \<Rightarrow> jsval \<Rightarrow> (string \<Rightarrow> string \<Rightarrow> string) \<Rightarrow> string option \<Rightarrow>
     user \<Rightarrow> booking_data \<Rightarrow> (order_data \<Rightarrow> rzp_response option) \<Rightarrow> nat \<Rightarrow> store \<Rightarrow> pay_outcome \<times> store" where
  "pay sdk_ok rz key hmac secret customer bd checkout now s =
     (if \<not> sdk_ok then (PayFailed ''Razorpay SDK failed to load'', s)
      else
        (case create_order rz key customer (fst (order_request bd)) (snd (order_request bd)) now of
           Err c m \<Rightarrow> (PayFailed (''Request failed with status code '' @ dec_str c), s)
         | Ok _ od \<Rightarrow>
             (case checkout od of
                None \<Rightarrow> (CheckoutOpen, s)
              | Some rsp \<Rightarrow>
                  (case verify_payment hmac secret (response_body rsp) of
                     Err _ _ \<Rightarrow> (PayFailed ''Verification error'', s)
                   | Ok _ _ \<Rightarrow>
                       (let (r, s') = create_booking (identity_of customer) (booking_payload bd) now s
                        in (Paid r, s'))))))"

subsection \<open>The maid's dashboard\<close>

text \<open>The three lists of \<open>loadBookings\<close> (MaidDashboard.js lines 37-39).\<close>

definition maid_lists :: "booking list \<Rightarrow> booking list \<times> booking list \<times> booking list" where
  "maid_lists bl =
     (filter (\<lambda>b. status b = Pending) bl,
      filter (\<lambda>b. status b = Confirmed \<or> status b = In_progress) bl,
      filter (\<lambda>b. status b = Completed) bl)"

datatype maid_action = Accept | Decline | StartJob | CompleteJob

text \<open>Lines 76-79.\<close>

fun action_status :: "maid_action \<Rightarrow> status" where
  "action_status Accept = Confirmed"
| "action_status Decline = Declined"
| "action_status StartJob = In_progress"
| "action_status CompleteJob = Completed"

text \<open>The buttons of an active card (lines 191-196).\<close>

definition active_actions :: "booking \<Rightarrow> maid_action list" where
  "active_actions b =
     (if status b = Confirmed then [StartJob] else []) @ (if status b \<noteq> Completed then [CompleteJob] else [])"

text \<open>Every card the dashboard shows with its buttons (lines 153-167, 185-199, 216-218).\<close>

definition dashboard_cards :: "booking list \<Rightarrow> (booking \<times> maid_action list) list" where
  "dashboard_cards bl =
     (let (p, a, c) = maid_lists bl
      in map (\<lambda>b. (b, [Accept, Decline])) p @ map (\<lambda>b. (b, active_actions b)) a @ map (\<lambda>b. (b, [])) c)"

text \<open>\<open>updateStatus(id, status)\<close> (lines 64-69): the request a button sends.\<close>

definition action_request :: "booking \<Rightarrow> maid_action \<Rightarrow> http_method \<times> string list \<times> jsobj" where
  "action_request b a =
     (PUT, [dec_str (booking_id b), ''status''], [(''status'', JStr (status_str (action_status a)))])"

record summary =
  s_total :: nat
  s_completed :: nat
  s_pending :: nat

definition zero_summary :: summary where
  "zero_summary = \<lparr>s_total = 0, s_completed = 0, s_pending = 0\<rparr>"

text \<open>\<open>loadStats\<close> (lines 20-27): a failure is swallowed and the summary kept.\<close>

definition maid_summary_after :: "payload reply \<Rightarrow> summary \<Rightarrow> summary" where
  "maid_summary_after r sm =
     (case r of
        Ok _ (PStats st) \<Rightarrow> \<lparr>s_total = total st, s_completed = completed st, s_pending = pending st\<rparr>
      | _ \<Rightarrow> sm)"

text \<open>The \<open>Pending Requests\<close> card (line 82).\<close>

definition pending_card :: "summary \<Rightarrow> string" where
  "pending_card sm = dec_str (s_pending sm)"

subsection \<open>The customer's dashboard\<close>

text \<open>\<open>loadStats\<close> (CustomerDashboard.js lines 12-25): the stats shown and the error.\<close>

definition customer_stats_after :: "payload reply \<Rightarrow> stats \<Rightarrow> stats \<times> string" where
  "customer_stats_after r st =
     (case r of
        Ok _ (PStats st') \<Rightarrow> (st', '''')
      | Ok _ _ \<Rightarrow> (st, '''')
      | Err _ m \<Rightarrow> (st, if m = [] then ''Failed to load stats'' else m))"

definition zero_stats :: stats where
  "zero_stats = \<lparr>total = 0, completed = 0, pending = 0, totalSpent = 0\<rparr>"

subsection \<open>Example data\<close>

abbreviation confirmed_store :: store where
  "confirmed_store \<equiv> snd (update_status demo_maid (dec_str 1) (status_body Confirmed) 5 demo_store)"

abbreviation confirmed_booking :: booking where
  "confirmed_booking \<equiv> (bookings demo_store ! 0)\<lparr>status := Confirmed, updatedAt := 5\<rparr>"

subsection \<open>Lemmas\<close>

lemma store_inv_member:
  assumes "store_inv s" and "b \<in> set (bookings s)"
  shows "0 < booking_id b \<and> booking_id b < nextBookingId s \<and> bookings s ! (booking_id b - 1) = b"
proof -
  obtain i where i: "i < length (bookings s)" and b: "b = bookings s ! i"
    using assms(2) by (auto simp: in_set_conv_nth)
  have "booking_id b = Suc i" using store_inv_ids [OF assms(1) i] b by simp
  with i b store_inv_length [OF assms(1)] show ?thesis by simp
qed

lemma handle_update_member_step:
  assumes "store_inv s" and "b \<in> set (bookings s)"
  shows "handle_bookings u PUT [dec_str (booking_id b), ''status''] [(''status'', JStr (status_str new))] now s =
           (case decide (urole u) (customerId b = uid u) (maidId b = JStr (uid u)) (status b) new of
              Some (c, m) \<Rightarrow> (Err c m, s)
            | None \<Rightarrow> (Ok 200 (PBooking (b\<lparr>status := new, updatedAt := now\<rparr>)),
                       s\<lparr>bookings := (bookings s)[booking_id b - 1 := b\<lparr>status := new, updatedAt := now\<rparr>]\<rparr>))"
proof -
  from store_inv_member [OF assms] have n: "0 < booking_id b" "booking_id b < nextBookingId s"
    and b: "b = bookings s ! (booking_id b - 1)" by simp_all
  have d: "dispatch bookings_routes PUT [dec_str (booking_id b), ''status''] =
      Some (HUpdate, [(''id'', dec_str (booking_id b))])"
    by (simp add: bookings_routes_def dec_str_ne)
  show ?thesis
    using update_status_at [OF assms(1) n b, of u new now]
    by (simp add: handle_bookings_def d param_def split: option.splits prod.splits)
qed

lemma handle_update_member:
  assumes "store_inv s" and "b \<in> set (bookings s)"
  shows "fst (handle_bookings u PUT [dec_str (booking_id b), ''status''] [(''status'', JStr (status_str new))] now s) =
           (case decide (urole u) (customerId b = uid u) (maidId b = JStr (uid u)) (status b) new of
              Some (c, m) \<Rightarrow> Err c m
            | None \<Rightarrow> Ok 200 (PBooking (b\<lparr>status := new, updatedAt := now\<rparr>)))"
  using handle_update_member_step [OF assms, of u new now] by (simp split: option.splits)

lemma dashboard_cards_cases:
  assumes "(b, acts) \<in> set (dashboard_cards bl)" and "a \<in> set acts"
  shows "b \<in> set bl \<and>
         (status b = Pending \<and> (a = Accept \<or> a = Decline) \<or>
          status b = Confirmed \<and> (a = StartJob \<or> a = CompleteJob) \<or>
          status b = In_progress \<and> a = CompleteJob)"
  using assms by (auto simp: dashboard_cards_def maid_lists_def active_actions_def split: if_splits)

lemma find_index_update_same:
  "find_index P xs = Some i \<Longrightarrow> P y \<Longrightarrow> find_index P (xs[i := y]) = Some i"
proof (induction xs arbitrary: i)
  case Nil then show ?case by simp
next
  case (Cons x xs) then show ?case by (cases i) (auto split: if_splits)
qed

lemma update_status_ok_rank:
  assumes "update_status u (dec_str n) body now s = (Ok c b', s')"
    and "find (\<lambda>b. booking_id b = n) (bookings s) = Some b"
  shows "find (\<lambda>b. booking_id b = n) (bookings s') = Some b' \<and> rank (status b) < rank (status b')"
proof -
  have P: "(\<lambda>b. parse_int10 (dec_str n) = Some (int (booking_id b))) = (\<lambda>b. booking_id b = n)"
    by (auto simp: fun_eq_iff)
  obtain new idx where
      ps: "parse_status (js_get body ''status'') = Some new"
    and fi: "find_index (\<lambda>b. booking_id b = n) (bookings s) = Some idx"
    and d: "decide (urole u) (customerId (bookings s ! idx) = uid u)
              (maidId (bookings s ! idx) = JStr (uid u)) (status (bookings s ! idx)) new = None"
    and b': "b' = (bookings s ! idx)\<lparr>status := new, updatedAt := now\<rparr>"
    and s': "s' = s\<lparr>bookings := (bookings s)[idx := b']\<rparr>"
    using assms(1) unfolding update_status_def P by (auto simp: Let_def split: option.splits)
  have b: "b = bookings s ! idx" using assms(2) fi by (simp add: find_eq_find_index)
  have "booking_id b' = n" using find_index_SomeD [OF fi] b' by simp
  then have "find_index (\<lambda>b. booking_id b = n) (bookings s') = Some idx"
    using find_index_update_same [OF fi] s' by simp
  then have "find (\<lambda>b. booking_id b = n) (bookings s') = Some b'"
    using find_index_SomeD [OF fi] s' by (simp add: find_eq_find_index)
  moreover have "rank (status b) < rank (status b')"
    using transition_rank [OF decide_None_transition [OF d]] b b' by simp
  ultimately show ?thesis by simp
qed

lemma handle_put_ok_rank:
  assumes "handle_bookings u PUT [dec_str n, ''status''] body now s = (Ok c p, s')"
    and "find (\<lambda>b. booking_id b = n) (bookings s) = Some b"
  shows "\<exists>b'. find (\<lambda>b. booking_id b = n) (bookings s') = Some b' \<and> rank (status b) < rank (status b')"
proof -
  have d: "dispatch bookings_routes PUT [dec_str n, ''status''] = Some (HUpdate, [(''id'', dec_str n)])"
    by (simp add: bookings_routes_def dec_str_ne)
  obtain r where u: "update_status u (dec_str n) body now s = (r, s')" and r: "reply_map PBooking r = Ok c p"
    using assms(1) by (auto simp: handle_bookings_def d param_def split: prod.splits)
  then obtain b' where "r = Ok c b'" by (cases r) auto
  with u update_status_ok_rank [OF _ assms(2)] show ?thesis by blast
qed

lemma handle_put_ok_measure:
  assumes "handle_bookings u PUT [dec_str n, ''status''] body now s = (Ok c p, s')"
    and "find (\<lambda>b. booking_id b = n) (bookings s) = Some b"
  shows "(case find (\<lambda>b. booking_id b = n) (bookings s') of None \<Rightarrow> 0 | Some b' \<Rightarrow> 3 - rank (status b'))
           < 3 - rank (status b)"
proof -
  obtain b' where f: "find (\<lambda>b. booking_id b = n) (bookings s') = Some b'"
    and r: "rank (status b) < rank (status b')"
    using handle_put_ok_rank [OF assms] by blast
  have "rank (status b') \<le> 3" by (rule rank_le_3)
  with f r show ?thesis by simp
qed

lemma store_inv_find:
  assumes "store_inv s" and "b \<in> set (bookings s)"
  shows "find (\<lambda>x. booking_id x = booking_id b) (bookings s) = Some b"
proof -
  have "distinct (map booking_id (bookings s))" using assms(1) by (simp add: store_inv_def)
  from find_distinct_key [OF this assms(2)] show ?thesis .
qed

lemma handle_update_member_inv:
  fixes u :: identity
  assumes "store_inv s" and "b \<in> set (bookings s)"
    and "decide (urole u) (customerId b = uid u) (maidId b = JStr (uid u)) (status b) new = None"
  shows "store_inv (s\<lparr>bookings := (bookings s)[booking_id b - 1 := b\<lparr>status := new, updatedAt := now\<rparr>]\<rparr>)"
proof -
  from store_inv_member [OF assms(1,2)] have n: "0 < booking_id b" "booking_id b < nextBookingId s"
    and b: "b = bookings s ! (booking_id b - 1)" by simp_all
  have "update_status u (dec_str (booking_id b)) [(''status'', JStr (status_str new))] now s =
      (Ok 200 (b\<lparr>status := new, updatedAt := now\<rparr>),
       s\<lparr>bookings := (bookings s)[booking_id b - 1 := b\<lparr>status := new, updatedAt := now\<rparr>]\<rparr>)"
    using update_status_at [OF assms(1) n b, of u new now] assms(3) by simp
  from update_status_inv [OF this assms(1)] show ?thesis .
qed

lemma confirmed_store_inv: "store_inv confirmed_store"
  using update_status_inv [OF prod.collapse [symmetric] demo_store_inv] .

lemma confirmed_store_list: "list_bookings demo_maid confirmed_store = Ok 200 [confirmed_booking]"
  by code_simp

lemma on_submit_Inr:
  assumes "on_submit f = Inr bd"
  shows "bd_maidId bd = f_maidId f \<and> f_maidId f \<noteq> [] \<and> bd_date bd = f_date f \<and> bd_time bd = f_time f \<and>
         bd_address bd = f_address f \<and> 0 < bd_amount bd \<and> bd_serviceName bd \<noteq> [] \<and>
         (\<exists>svc\<in>set fe_services. fs_id svc = f_serviceId f \<and> bd_amount bd = price svc)"
  using assms
  by (auto simp: on_submit_def fe_services_def split: option.splits if_splits)

lemma create_booking_payload:
  assumes "urole u = Customer" and "bd_maidId bd \<noteq> []" and "bd_serviceName bd \<noteq> []"
    and "bd_date bd \<noteq> []" and "bd_time bd \<noteq> []" and "bd_address bd \<noteq> []"
  shows "create_booking u (booking_payload bd) now s =
           (Ok 201 \<lparr>booking_id = nextBookingId s, customerId = uid u, maidId = JStr (bd_maidId bd),
                    service = JStr (bd_serviceName bd), date = JStr (bd_date bd), time = JStr (bd_time bd),
                    address = JStr (bd_address bd), amount = bd_amount bd,
                    specialInstructions = js_or (js_or (JStr (bd_specialInstructions bd)) (JStr '''')) (JStr ''''),
                    status = Pending, createdAt = now, updatedAt = now\<rparr>,
            s\<lparr>bookings := bookings s @ [\<lparr>booking_id = nextBookingId s, customerId = uid u,
                    maidId = JStr (bd_maidId bd), service = JStr (bd_serviceName bd), date = JStr (bd_date bd),
                    time = JStr (bd_time bd), address = JStr (bd_address bd), amount = bd_amount bd,
                    specialInstructions = js_or (js_or (JStr (bd_specialInstructions bd)) (JStr '''')) (JStr ''''),
                    status = Pending, createdAt = now, updatedAt = now\<rparr>],
              nextBookingId := Suc (nextBookingId s)\<rparr>)"
  using assms by (simp add: create_booking_def booking_payload_def js_get_def Let_def)

lemma create_order_request:
  assumes "0 < bd_amount bd"
    and "rz (order_options u (fst (order_request bd)) (snd (order_request bd)) now) = Some ord"
  shows "create_order rz key u (fst (order_request bd)) (snd (order_request bd)) now =
           Ok 200 \<lparr>orderId = order_id ord, od_amount = ord_amount ord, od_currency = ord_currency ord, od_key = key\<rparr> \<and>
         o_amount (order_options u (fst (order_request bd)) (snd (order_request bd)) now) = Num (100 * bd_amount bd)"
  using assms
  by (simp add: create_order_def order_request_def js_le_zero_def js_get_def o_amount_order_options
      js_times100_def)

lemma verify_genuine:
  assumes "razorpay_order_id rsp \<noteq> []" and "razorpay_payment_id rsp \<noteq> []" and "razorpay_signature rsp \<noteq> []"
    and "razorpay_signature rsp = hmac k (razorpay_order_id rsp @ ''|'' @ razorpay_payment_id rsp)"
  shows "verify_payment hmac (Some k) (response_body rsp) =
           Ok 200 (JStr (razorpay_order_id rsp), JStr (razorpay_payment_id rsp))"
  using assms by (simp add: verify_payment_def response_body_def js_get_def Let_def)

lemma dec_str_0: "dec_str 0 = ''0''"
  by code_simp

lemma maid_id_of_user_json: "user_oid u \<noteq> [] \<Longrightarrow> maid_id_of (user_json u) = user_oid u"
  by (simp add: maid_id_of_def user_json_def js_get_def js_or_def)

lemma maid_option_user_json: "user_oid u \<noteq> [] \<Longrightarrow> fst (maid_option (user_json u)) = user_oid u"
  by (simp add: maid_option_def user_json_def js_get_def js_or_def)

text \<open>
  Every option the maid select offers after \<open>GET /api/users/maids\<close> names an
  active maid of the collection, and choosing it puts that maid's id in the
  form, the identifier the bookings routes compare with the maid's.
\<close>

lemma maid_select_active:
  assumes "udb_reach db" and "get_maids db = Ok c ms" and "maid_select False ms = MsOptions opts"
    and "(v, l, r) \<in> set opts"
  shows "\<exists>m\<in>set (users db). role m = Maid \<and> isActive m \<and> v = user_oid m \<and>
           f_maidId (on_change ''maidId'' v f) = user_oid m"
proof -
  have ms: "ms = map user_json (sort_key (\<lambda>u. - rating u) (active_maids db))"
    using assms(2) by (simp add: get_maids_def)
  from assms(3,4) obtain j where j: "j \<in> set ms" and v: "v = fst (maid_option j)"
    by (auto simp: maid_select_def split: if_splits) (metis fst_conv)
  from j ms obtain m where m: "m \<in> set (active_maids db)" and jm: "j = user_json m" by auto
  have mu: "m \<in> set (users db)" "role m = Maid" "isActive m" using m by (auto simp: active_maids_def)
  have "user_oid m \<noteq> []" using udb_reach_oids [OF assms(1)] mu(1) by blast
  then have "v = user_oid m" using v jm maid_option_user_json by simp
  with mu show ?thesis by (auto simp: on_change_def)
qed

text \<open>
  The checkout form is never prefilled: the booking data the booking page
  passes on carries no customer name, email or phone.
\<close>

lemma checkout_prefill_empty: "checkout_prefill (booking_data_obj bd) = ([], [], [])"
  by (simp add: checkout_prefill_def booking_data_obj_def js_get_def js_or_def)

subsection \<open>Properties\<close>

text \<open>
  C36. Every button the maid's dashboard offers on a booking of the maid's list sends
  a status request that the backend accepts, writing the button's status,
  except \<open>Complete\<close> on a confirmed booking: the dashboard shows it on every
  active card, and the backend refuses it with 400
  \<open>Invalid transition from confirmed to completed\<close> (a job must be started
  first).
\<close>

theorem maid_dashboard_actions:
  assumes "store_inv s" and "urole u = Maid" and "list_bookings u s = Ok c bl"
    and "(b, acts) \<in> set (dashboard_cards bl)" and "a \<in> set acts"
  shows "(case action_request b a of (m, path, body) \<Rightarrow> fst (handle_bookings u m path body now s)) =
           (if status b = Confirmed \<and> a = CompleteJob
            then Err 400 ''Invalid transition from confirmed to completed''
            else Ok 200 (PBooking (b\<lparr>status := action_status a, updatedAt := now\<rparr>)))"
proof -
  from dashboard_cards_cases [OF assms(4,5)] have bl: "b \<in> set bl"
    and st: "status b = Pending \<and> (a = Accept \<or> a = Decline) \<or>
             status b = Confirmed \<and> (a = StartJob \<or> a = CompleteJob) \<or>
             status b = In_progress \<and> a = CompleteJob" by simp_all
  from assms(2,3) bl have mem: "b \<in> set (bookings s)" and mid: "maidId b = JStr (uid u)"
    by (auto simp: list_bookings_def)
  show ?thesis
    using handle_update_member [OF assms(1) mem, of u "action_status a" now] st assms(2) mid
    by (auto simp: action_request_def decide_def)
qed

theorem maid_dashboard_actions_witness:
  "(case action_request confirmed_booking CompleteJob of
      (m, path, body) \<Rightarrow> fst (handle_bookings demo_maid m path body 6 confirmed_store)) =
     Err 400 ''Invalid transition from confirmed to completed''"
proof -
  have card: "(confirmed_booking, [StartJob, CompleteJob]) \<in> set (dashboard_cards [confirmed_booking])"
    by code_simp
  from maid_dashboard_actions [OF confirmed_store_inv _ confirmed_store_list card, of CompleteJob 6]
  show ?thesis by simp
qed

end
