(* ===== verification/Maid_Run.thy ===== *)
theory Maid_Run
  imports Frontend
begin

text \<open>
  A maid working through one booking on the dashboard of
  \<open>frontend/src/pages/MaidDashboard.js\<close>: on the booking's card the maid
  presses the first button, the page sends \<open>PUT /bookings/:id/status\<close>
  through the router, and the maid continues on the refreshed card until the
  card has no button or a request is refused. \<open>maid_run\<close> is this user
  behaviour over the code's handlers; its recursion is on the store, and it
  terminates because every accepted request moves the booking one step up the
  lifecycle (\<open>rank\<close>), whose length is at most three.
\<close>

text \<open>
  The buttons of the card a booking gets (lines 153-167, 185-199, 216-218):
  declined and cancelled bookings get no card, completed ones a card without
  buttons.
\<close>

definition card_actions :: "booking \<Rightarrow> maid_action list" where
  "card_actions b =
     (if status b = Pending then [Accept, Decline]
      else if status b = Confirmed \<or> status b = In_progress then active_actions b else [])"

function maid_run :: "identity \<Rightarrow> nat \<Rightarrow> nat \<Rightarrow> store \<Rightarrow> payload reply list \<times> store" where
  "maid_run u n now s =
     (case find (\<lambda>b. booking_id b = n) (bookings s) of
        None \<Rightarrow> ([], s)
      | Some b \<Rightarrow>
          (case card_actions b of
             [] \<Rightarrow> ([], s)
           | a # _ \<Rightarrow>
               (case action_request b a of
                  (m, path, body) \<Rightarrow>
                    (case handle_bookings u m path body now s of
                       (Ok c p, s') \<Rightarrow> (let (rs, s'') = maid_run u n (Suc now) s' in (Ok c p # rs, s''))
                     | (Err c e, s') \<Rightarrow> ([Err c e], s')))))"
  by pat_completeness auto
termination
  by (relation "measure (\<lambda>(u, n, now, s). case find (\<lambda>b. booking_id b = n) (bookings s) of
                              None \<Rightarrow> 0 | Some b \<Rightarrow> 3 - rank (status b))")
     (auto simp: action_request_def dest: find_SomeD intro!: handle_put_ok_measure [OF sym])

declare maid_run.simps [simp del]

subsection \<open>Lemmas\<close>

lemma card_actions_first:
  "card_actions b = a # as \<Longrightarrow>
     (status b = Pending \<and> a = Accept) \<or> (status b = Confirmed \<and> a = StartJob) \<or>
     (status b = In_progress \<and> a = CompleteJob)"
  by (auto simp: card_actions_def active_actions_def split: if_splits)

lemma card_actions_Nil: "card_actions b = [] \<longleftrightarrow> is_terminal (status b)"
  by (cases "status b") (simp_all add: card_actions_def active_actions_def)

lemma maid_run_completes_at:
  assumes "store_inv s" and "b \<in> set (bookings s)" and "booking_id b = n" and "urole u = Maid"
    and "maidId b = JStr (uid u)" and "status b \<noteq> Declined" and "status b \<noteq> Cancelled"
  shows "list_all is_ok (fst (maid_run u n now s)) \<and>
         (\<exists>b'. find (\<lambda>x. booking_id x = n) (bookings (snd (maid_run u n now s))) = Some b' \<and>
               status b' = Completed \<and> maidId b' = maidId b)"
  using assms
proof (induction u n now s arbitrary: b rule: maid_run.induct)
  case (1 u n now s b)
  have f: "find (\<lambda>x. booking_id x = n) (bookings s) = Some b"
    using store_inv_find [OF "1.prems"(1,2)] "1.prems"(3) by simp
  show ?case
  proof (cases "card_actions b")
    case Nil
    then have "status b = Completed" using "1.prems"(6,7) card_actions_Nil [of b] by (cases "status b") auto
    with Nil f show ?thesis by (simp add: maid_run.simps)
  next
    case (Cons a as)
    let ?b' = "b\<lparr>status := action_status a, updatedAt := now\<rparr>"
    let ?s' = "s\<lparr>bookings := (bookings s)[booking_id b - 1 := ?b']\<rparr>"
    have d: "decide (urole u) (customerId b = uid u) (maidId b = JStr (uid u)) (status b) (action_status a) = None"
      using card_actions_first [OF Cons] "1.prems"(4,5) by (auto simp: decide_def)
    have h: "handle_bookings u PUT [dec_str (booking_id b), ''status'']
        [(''status'', JStr (status_str (action_status a)))] now s = (Ok 200 (PBooking ?b'), ?s')"
      using handle_update_member_step [OF "1.prems"(1,2), of u "action_status a" now] d by simp
    have inv': "store_inv ?s'" by (rule handle_update_member_inv [OF "1.prems"(1,2) d])
    have mem: "?b' \<in> set (bookings ?s')"
      using store_inv_member [OF "1.prems"(1,2)] store_inv_length [OF "1.prems"(1)]
      by (auto intro: set_update_memI)
    have st: "status ?b' \<noteq> Declined \<and> status ?b' \<noteq> Cancelled"
      using card_actions_first [OF Cons] by auto
    have ar: "(PUT, [dec_str n, ''status''], [(''status'', JStr (status_str (action_status a)))]) =
        action_request b a" by (simp add: action_request_def "1.prems"(3))
    have IH: "list_all is_ok (fst (maid_run u n (Suc now) ?s')) \<and>
        (\<exists>b''. find (\<lambda>x. booking_id x = n) (bookings (snd (maid_run u n (Suc now) ?s'))) =
               Some b'' \<and> status b'' = Completed \<and> maidId b'' = maidId ?b')"
      using "1.IH" [OF f Cons ar refl h [unfolded "1.prems"(3), symmetric] refl, of ?b'] inv' mem
        "1.prems"(3,4,5) st by simp
    show ?thesis
      using IH f Cons h "1.prems"(3) by (auto simp: maid_run.simps action_request_def split: prod.splits)
  qed
qed

subsection \<open>Properties\<close>

text \<open>
  C31. The maid's run through a booking stops: whatever the store, it sends at
  most \<open>3 - rank\<close> of the booking's status requests (so at most three), each
  accepted request moving the booking up the lifecycle.
\<close>

theorem maid_run_bound:
  "length (fst (maid_run u n now s)) \<le>
     (case find (\<lambda>b. booking_id b = n) (bookings s) of None \<Rightarrow> 0 | Some b \<Rightarrow> 3 - rank (status b))"
proof (induction u n now s rule: maid_run.induct)
  case (1 u n now s)
  show ?case
  proof (cases "find (\<lambda>b. booking_id b = n) (bookings s)")
    case None then show ?thesis by (simp add: maid_run.simps)
  next
    case (Some b)
    have bn: "booking_id b = n" using find_SomeD [OF Some] by simp
    show ?thesis
    proof (cases "card_actions b")
      case Nil then show ?thesis using Some by (simp add: maid_run.simps)
    next
      case (Cons a as)
      have r: "rank (status b) \<le> 2" using card_actions_first [OF Cons] by auto
      obtain r s' where h: "handle_bookings u PUT [dec_str n, ''status'']
          [(''status'', JStr (status_str (action_status a)))] now s = (r, s')" by fastforce
      show ?thesis
      proof (cases r)
        case (Err c e) then show ?thesis using Some Cons h r bn
          by (simp add: maid_run.simps action_request_def)
      next
        case (Ok c p)
        have ar: "(PUT, [dec_str n, ''status''], [(''status'', JStr (status_str (action_status a)))]) =
            action_request b a" by (simp add: action_request_def bn)
        have "length (fst (maid_run u n (Suc now) s')) \<le>
            (case find (\<lambda>b. booking_id b = n) (bookings s') of None \<Rightarrow> 0 | Some b \<Rightarrow> 3 - rank (status b))"
          using "1.IH" [OF Some Cons ar refl h [unfolded Ok, symmetric] refl] .
        moreover have "(case find (\<lambda>b. booking_id b = n) (bookings s') of None \<Rightarrow> 0 | Some b \<Rightarrow> 3 - rank (status b))
            < 3 - rank (status b)"
          using handle_put_ok_measure [OF h [unfolded Ok] Some] .
        ultimately show ?thesis using Some Cons h Ok bn
          by (auto simp: maid_run.simps action_request_def split: prod.splits)
      qed
    qed
  qed
qed

text \<open>
  C12. Every booking assigned to a maid that is neither declined nor cancelled
  can be completed from the dashboard: in any store the handlers can produce,
  pressing the first button of the booking's card until none is left gets every
  request accepted and leaves the booking completed (pending, confirmed, in
  progress, completed).
\<close>

theorem maid_run_completes:
  assumes "store_inv s" and "b \<in> set (bookings s)" and "urole u = Maid" and "maidId b = JStr (uid u)"
    and "status b \<noteq> Declined" and "status b \<noteq> Cancelled"
  shows "list_all is_ok (fst (maid_run u (booking_id b) now s)) \<and>
         (\<exists>b'. find (\<lambda>x. booking_id x = booking_id b) (bookings (snd (maid_run u (booking_id b) now s))) = Some b' \<and>
               status b' = Completed \<and> maidId b' = maidId b)"
  using maid_run_completes_at [OF assms(1,2) refl assms(3-6)] .

theorem maid_run_completes_witness:
  "list_all is_ok (fst (maid_run demo_maid 1 7 demo_store)) \<and>
   (\<exists>b'. find (\<lambda>x. booking_id x = 1) (bookings (snd (maid_run demo_maid 1 7 demo_store))) = Some b' \<and>
         status b' = Completed)"
proof -
  have m: "bookings demo_store ! 0 \<in> set (bookings demo_store)" by (simp add: demo_store_eq)
  have i: "booking_id (bookings demo_store ! 0) = 1" "maidId (bookings demo_store ! 0) = JStr (uid demo_maid)"
    "status (bookings demo_store ! 0) = Pending" by (simp_all add: demo_store_eq)
  from maid_run_completes [OF demo_store_inv m, of demo_maid 7] i show ?thesis by auto
qed

end
