(* ===== verification/Booking_Json.thy ===== *)
theory Booking_Json
  imports Store
begin

text \<open>
  The value types of a stored booking. The comment of
  \<open>backend/routes/bookings.js\<close> (lines 10-26) documents \<open>maidId\<close>,
  \<open>service\<close>, \<open>date\<close>, \<open>time\<close>, \<open>address\<close> and \<open>specialInstructions\<close> as
  strings; \<open>POST /\<close> (lines 29-76) checks only that the required ones are
  truthy and stores the request's values as they are. \<open>json_typeof\<close> is
  JavaScript's \<open>typeof\<close> on a JSON value.
\<close>

fun json_typeof :: "jsval \<Rightarrow> string" where
  "json_typeof JUndef = ''undefined''"
| "json_typeof JNull = ''object''"
| "json_typeof (JBool _) = ''boolean''"
| "json_typeof (JNum _) = ''number''"
| "json_typeof (JStr _) = ''string''"

text \<open>What the handler guarantees of a stored booking's request-supplied fields.\<close>

definition booking_typed :: "booking \<Rightarrow> bool" where
  "booking_typed b \<longleftrightarrow>
     truthy (maidId b) \<and> truthy (service b) \<and> truthy (date b) \<and> truthy (time b) \<and> truthy (address b) \<and>
     (truthy (specialInstructions b) \<or> specialInstructions b = JStr '''')"

text \<open>The types the comment documents.\<close>

definition documented_types :: "booking \<Rightarrow> bool" where
  "documented_types b \<longleftrightarrow>
     list_all (\<lambda>v. json_typeof v = ''string'')
       [maidId b, service b, date b, time b, address b, specialInstructions b]"

abbreviation numeric_maid_body :: jsobj where
  "numeric_maid_body \<equiv> [(''maidId'', JNum (Num 5)), (''service'', JBool True), (''date'', JStr ''2025-01-01''),
     (''time'', JStr ''10:00''), (''address'', JNum (Num 42))]"

subsection \<open>Lemmas\<close>

lemma update_status_typed:
  assumes "update_status u p body now s = (r, s')" and "\<forall>b\<in>set (bookings s). booking_typed b"
  shows "\<forall>b\<in>set (bookings s'). booking_typed b"
  using update_status_cases [OF assms(1)]
proof
  assume "s' = s \<and> \<not> is_ok r"
  with assms(2) show ?thesis by simp
next
  assume "\<exists>idx new. idx < length (bookings s) \<and>
            parse_status (js_get body ''status'') = Some new \<and>
            decide (urole u) (customerId (bookings s ! idx) = uid u)
              (maidId (bookings s ! idx) = JStr (uid u)) (status (bookings s ! idx)) new = None \<and>
            r = Ok 200 ((bookings s ! idx)\<lparr>status := new, updatedAt := now\<rparr>) \<and>
            s' = s\<lparr>bookings := (bookings s)[idx := (bookings s ! idx)\<lparr>status := new, updatedAt := now\<rparr>]\<rparr>"
  then obtain idx new where i: "idx < length (bookings s)"
    and s': "s' = s\<lparr>bookings := (bookings s)[idx := (bookings s ! idx)\<lparr>status := new, updatedAt := now\<rparr>]\<rparr>"
    by blast
  have "booking_typed (bookings s ! idx)" using assms(2) i by simp
  then have "booking_typed ((bookings s ! idx)\<lparr>status := new, updatedAt := now\<rparr>)"
    by (simp add: booking_typed_def)
  with assms(2) s' show ?thesis by (auto dest!: set_update_memD)
qed

subsection \<open>Properties\<close>

text \<open>
  C20. In every store the handlers can produce, each booking's \<open>maidId\<close>,
  \<open>service\<close>, \<open>date\<close>, \<open>time\<close> and \<open>address\<close> are truthy JSON values and its
  \<open>specialInstructions\<close> is truthy or the empty string: the checks of
  \<open>POST /\<close> and the \<open>|| ''\<close> default hold for the booking's whole life, since
  status updates never touch these fields.
\<close>

theorem store_reach_typed: "store_reach s \<Longrightarrow> \<forall>b\<in>set (bookings s). booking_typed b"
proof (induction rule: store_reach.induct)
  case init
  show ?case by (simp add: init_store_def)
next
  case (create s u body now r s')
  then show ?case unfolding create_booking_def Let_def
    by (auto simp: booking_typed_def js_or_def split: if_splits)
next
  case (update s u p body now r s')
  from update_status_typed [OF update.hyps(2) update.IH] show ?case .
qed

theorem store_reach_typed_witness:
  "store_reach (snd (create_booking demo_customer numeric_maid_body 0 init_store)) \<and>
   list_all booking_typed (bookings (snd (create_booking demo_customer numeric_maid_body 0 init_store)))"
proof -
  have r: "store_reach (snd (create_booking demo_customer numeric_maid_body 0 init_store))"
    by (rule store_reach.create [OF store_reach.init prod.collapse [symmetric]])
  from r store_reach_typed [OF r] show ?thesis by (simp add: list_all_iff)
qed

text \<open>
  The documented types are not enforced: a customer's request with a numeric
  \<open>maidId\<close>, a boolean \<open>service\<close> and a numeric \<open>address\<close> is stored as it is.
\<close>

theorem documented_types_not_enforced:
  "store_reach (snd (create_booking demo_customer numeric_maid_body 0 init_store)) \<and>
   map json_typeof (map maidId (bookings (snd (create_booking demo_customer numeric_maid_body 0 init_store)))) =
     [''number''] \<and>
   \<not> list_all documented_types (bookings (snd (create_booking demo_customer numeric_maid_body 0 init_store)))"
proof -
  have r: "store_reach (snd (create_booking demo_customer numeric_maid_body 0 init_store))"
    by (rule store_reach.create [OF store_reach.init prod.collapse [symmetric]])
  then show ?thesis by simp code_simp
qed

end
