(* ===== verification/Session.thy ===== *)
theory Session
  imports Frontend
begin

text \<open>
  The authentication routes and the client session. \<open>backend/routes/auth.js\<close>
  (lines 21-26) mounts the handlers of \<open>Auth\<close> under \<open>/api/auth\<close>, the
  profile routes behind the \<open>auth\<close> middleware; a token on the wire is the
  string \<open>jwt.sign\<close> makes of the claims, here the parameter \<open>sign\<close>, read
  back by the parameter \<open>verify\<close>. \<open>frontend/src/context/AuthContext.js\<close>
  keeps the logged-in user and the token (mirrored in \<open>localStorage\<close>), and
  an effect keeps axios' default \<open>Authorization\<close> header in step with the
  token; a second effect reloads the profile whenever the token changes.
  \<open>pages/Register.js\<close>, \<open>pages/Profile.js\<close> and the header's dashboard link
  (\<open>components/Layout/Header.js\<close>) use this context.
\<close>

record auth_cfg =
  cfg_is_email :: "string \<Rightarrow> bool"
  cfg_norm_email :: "string \<Rightarrow> string"
  cfg_sign :: "claims \<Rightarrow> string"
  cfg_verify :: "string \<Rightarrow> string option"

subsection \<open>The auth router\<close>

datatype auth_handler = ARegister | ALogin | AProfileGet | AProfilePut | ALogout

text \<open>Lines 22-26, in this order.\<close>

definition auth_routes :: "(http_method \<times> seg list \<times> auth_handler) list" where
  "auth_routes =
     [(POST, [Lit ''register''], ARegister), (POST, [Lit ''login''], ALogin),
      (GET, [Lit ''profile''], AProfileGet), (PUT, [Lit ''profile''], AProfilePut),
      (POST, [Lit ''logout''], ALogout)]"

datatype auth_payload = PUserToken user string | PUser user | PNone

text \<open>
  One request to \<open>/api/auth...\<close> with its \<open>Authorization\<close> header: the
  profile routes run the \<open>auth\<close> middleware first, whose 401 ends the request.
\<close>

definition handle_auth ::
  "auth_cfg \<Rightarrow> http_method \<Rightarrow> string list \<Rightarrow> string option \<Rightarrow> jsobj \<Rightarrow> user_db \<Rightarrow>
     auth_payload reply \<times> user_db" where
  "handle_auth cfg m path hdr body db =
     (case dispatch auth_routes m path of
        None \<Rightarrow> (error_handler (not_found (original_url ''/api/auth'' path)), db)
      | Some (ARegister, _) \<Rightarrow>
          (let (r, db') = register (cfg_is_email cfg) (cfg_norm_email cfg) body db
           in (reply_map (\<lambda>(u, t). PUserToken u (cfg_sign cfg t)) r, db'))
      | Some (ALogin, _) \<Rightarrow>
          (reply_map (\<lambda>(u, t). PUserToken u (cfg_sign cfg t))
             (login (cfg_is_email cfg) (cfg_norm_email cfg) body db), db)
      | Some (AProfileGet, _) \<Rightarrow>
          (case auth_mw (cfg_verify cfg) db hdr of
             Inl (c, msg) \<Rightarrow> (Err c msg, db)
           | Inr me \<Rightarrow> (reply_map PUser (get_profile (identity_of me) db), db))
      | Some (AProfilePut, _) \<Rightarrow>
          (case auth_mw (cfg_verify cfg) db hdr of
             Inl (c, msg) \<Rightarrow> (Err c msg, db)
           | Inr me \<Rightarrow> (let (r, db') = update_profile (identity_of me) body db in (reply_map PUser r, db')))
      | Some (ALogout, _) \<Rightarrow> (Ok 200 PNone, db))"

subsection \<open>The session of \<open>AuthContext\<close>\<close>

record session =
  ses_user :: "user option"
  ses_token :: "string option"
  ses_header :: "string option"
  ses_storage :: "string option"

text \<open>The provider's first render (lines 13-15): the token is read from \<open>localStorage\<close>.\<close>

definition initial_session :: "string option \<Rightarrow> session" where
  "initial_session st = \<lparr>ses_user = None, ses_token = st, ses_header = None, ses_storage = st\<rparr>"

text \<open>The effect of lines 17-23: a truthy token sets the default header, otherwise it is deleted.\<close>

definition header_effect :: "session \<Rightarrow> session" where
  "header_effect s =
     s\<lparr>ses_header := (case ses_token s of Some t \<Rightarrow> if t \<noteq> [] then Some (''Bearer '' @ t) else None
                                       | None \<Rightarrow> None)\<rparr>"

text \<open>\<open>logout\<close> (lines 65-70).\<close>

definition ctx_logout :: "session \<Rightarrow> session" where
  "ctx_logout s = s\<lparr>ses_user := None, ses_token := None, ses_storage := None, ses_header := None\<rparr>"

text \<open>
  \<open>load\<close> (lines 25-39), run with the header the first effect has just set:
  the profile replaces the user; a failure logs out.
\<close>

definition ctx_load :: "auth_cfg \<Rightarrow> user_db \<Rightarrow> session \<Rightarrow> session" where
  "ctx_load cfg db s =
     (case ses_token s of
        Some t \<Rightarrow>
          if t = [] then s
          else (case fst (handle_auth cfg GET [''profile''] (ses_header s) [] db) of
                  Ok _ (PUser u) \<Rightarrow> s\<lparr>ses_user := Some u\<rparr>
                | _ \<Rightarrow> ctx_logout s)
      | None \<Rightarrow> s)"

text \<open>
  \<open>login\<close> and \<open>register\<close> (lines 41-57): on success the user and the token are
  kept and stored, and the header effect follows; a failure throws to the page
  with the answer's message, the session unchanged.
\<close>

definition ctx_auth_call ::
  "auth_cfg \<Rightarrow> string list \<Rightarrow> jsobj \<Rightarrow> user_db \<Rightarrow> session \<Rightarrow> (string + user) \<times> session \<times> user_db" where
  "ctx_auth_call cfg path body db s =
     (case handle_auth cfg POST path (ses_header s) body db of
        (Ok _ (PUserToken u t), db') \<Rightarrow>
          (Inr u, header_effect (s\<lparr>ses_user := Some u, ses_token := Some t, ses_storage := Some t\<rparr>), db')
      | (Err _ msg, db') \<Rightarrow> (Inl msg, s, db')
      | (Ok _ _, db') \<Rightarrow> (Inl [], s, db'))"

definition ctx_login :: "auth_cfg \<Rightarrow> string \<Rightarrow> string \<Rightarrow> user_db \<Rightarrow> session \<Rightarrow> (string + user) \<times> session \<times> user_db" where
  "ctx_login cfg e p db s = ctx_auth_call cfg [''login''] [(''email'', JStr e), (''password'', JStr p)] db s"

definition ctx_register :: "auth_cfg \<Rightarrow> jsobj \<Rightarrow> user_db \<Rightarrow> session \<Rightarrow> (string + user) \<times> session \<times> user_db" where
  "ctx_register cfg payload db s = ctx_auth_call cfg [''register''] payload db s"

text \<open>\<open>updateProfile\<close> (lines 59-63).\<close>

definition ctx_update_profile :: "auth_cfg \<Rightarrow> jsobj \<Rightarrow> user_db \<Rightarrow> session \<Rightarrow> (string + user) \<times> session \<times> user_db" where
  "ctx_update_profile cfg prof db s =
     (case handle_auth cfg PUT [''profile''] (ses_header s) prof db of
        (Ok _ (PUser u), db') \<Rightarrow> (Inr u, s\<lparr>ses_user := Some u\<rparr>, db')
      | (Err _ msg, db') \<Rightarrow> (Inl msg, s, db')
      | (Ok _ _, db') \<Rightarrow> (Inl [], s, db'))"

subsection \<open>Pages using the session\<close>

text \<open>
  The dashboard a role is sent to, by \<open>Register.js\<close> (line 27) and the
  header's \<open>Dashboard\<close> link (Header.js line 42).
\<close>

definition dashboard_path :: "role \<Rightarrow> string" where
  "dashboard_path r = (if r = Customer then ''/customer/dashboard'' else ''/maid/dashboard'')"

record register_form =
  rf_name :: string
  rf_email :: string
  rf_phone :: string
  rf_role :: string
  rf_password :: string
  rf_confirm :: string

text \<open>
  \<open>onSubmit\<close> of Register.js (lines 16-34): the passwords must match; the
  payload goes to \<open>register\<close>; the page shows the error or navigates to the
  new user's dashboard.
\<close>

definition register_submit ::
  "auth_cfg \<Rightarrow> register_form \<Rightarrow> user_db \<Rightarrow> session \<Rightarrow> (string + string) \<times> session \<times> user_db" where
  "register_submit cfg f db s =
     (if rf_password f \<noteq> rf_confirm f then (Inl ''Passwords do not match'', s, db)
      else
        (case ctx_register cfg
                [(''name'', JStr (rf_name f)), (''email'', JStr (rf_email f)), (''phone'', JStr (rf_phone f)),
                 (''role'', JStr (rf_role f)), (''password'', JStr (rf_password f))] db s of
           (Inr u, s', db') \<Rightarrow> (Inr (dashboard_path (role u)), s', db')
         | (Inl m, s', db') \<Rightarrow> (Inl (if m = [] then ''Registration failed'' else m), s', db')))"

text \<open>\<open>onSave\<close> of Profile.js (lines 11-22): only the name and the phone are sent.\<close>

definition profile_save :: "auth_cfg \<Rightarrow> string \<Rightarrow> string \<Rightarrow> user_db \<Rightarrow> session \<Rightarrow> string \<times> session \<times> user_db" where
  "profile_save cfg nm ph db s =
     (case ctx_update_profile cfg [(''name'', JStr nm), (''phone'', JStr ph)] db s of
        (Inr _, s', db') \<Rightarrow> (''Profile updated'', s', db')
      | (Inl _, s', db') \<Rightarrow> (''Update failed'', s', db'))"

subsection \<open>Example data\<close>

abbreviation demo_cfg :: auth_cfg where
  "demo_cfg \<equiv> \<lparr>cfg_is_email = \<lambda>_. True, cfg_norm_email = id, cfg_sign = \<lambda>c. ''jwt.'' @ cl_id c,
     cfg_verify = \<lambda>t. if take 4 t = ''jwt.'' then Some (drop 4 t) else None\<rparr>"

subsection \<open>Lemmas\<close>

lemma ctx_login_ok:
  assumes "ctx_login cfg e p db s = (Inr u, s', db')"
  shows "\<exists>c tk. login (cfg_is_email cfg) (cfg_norm_email cfg) [(''email'', JStr e), (''password'', JStr p)] db =
                 Ok c (u, tk) \<and> db' = db \<and>
               s' = header_effect (s\<lparr>ses_user := Some u, ses_token := Some (cfg_sign cfg tk),
                                     ses_storage := Some (cfg_sign cfg tk)\<rparr>)"
proof (cases "login (cfg_is_email cfg) (cfg_norm_email cfg) [(''email'', JStr e), (''password'', JStr p)] db")
  case (Err c m)
  with assms show ?thesis by (simp add: ctx_login_def ctx_auth_call_def handle_auth_def auth_routes_def)
next
  case (Ok c ut)
  obtain u0 tk where ut: "ut = (u0, tk)" by fastforce
  with Ok assms show ?thesis by (auto simp: ctx_login_def ctx_auth_call_def handle_auth_def auth_routes_def)
qed

lemma auth_mw_signed:
  assumes "\<forall>c. cfg_verify cfg (cfg_sign cfg c) = Some (cl_id c)"
    and "distinct (map user_oid (users db))" and "u \<in> set (users db)"
  shows "auth_mw (cfg_verify cfg) db (Some (''Bearer '' @ cfg_sign cfg (token_of u))) = Inr u"
  using assms find_distinct_key [OF assms(2,3)]
  by (simp add: auth_mw_def auth_mw_bearer token_of_def)

lemma get_profile_member:
  "distinct (map user_oid (users db)) \<Longrightarrow> u \<in> set (users db) \<Longrightarrow> get_profile (identity_of u) db = Ok 200 u"
  using find_distinct_key [of user_oid "users db" u] by (simp add: get_profile_def identity_of_def)

lemma ctx_load_signed:
  assumes "\<forall>c. cfg_verify cfg (cfg_sign cfg c) = Some (cl_id c)" and "cfg_sign cfg (token_of u) \<noteq> []"
    and "distinct (map user_oid (users db))" and "u \<in> set (users db)"
    and "ses_token s = Some (cfg_sign cfg (token_of u))"
    and "ses_header s = Some (''Bearer '' @ cfg_sign cfg (token_of u))"
  shows "ctx_load cfg db s = s\<lparr>ses_user := Some u\<rparr>"
  using assms auth_mw_signed [OF assms(1,3,4)] get_profile_member [OF assms(3,4)]
  by (simp add: ctx_load_def handle_auth_def auth_routes_def)

subsection \<open>Properties\<close>

text \<open>
  C40. A login through \<open>AuthContext\<close> opens a session that authenticates:
  with a JWT library whose \<open>verify\<close> reads back the \<open>id\<close> of what
  \<open>sign\<close> produced, the session holds the user, its default header passes the
  \<open>auth\<close> middleware as that user, the profile reload keeps it, a page reload
  from \<open>localStorage\<close> restores the same user, and after \<open>logout\<close> the
  middleware refuses the next request with 401.
\<close>

theorem session_login_authenticates:
  assumes "\<forall>c. cfg_verify cfg (cfg_sign cfg c) = Some (cl_id c)" and "\<forall>c. cfg_sign cfg c \<noteq> []"
    and "distinct (map user_oid (users db))"
    and "ctx_login cfg e p db s = (Inr u, s', db')"
  shows "ses_user s' = Some u \<and> auth_mw (cfg_verify cfg) db' (ses_header s') = Inr u \<and>
         ctx_load cfg db' s' = s' \<and>
         ctx_load cfg db' (header_effect (initial_session (ses_storage s'))) =
           (header_effect (initial_session (ses_storage s')))\<lparr>ses_user := Some u\<rparr> \<and>
         auth_mw (cfg_verify cfg) db' (ses_header (ctx_logout s')) =
           Inl (401, ''Access denied. No valid token provided.'')"
proof -
  obtain c tk where l: "login (cfg_is_email cfg) (cfg_norm_email cfg) [(''email'', JStr e), (''password'', JStr p)] db =
      Ok c (u, tk)" and db': "db' = db"
    and s': "s' = header_effect (s\<lparr>ses_user := Some u, ses_token := Some (cfg_sign cfg tk),
                                     ses_storage := Some (cfg_sign cfg tk)\<rparr>)"
    using ctx_login_ok [OF assms(4)] by blast
  from login_ok [OF l] have u: "u \<in> set (users db)" and tk: "tk = token_of u" by simp_all
  have ne: "cfg_sign cfg (token_of u) \<noteq> []" using assms(2) by simp
  have hdr: "ses_header s' = Some (''Bearer '' @ cfg_sign cfg (token_of u))"
    using s' tk ne by (simp add: header_effect_def)
  have a: "auth_mw (cfg_verify cfg) db' (ses_header s') = Inr u"
    using auth_mw_signed [OF assms(1,3) u] hdr db' by simp
  have l1: "ctx_load cfg db' s' = s'"
    using ctx_load_signed [OF assms(1) ne assms(3) u, of s'] s' tk hdr db' by (simp add: header_effect_def)
  have l2: "ctx_load cfg db' (header_effect (initial_session (ses_storage s'))) =
      (header_effect (initial_session (ses_storage s')))\<lparr>ses_user := Some u\<rparr>"
    using ctx_load_signed [OF assms(1) ne assms(3) u] s' tk ne db'
    by (simp add: header_effect_def initial_session_def)
  have "auth_mw (cfg_verify cfg) db' (ses_header (ctx_logout s')) =
      Inl (401, ''Access denied. No valid token provided.'')"
    by (simp add: ctx_logout_def auth_mw_def)
  with a l1 l2 s' show ?thesis by (simp add: header_effect_def)
qed

theorem session_login_authenticates_witness:
  "auth_mw (cfg_verify demo_cfg) reg_db
     (ses_header (fst (snd (ctx_login demo_cfg ''asha@example.in'' ''secret1'' reg_db (initial_session None))))) =
   Inr demo_user"
proof -
  have l: "ctx_login demo_cfg ''asha@example.in'' ''secret1'' reg_db (initial_session None) =
      (Inr demo_user, fst (snd (ctx_login demo_cfg ''asha@example.in'' ''secret1'' reg_db (initial_session None))),
       reg_db)"
    by code_simp
  have v: "\<forall>c. cfg_verify demo_cfg (cfg_sign demo_cfg c) = Some (cl_id c)" by simp
  have n: "\<forall>c. cfg_sign demo_cfg c \<noteq> []" by simp
  have d: "distinct (map user_oid (users reg_db))" by (simp add: reg_eq)
  from session_login_authenticates [OF v n d l] show ?thesis by simp
qed

end
