(* ===== verification/App.thy ===== *)
theory App
  imports Session
begin

text \<open>
  The whole backend as \<open>backend/server.js\<close> assembles it: the application-wide
  body parser (line 31), the five routers mounted under \<open>/api\<close> (lines 52-56),
  the health check (lines 59-65) and the \<open>notFound\<close>/\<open>errorHandler\<close> pair
  that answers every request no route took (lines 68-69). The payments router
  (\<open>routes/payments.js\<close> lines 19, 56, 87) is dispatched here, its two
  client routes behind the \<open>auth\<close> middleware; the bookings routes run
  \<open>auth\<close> per route (\<open>routes/bookings.js\<close> lines 29-175), so an unmatched
  bookings path is answered 404 before any token is read. The state of the
  application is the bookings module's store and the user collection; the
  environment (secrets, Razorpay, JWT, the JSON parser) is a record of
  parameters. Helmet, CORS and the rate limiter (lines 17-28) change headers or
  refuse floods and are not modelled.
\<close>

record app_env =
  env_auth :: auth_cfg
  env_rz :: "order_opts \<Rightarrow> order option"
  env_key :: jsval
  env_hmac :: "string \<Rightarrow> string \<Rightarrow> string"
  env_secret :: "string option"
  env_wsecret :: "string option"
  env_parse :: "string \<Rightarrow> jsobj option"
  env_parse_arr :: "string \<Rightarrow> jsval list option"
  env_json_ok :: "string \<Rightarrow> bool"

record app_state =
  app_store :: store
  app_users :: user_db

definition app_init :: app_state where
  "app_init = \<lparr>app_store = init_store, app_users = \<lparr>users = [], nextOid = 0\<rparr>\<rparr>"

text \<open>
  A request as it reaches the application: method, path segments, the
  \<open>Authorization\<close> and \<open>x-razorpay-signature\<close> headers, the content type and
  the raw body.
\<close>

record http_request =
  rq_method :: http_method
  rq_path :: "string list"
  rq_auth :: "string option"
  rq_sig :: "string option"
  rq_ctype :: string
  rq_raw :: string

text \<open>
  A request of the frontend without a body, carrying the session's token as
  \<open>`Bearer ${token}`\<close> (a missing token is sent as \<open>Bearer null\<close>).
\<close>

definition bearer_of :: "string option \<Rightarrow> string" where
  "bearer_of tok = ''Bearer '' @ (case tok of None \<Rightarrow> ''null'' | Some t \<Rightarrow> t)"

definition api_get :: "string list \<Rightarrow> string option \<Rightarrow> http_request" where
  "api_get path tok =
     \<lparr>rq_method = GET, rq_path = path, rq_auth = Some (bearer_of tok), rq_sig = None,
      rq_ctype = '''', rq_raw = ''''\<rparr>"

text \<open>
  \<open>req.body\<close> as the handlers read it: the object \<open>express.json\<close> built. Every
  named field the handlers read of an array is \<open>undefined\<close>, as of the empty
  object; what \<open>findByIdAndUpdate\<close> would make of an array (an update
  pipeline) is not modelled.
\<close>

fun req_obj :: "req_body \<Rightarrow> jsobj" where
  "req_obj (BObj o') = o'"
| "req_obj (BArr _) = []"
| "req_obj (BRaw _) = []"

text \<open>
  \<open>{...notes}\<close> of a primitive \<open>notes\<close> (payments.js lines 21, 31-32): a string
  spreads into its characters under the keys \<open>'0', '1', ...\<close>; every other
  primitive, \<open>undefined\<close> (the default \<open>{}\<close>) and \<open>null\<close> spread into nothing.
\<close>

fun spread_notes :: "jsval \<Rightarrow> jsobj" where
  "spread_notes (JStr s) = map (\<lambda>(i, c). (dec_str i, JStr [c])) (enumerate 0 s)"
| "spread_notes _ = []"

subsection \<open>The payments router\<close>

datatype pay_handler = PCreateOrder | PVerify | PWebhook

definition payments_routes :: "(http_method \<times> seg list \<times> pay_handler) list" where
  "payments_routes =
     [(POST, [Lit ''create-order''], PCreateOrder), (POST, [Lit ''verify''], PVerify),
      (POST, [Lit ''webhook''], PWebhook)]"

datatype pay_payload = POrder order_data | PVerified "jsval \<times> jsval" | PWebhookOk

definition handle_payments ::
  "app_env \<Rightarrow> http_method \<Rightarrow> string list \<Rightarrow> string option \<Rightarrow> string option \<Rightarrow> req_body \<Rightarrow>
     nat \<Rightarrow> user_db \<Rightarrow> pay_payload reply" where
  "handle_payments env m path hdr sig b now db =
     (case dispatch payments_routes m path of
        None \<Rightarrow> error_handler (not_found (original_url ''/api/payments'' path))
      | Some (PCreateOrder, _) \<Rightarrow>
          (case auth_mw (cfg_verify (env_auth env)) db hdr of
             Inl (c, msg) \<Rightarrow> Err c msg
           | Inr me \<Rightarrow> reply_map POrder
               (create_order (env_rz env) (env_key env) me (req_obj b)
                  (spread_notes (js_get (req_obj b) ''notes'')) now))
      | Some (PVerify, _) \<Rightarrow>
          (case auth_mw (cfg_verify (env_auth env)) db hdr of
             Inl (c, msg) \<Rightarrow> Err c msg
           | Inr me \<Rightarrow> reply_map PVerified (verify_payment (env_hmac env) (env_secret env) (req_obj b)))
      | Some (PWebhook, _) \<Rightarrow>
          reply_map (\<lambda>_. PWebhookOk) (webhook (env_hmac env) (env_wsecret env) (env_json_ok env) sig b))"

subsection \<open>The bookings router with its per-route \<open>auth\<close>\<close>

definition bookings_mount ::
  "(string \<Rightarrow> string option) \<Rightarrow> http_method \<Rightarrow> string list \<Rightarrow> string option \<Rightarrow> jsobj \<Rightarrow> nat \<Rightarrow>
     user_db \<Rightarrow> store \<Rightarrow> payload reply \<times> store" where
  "bookings_mount verify m path hdr body now db s =
     (case dispatch bookings_routes m path of
        None \<Rightarrow> (error_handler (not_found (original_url ''/api/bookings'' path)), s)
      | Some _ \<Rightarrow>
          (case auth_mw verify db hdr of
             Inl (c, msg) \<Rightarrow> (Err c msg, s)
           | Inr me \<Rightarrow> handle_bookings (identity_of me) m path body now s))"

subsection \<open>The application\<close>

datatype mount = MAuth | MUsers | MServices | MBookings | MPayments

text \<open>Lines 52-56, in this order.\<close>

definition app_mounts :: "(string \<times> mount) list" where
  "app_mounts =
     [(''auth'', MAuth), (''users'', MUsers), (''services'', MServices),
      (''bookings'', MBookings), (''payments'', MPayments)]"

text \<open>The router whose mount path is a prefix of the request path, and the rest.\<close>

fun mount_of :: "string list \<Rightarrow> (mount \<times> string list) option" where
  "mount_of (a # b # p) = (if a = ''api'' then map_option (\<lambda>h. (h, p)) (map_of app_mounts b) else None)"
| "mount_of _ = None"

datatype api_payload =
    AAuth auth_payload | AUsers "jsobj list" | AServices svc_payload | ABookings payload
  | APayments pay_payload | AHealth nat

text \<open>
  One request through the application: \<open>express.json\<close> first (a body it cannot
  parse is answered 400 by the error handler), then the mounted router, the
  health check, or \<open>notFound\<close> with the request's \<open>originalUrl\<close>.
\<close>

definition handle_app :: "app_env \<Rightarrow> http_request \<Rightarrow> nat \<Rightarrow> app_state \<Rightarrow> api_payload reply \<times> app_state" where
  "handle_app env rq now st =
     (case webhook_body (env_parse env) (env_parse_arr env) (rq_ctype rq) (rq_raw rq) of
        None \<Rightarrow> (Err 400 ''Unexpected token in JSON'', st)
      | Some b \<Rightarrow>
          (let m = rq_method rq; path = rq_path rq; hdr = rq_auth rq; body = req_obj b
           in case mount_of path of
                Some (MAuth, p) \<Rightarrow>
                  (let (r, db') = handle_auth (env_auth env) m p hdr body (app_users st)
                   in (reply_map AAuth r, st\<lparr>app_users := db'\<rparr>))
              | Some (MUsers, p) \<Rightarrow> (reply_map AUsers (handle_users m p (app_users st)), st)
              | Some (MServices, p) \<Rightarrow> (reply_map AServices (handle_services m p), st)
              | Some (MBookings, p) \<Rightarrow>
                  (let (r, s') = bookings_mount (cfg_verify (env_auth env)) m p hdr body now (app_users st) (app_store st)
                   in (reply_map ABookings r, st\<lparr>app_store := s'\<rparr>))
              | Some (MPayments, p) \<Rightarrow>
                  (reply_map APayments (handle_payments env m p hdr (rq_sig rq) b now (app_users st)), st)
              | None \<Rightarrow>
                  (if m = GET \<and> path = [''health''] then Ok 200 (AHealth now)
                   else error_handler (not_found (original_url '''' path)), st)))"

text \<open>Requests served one after another, the \<open>k\<close>-th at clock reading \<open>now + k\<close>.\<close>

fun app_serve :: "app_env \<Rightarrow> http_request list \<Rightarrow> nat \<Rightarrow> app_state \<Rightarrow> api_payload reply list \<times> app_state" where
  "app_serve env [] now st = ([], st)"
| "app_serve env (rq # rqs) now st =
     (let (r, st') = handle_app env rq now st; (rs, st'') = app_serve env rqs (Suc now) st'
      in (r # rs, st''))"

text \<open>The whole-app states reachable from the empty application by any requests.\<close>

inductive app_reach :: "app_state \<Rightarrow> bool" where
  init: "app_reach app_init"
| step: "app_reach st \<Longrightarrow> handle_app env rq now st = (r, st') \<Longrightarrow> app_reach st'"

subsection \<open>Example data\<close>

abbreviation cust_reg_body :: jsobj where
  "cust_reg_body \<equiv> [(''name'', JStr ''Asha''), (''email'', JStr ''asha@example.in''),
     (''password'', JStr ''secret1''), (''phone'', JStr ''9000000000'')]"

abbreviation demo_env :: app_env where
  "demo_env \<equiv> \<lparr>env_auth = demo_cfg, env_rz = \<lambda>_. None, env_key = JUndef, env_hmac = \<lambda>k m. m,
     env_secret = None, env_wsecret = None,
     env_parse = \<lambda>s. if s = ''reg'' then Some cust_reg_body else if s = ''book'' then Some demo_body else None,
     env_parse_arr = \<lambda>_. None,
     env_json_ok = \<lambda>_. True\<rparr>"

abbreviation json_post :: "string list \<Rightarrow> string option \<Rightarrow> string \<Rightarrow> http_request" where
  "json_post path hdr raw \<equiv> \<lparr>rq_method = POST, rq_path = path, rq_auth = hdr, rq_sig = None,
     rq_ctype = ''application/json'', rq_raw = raw\<rparr>"

text \<open>A customer registers through the application, then books with the token.\<close>

abbreviation app_st1 :: app_state where
  "app_st1 \<equiv> snd (handle_app demo_env (json_post [''api'', ''auth'', ''register''] None ''reg'') 0 app_init)"

abbreviation app_st2 :: app_state where
  "app_st2 \<equiv> snd (handle_app demo_env
     (json_post [''api'', ''bookings''] (Some (''Bearer jwt.'' @ oid 0)) ''book'') 1 app_st1)"

subsection \<open>Lemmas\<close>

lemma reply_map_reply_map: "reply_map f (reply_map g r) = reply_map (f \<circ> g) r"
  by (cases r) simp_all

lemma handle_bookings_reach:
  assumes "handle_bookings u m p body now s = (r, s')" and "store_reach s"
  shows "store_reach s'"
  using assms unfolding handle_bookings_def Let_def
  by (auto split: option.splits prod.splits handler.splits intro: store_reach.create store_reach.update)

lemma handle_bookings_party:
  assumes "handle_bookings u m p body now s = (r, s')" and "s' \<noteq> s"
  shows "urole u = Customer \<or> urole u = Maid"
  using assms unfolding handle_bookings_def Let_def
  by (auto split: option.splits prod.splits handler.splits dest!: create_booking_cases update_status_cases
           simp: decide_None_iff)

lemma bookings_mount_reach:
  "bookings_mount verify m p hdr body now db s = (r, s') \<Longrightarrow> store_reach s \<Longrightarrow> store_reach s'"
  unfolding bookings_mount_def
  by (auto split: option.splits sum.splits prod.splits intro: handle_bookings_reach)

lemma register_reach_pair: "register ie ne b db = (r, db') \<Longrightarrow> udb_reach db \<Longrightarrow> udb_reach db'"
  using register_reach [of db ie ne b] by simp

lemma handle_auth_reach:
  assumes "handle_auth cfg m p hdr body db = (r, db')" and "udb_reach db"
  shows "udb_reach db'"
  using assms unfolding handle_auth_def Let_def
  by (auto split: option.splits prod.splits auth_handler.splits sum.splits
           intro: register_reach_pair udb_reach.update)

text \<open>Only the auth and bookings routers change the application's state, each its own part.\<close>

lemma handle_app_cases:
  assumes "handle_app env rq now st = (r, st')"
  shows "st' = st \<or>
    (\<exists>p db'. mount_of (rq_path rq) = Some (MAuth, p) \<and> st' = st\<lparr>app_users := db'\<rparr> \<and>
       (\<exists>b r'. webhook_body (env_parse env) (env_parse_arr env) (rq_ctype rq) (rq_raw rq) = Some b \<and>
          handle_auth (env_auth env) (rq_method rq) p (rq_auth rq) (req_obj b) (app_users st) = (r', db'))) \<or>
    (\<exists>p s'. mount_of (rq_path rq) = Some (MBookings, p) \<and> st' = st\<lparr>app_store := s'\<rparr> \<and>
       (\<exists>b r'. webhook_body (env_parse env) (env_parse_arr env) (rq_ctype rq) (rq_raw rq) = Some b \<and>
          bookings_mount (cfg_verify (env_auth env)) (rq_method rq) p (rq_auth rq) (req_obj b) now
            (app_users st) (app_store st) = (r', s')))"
  using assms unfolding handle_app_def Let_def
  by (auto split: option.splits prod.splits mount.splits)

text \<open>
  The webhook through the application is the webhook of \<open>Payments\<close> behind its
  parser chain, so the defect shown there reaches the deployed route.
\<close>

lemma app_webhook:
  "handle_app env \<lparr>rq_method = POST, rq_path = [''api'', ''payments'', ''webhook''], rq_auth = h,
      rq_sig = sg, rq_ctype = ct, rq_raw = raw\<rparr> now st =
   (reply_map (\<lambda>_. APayments PWebhookOk)
      (webhook_request (env_parse env) (env_parse_arr env) (env_hmac env) (env_wsecret env) (env_json_ok env) sg ct raw), st)"
  by (simp add: handle_app_def webhook_request_def handle_payments_def payments_routes_def app_mounts_def
        reply_map_reply_map comp_def split: option.split)

lemma app_st1_eq:
  "app_st1 = \<lparr>app_store = init_store, app_users = \<lparr>users = [\<lparr>user_oid = oid 0, name = ''Asha'',
     email = ''asha@example.in'', password = Hashed ''secret1'', role = Customer,
     phone = ''9000000000'', isActive = True, rating = 0\<rparr>], nextOid = 1\<rparr>\<rparr>"
  by code_simp

subsection \<open>Properties\<close>

text \<open>
  C18. Every state the whole application reaches, by any requests in any
  order under any environment, is made of a bookings store reachable by the
  bookings handlers and a user collection reachable by registrations and
  profile updates: the invariants proved of each component hold of the
  deployed server.
\<close>

theorem app_reach_components:
  "app_reach st \<Longrightarrow> store_reach (app_store st) \<and> udb_reach (app_users st)"
proof (induction rule: app_reach.induct)
  case init
  show ?case by (simp add: app_init_def store_reach.init udb_reach.init)
next
  case (step st env rq now r st')
  from handle_app_cases [OF step.hyps(2)] step.IH show ?case
    by (auto intro: handle_auth_reach bookings_mount_reach)
qed

theorem app_reach_components_witness:
  "app_reach app_st2 \<and> store_reach (app_store app_st2) \<and> udb_reach (app_users app_st2)"
proof -
  have r1: "app_reach app_st1" by (rule app_reach.step [OF app_reach.init surjective_pairing])
  have r2: "app_reach app_st2" by (rule app_reach.step [OF r1 surjective_pairing])
  show ?thesis using r2 app_reach_components [OF r2] by simp
qed

text \<open>
  C34. A request changes the bookings store only when it is routed to the
  bookings router and its \<open>Authorization\<close> header authenticates a stored user
  who is a customer or a maid: no public route, no other router, no missing or
  invalid token and no admin alters a booking.
\<close>

theorem app_store_needs_token:
  assumes "handle_app env rq now st = (r, st')" and "app_store st' \<noteq> app_store st"
  shows "\<exists>p me. mount_of (rq_path rq) = Some (MBookings, p) \<and>
           auth_mw (cfg_verify (env_auth env)) (app_users st) (rq_auth rq) = Inr me \<and>
           (role me = Customer \<or> role me = Maid)"
  using handle_app_cases [OF assms(1)] assms(2)
  by (auto simp: bookings_mount_def identity_of_def split: option.splits sum.splits
           dest: handle_bookings_party)

theorem app_store_needs_token_witness:
  "app_store app_st2 \<noteq> app_store app_st1 \<and>
   (\<exists>p me. mount_of [''api'', ''bookings''] = Some (MBookings, p) \<and>
      auth_mw (cfg_verify demo_cfg) (app_users app_st1) (Some (''Bearer jwt.'' @ oid 0)) = Inr me \<and>
      (role me = Customer \<or> role me = Maid))"
proof -
  have ne: "app_store app_st2 \<noteq> app_store app_st1" by code_simp
  show ?thesis using ne app_store_needs_token [OF surjective_pairing ne] by simp
qed

end
