(* ===== verification/History.thy ===== *)
theory History
  imports App
begin

text \<open>
  The customer's booking history, \<open>frontend/src/pages/BookingHistory.js\<close>:
  its state (lines 7-9), the \<open>load\<close> call of \<open>GET /api/bookings\<close> with the
  session's token (lines 11-24), run by the effect when a token is set and by
  the Refresh button (lines 26-29, 44), and the table it renders: one row per
  booking with the service (or \<open>Cleaning Service\<close>), date, time, address,
  amount, and the status label and colour class (lines 31-38, 63-81). The page
  talks to the whole application of \<open>App\<close>.
\<close>

record history =
  h_bookings :: "booking list"
  h_loading :: bool
  h_err :: string

definition history_init :: history where
  "history_init = \<lparr>h_bookings = [], h_loading = True, h_err = ''''\<rparr>"

text \<open>The request of lines 14-16 (the Refresh button sends it even without a token).\<close>

definition history_request :: "string option \<Rightarrow> http_request" where
  "history_request tok = api_get [''api'', ''bookings''] tok"

text \<open>
  Lines 17-22: on success \<open>data?.data?.bookings || []\<close> and the error cleared;
  on an error status the server's message (or the fallback), the list kept.
\<close>

definition history_load :: "api_payload reply \<Rightarrow> history \<Rightarrow> history" where
  "history_load r h =
     (case r of
        Ok _ p \<Rightarrow> h\<lparr>h_bookings := (case p of ABookings (PBookings bs) \<Rightarrow> bs | _ \<Rightarrow> []),
                   h_loading := False, h_err := ''''\<rparr>
      | Err _ m \<Rightarrow> h\<lparr>h_loading := False, h_err := (if m = [] then ''Failed to load bookings'' else m)\<rparr>)"

definition history_refresh ::
  "app_env \<Rightarrow> string option \<Rightarrow> nat \<Rightarrow> app_state \<Rightarrow> history \<Rightarrow> history \<times> app_state" where
  "history_refresh env tok now st h =
     (let (r, st') = handle_app env (history_request tok) now st in (history_load r h, st'))"

text \<open>The effect of lines 26-29: \<open>load()\<close> when the token is truthy.\<close>

definition history_mount :: "app_env \<Rightarrow> string option \<Rightarrow> nat \<Rightarrow> app_state \<Rightarrow> history \<times> app_state" where
  "history_mount env tok now st =
     (case tok of
        Some t \<Rightarrow> if t \<noteq> [] then history_refresh env tok now st history_init else (history_init, st)
      | None \<Rightarrow> (history_init, st))"

text \<open>\<open>statusClass\<close> (lines 31-38).\<close>

definition status_classes :: "(string \<times> string) list" where
  "status_classes =
     [(''completed'', ''bg-green-100 text-green-800''), (''in_progress'', ''bg-yellow-100 text-yellow-800''),
      (''confirmed'', ''bg-blue-100 text-blue-800''), (''pending'', ''bg-gray-100 text-gray-800''),
      (''declined'', ''bg-red-100 text-red-800''), (''cancelled'', ''bg-red-100 text-red-800'')]"

text \<open>\<open>String.prototype.replace\<close> with a string pattern replaces the first occurrence only.\<close>

fun replace_first :: "char \<Rightarrow> char \<Rightarrow> string \<Rightarrow> string" where
  "replace_first a b [] = []"
| "replace_first a b (c # cs) = (if c = a then b # cs else c # replace_first a b cs)"

record hist_row =
  hr_service :: jsval
  hr_date :: jsval
  hr_time :: jsval
  hr_address :: jsval
  hr_amount :: int
  hr_label :: string
  hr_class :: string

text \<open>One row of the table (lines 63-76).\<close>

definition history_row :: "booking \<Rightarrow> hist_row" where
  "history_row b =
     \<lparr>hr_service = js_or (service b) (JStr ''Cleaning Service''), hr_date = date b, hr_time = time b,
      hr_address = address b, hr_amount = amount b,
      hr_label = replace_first (CHR ''_'') (CHR '' '') (status_str (status b)),
      hr_class = (case map_of status_classes (status_str (status b)) of
                    Some c \<Rightarrow> c | None \<Rightarrow> ''bg-gray-100 text-gray-800'')\<rparr>"

text \<open>The rows, and whether the \<open>No bookings found.\<close> row shows (lines 77-81).\<close>

definition history_view :: "history \<Rightarrow> hist_row list \<times> bool" where
  "history_view h = (map history_row (h_bookings h), h_bookings h = [] \<and> \<not> h_loading h)"

subsection \<open>Lemmas\<close>

lemma status_label_cases:
  "replace_first (CHR ''_'') (CHR '' '') (status_str st) =
     (if st = In_progress then ''in progress'' else status_str st)"
  by (cases st) simp_all

lemma status_label_inj:
  "replace_first (CHR ''_'') (CHR '' '') (status_str a) = replace_first (CHR ''_'') (CHR '' '') (status_str b) \<longleftrightarrow> a = b"
  by (cases a; cases b) simp_all

lemma status_class_listed: "map_of status_classes (status_str st) \<noteq> None"
  by (cases st) (simp_all add: status_classes_def)


lemma history_refresh_refused:
  assumes "auth_mw (cfg_verify (env_auth env)) (app_users st) (Some (bearer_of tok)) = Inl (c, msg)"
  shows "history_refresh env tok now st h = (h\<lparr>h_loading := False, h_err := (if msg = [] then ''Failed to load bookings'' else msg)\<rparr>, st)"
  using assms
  by (simp add: history_refresh_def history_request_def api_get_def bearer_of_def handle_app_def webhook_body_def app_mounts_def
        bookings_mount_def bookings_routes_def history_load_def)

subsection \<open>Properties\<close>

text \<open>
  C11. Whatever state the server is in, when the history page loads with a
  token that authenticates a customer, it lists exactly that customer's
  bookings in the store, in insertion order, clears any earlier error and
  stops loading; the load changes nothing on the server.
\<close>

theorem history_refresh_customer:
  assumes "auth_mw (cfg_verify (env_auth env)) (app_users st) (Some (''Bearer '' @ t)) = Inr me"
    and "role me = Customer"
  shows "history_refresh env (Some t) now st h =
           (h\<lparr>h_bookings := filter (\<lambda>b. customerId b = user_oid me) (bookings (app_store st)),
              h_loading := False, h_err := ''''\<rparr>, st)"
  using assms
  by (simp add: history_refresh_def history_request_def api_get_def bearer_of_def handle_app_def webhook_body_def app_mounts_def
        bookings_mount_def bookings_routes_def handle_bookings_def list_bookings_def identity_of_def
        history_load_def)

theorem history_refresh_customer_witness:
  "fst (history_refresh demo_env (Some (''jwt.'' @ oid 0)) 2 app_st2 history_init) =
     \<lparr>h_bookings = bookings (app_store app_st2), h_loading = False, h_err = ''''\<rparr> \<and>
   history_view (fst (history_refresh demo_env (Some (''jwt.'' @ oid 0)) 2 app_st2 history_init)) =
     ([\<lparr>hr_service = JStr ''House Cleaning'', hr_date = JStr ''2025-01-01'', hr_time = JStr ''10:00'',
        hr_address = JStr ''1 Main St'', hr_amount = 800, hr_label = ''pending'',
        hr_class = ''bg-gray-100 text-gray-800''\<rparr>], False)"
proof -
  let ?me = "hd (users (app_users app_st1))"
  have a: "auth_mw (cfg_verify (env_auth demo_env)) (app_users app_st2) (Some (''Bearer '' @ ''jwt.'' @ oid 0)) = Inr ?me"
    by code_simp
  have r: "role ?me = Customer" by code_simp
  have f: "filter (\<lambda>b. customerId b = user_oid ?me) (bookings (app_store app_st2)) = bookings (app_store app_st2)"
    by code_simp
  have h: "fst (history_refresh demo_env (Some (''jwt.'' @ oid 0)) 2 app_st2 history_init) =
     \<lparr>h_bookings = bookings (app_store app_st2), h_loading = False, h_err = ''''\<rparr>"
    using history_refresh_customer [OF a r] f by (simp add: history_init_def)
  have v: "history_view \<lparr>h_bookings = bookings (app_store app_st2), h_loading = False, h_err = ''''\<rparr> =
     ([\<lparr>hr_service = JStr ''House Cleaning'', hr_date = JStr ''2025-01-01'', hr_time = JStr ''10:00'',
        hr_address = JStr ''1 Main St'', hr_amount = 800, hr_label = ''pending'',
        hr_class = ''bg-gray-100 text-gray-800''\<rparr>], False)"
    by code_simp
  show ?thesis using h v by simp
qed

end
