(* ===== verification/MaidPage.thy ===== *)
theory MaidPage
  imports History
begin

text \<open>
  The maid's dashboard page, \<open>frontend/src/pages/MaidDashboard.js\<close>, as a
  client of the whole application of \<open>App\<close>: its state (lines 8-18),
  \<open>loadStats\<close> and \<open>loadBookings\<close> (lines 20-50), \<open>refreshAll\<close> and the
  effect that runs it when a token is set (lines 52-62), \<open>updateStatus\<close>
  behind the four buttons (lines 64-79), the summary cards (lines 81-86) and
  a booking card's text (lines 88-114). The lists and buttons themselves are
  \<open>maid_lists\<close> and \<open>dashboard_cards\<close> of \<open>Frontend\<close>. \<open>refreshAll\<close> sends
  both requests at once (\<open>Promise.all\<close>); both are reads that touch
  different parts of the page, so the order they are answered in does not
  matter and the model serves the list first.
\<close>

record maid_page =
  mp_pending :: "booking list"
  mp_active :: "booking list"
  mp_completed :: "booking list"
  mp_summary :: summary
  mp_loading :: bool
  mp_err :: string

definition maid_page_init :: maid_page where
  "maid_page_init =
     \<lparr>mp_pending = [], mp_active = [], mp_completed = [], mp_summary = zero_summary,
      mp_loading = True, mp_err = ''''\<rparr>"

text \<open>
  \<open>loadStats\<close> (lines 20-27): the stats replace the summary; an error is
  swallowed. Any other successful answer keeps the summary (the stats route
  never answers one, see \<open>Router\<close>).
\<close>

definition mp_load_stats :: "api_payload reply \<Rightarrow> maid_page \<Rightarrow> maid_page" where
  "mp_load_stats r p =
     (case r of
        Ok _ (ABookings (PStats st)) \<Rightarrow>
          p\<lparr>mp_summary := \<lparr>s_total = total st, s_completed = completed st, s_pending = pending st\<rparr>\<rparr>
      | _ \<Rightarrow> p)"

text \<open>\<open>loadBookings\<close> (lines 29-50): \<open>data?.data?.bookings || []\<close> split into the three lists.\<close>

definition mp_load_bookings :: "api_payload reply \<Rightarrow> maid_page \<Rightarrow> maid_page" where
  "mp_load_bookings r p =
     (case r of
        Ok _ q \<Rightarrow>
          (let (pe, ac, co) = maid_lists (case q of ABookings (PBookings bs) \<Rightarrow> bs | _ \<Rightarrow> [])
           in p\<lparr>mp_pending := pe, mp_active := ac, mp_completed := co, mp_loading := False, mp_err := ''''\<rparr>)
      | Err _ m \<Rightarrow> p\<lparr>mp_loading := False, mp_err := (if m = [] then ''Failed to load bookings'' else m)\<rparr>)"

definition mp_refresh ::
  "app_env \<Rightarrow> string option \<Rightarrow> nat \<Rightarrow> app_state \<Rightarrow> maid_page \<Rightarrow> maid_page \<times> app_state" where
  "mp_refresh env tok now st p =
     (let (r1, st1) = handle_app env (api_get [''api'', ''bookings''] tok) now st;
          (r2, st2) = handle_app env (api_get [''api'', ''bookings'', ''stats''] tok) now st1
      in (mp_load_stats r2 (mp_load_bookings r1 p), st2))"

definition mp_mount :: "app_env \<Rightarrow> string option \<Rightarrow> nat \<Rightarrow> app_state \<Rightarrow> maid_page \<times> app_state" where
  "mp_mount env tok now st =
     (case tok of
        Some t \<Rightarrow> if t \<noteq> [] then mp_refresh env tok now st maid_page_init else (maid_page_init, st)
      | None \<Rightarrow> (maid_page_init, st))"

text \<open>
  The body \<open>{ status }\<close> as axios sends it, \<open>JSON.stringify\<close> of an object
  with one string field free of quotes and backslashes, as every status name is.
\<close>

definition json_status_text :: "string \<Rightarrow> string" where
  "json_status_text s =
     ''{'' @ [CHR 0x22] @ ''status'' @ [CHR 0x22] @ '':'' @ [CHR 0x22] @ s @ [CHR 0x22] @ ''}''"

text \<open>The request of \<open>updateStatus(id, status)\<close> (lines 64-69) behind a button.\<close>

definition status_put :: "string option \<Rightarrow> booking \<Rightarrow> maid_action \<Rightarrow> http_request" where
  "status_put tok b a =
     (case action_request b a of (m, path, _) \<Rightarrow>
        \<lparr>rq_method = m, rq_path = ''api'' # ''bookings'' # path, rq_auth = Some (bearer_of tok),
         rq_sig = None, rq_ctype = ''application/json'',
         rq_raw = json_status_text (status_str (action_status a))\<rparr>)"

text \<open>
  \<open>updateStatus\<close> (lines 64-74): on success the whole page is reloaded; on
  an error the server's message (or the fallback) is alerted and the page kept.
  The result is the page, the alert and the server state.
\<close>

definition mp_update ::
  "app_env \<Rightarrow> string option \<Rightarrow> nat \<Rightarrow> app_state \<Rightarrow> maid_page \<Rightarrow> booking \<Rightarrow> maid_action \<Rightarrow>
     maid_page \<times> string option \<times> app_state" where
  "mp_update env tok now st p b a =
     (let (r, st') = handle_app env (status_put tok b a) now st
      in case r of
           Ok _ _ \<Rightarrow> (let (p', st'') = mp_refresh env tok (Suc now) st' p in (p', None, st''))
         | Err _ m \<Rightarrow> (p, Some (if m = [] then ''Failed to update status'' else m), st'))"

text \<open>
  The summary cards (lines 81-86). \<open>This Month\<close> is the constant amount 0 in
  rupees; the rating is \<open>user.profile.rating.average.toFixed(1)\<close>, which is a
  non-empty string whenever a user is loaded, so the fallback \<open>'4.8'\<close> shows
  only without one.
\<close>

datatype card_value = CText string | CRupees int

definition maid_cards :: "summary \<Rightarrow> user option \<Rightarrow> (string \<times> card_value) list" where
  "maid_cards sm u =
     [(''Pending Requests'', CText (dec_str (s_pending sm))),
      (''Completed Jobs'', CText (dec_str (s_completed sm))),
      (''This Month'', CRupees 0),
      (''Rating'', CText (case u of Some x \<Rightarrow> int_str (rating x) @ ''.0'' | None \<Rightarrow> ''4.8''))]"

text \<open>
  The text of a \<open>BookingCard\<close> (lines 88-114), in the row shape of the history
  page: service (or \<open>Cleaning Service\<close>), date, time, address, amount, the
  status with its first underscore replaced, and the colour chosen by the
  conditional chain of lines 100-106. The \<open>Customer:\<close> line needs a
  \<open>customerName\<close> field that stored bookings do not have, so it never shows.
\<close>

definition maid_card_row :: "booking \<Rightarrow> hist_row" where
  "maid_card_row b =
     \<lparr>hr_service = js_or (service b) (JStr ''Cleaning Service''), hr_date = date b, hr_time = time b,
      hr_address = address b, hr_amount = amount b,
      hr_label = replace_first (CHR ''_'') (CHR '' '') (status_str (status b)),
      hr_class = (if status_str (status b) = ''completed'' then ''bg-green-100 text-green-800''
                  else if status_str (status b) = ''in_progress'' then ''bg-yellow-100 text-yellow-800''
                  else if status_str (status b) = ''confirmed'' then ''bg-blue-100 text-blue-800''
                  else if status_str (status b) = ''pending'' then ''bg-gray-100 text-gray-800''
                  else ''bg-red-100 text-red-800'')\<rparr>"

subsection \<open>Example data\<close>

abbreviation maid_reg_body :: jsobj where
  "maid_reg_body \<equiv> [(''name'', JStr ''Ravi''), (''email'', JStr ''ravi@example.in''),
     (''password'', JStr ''pw1234''), (''phone'', JStr ''9000000001''), (''role'', JStr ''maid'')]"

abbreviation maid_book_body :: jsobj where
  "maid_book_body \<equiv> [(''maidId'', JStr (oid 1)), (''service'', JStr ''House Cleaning''),
     (''date'', JStr ''2025-01-01''), (''time'', JStr ''10:00''), (''address'', JStr ''1 Main St''),
     (''amount'', JNum (Num 800))]"

abbreviation maid_env :: app_env where
  "maid_env \<equiv> demo_env\<lparr>env_parse := \<lambda>s.
     if s = ''reg'' then Some cust_reg_body else if s = ''regm'' then Some maid_reg_body
     else if s = ''book'' then Some maid_book_body
     else if s = json_status_text ''confirmed'' then Some [(''status'', JStr ''confirmed'')] else None\<rparr>"

text \<open>A customer and a maid register, then the customer books the maid.\<close>

abbreviation mst3 :: app_state where
  "mst3 \<equiv> snd (handle_app maid_env (json_post [''api'', ''bookings''] (Some (''Bearer jwt.'' @ oid 0)) ''book'') 2
     (snd (handle_app maid_env (json_post [''api'', ''auth'', ''register''] None ''regm'') 1
       (snd (handle_app maid_env (json_post [''api'', ''auth'', ''register''] None ''reg'') 0 app_init)))))"

abbreviation mb :: booking where
  "mb \<equiv> \<lparr>booking_id = 1, customerId = oid 0, maidId = JStr (oid 1),
       service = JStr ''House Cleaning'', date = JStr ''2025-01-01'', time = JStr ''10:00'',
       address = JStr ''1 Main St'', amount = 800, specialInstructions = JStr [], status = Pending,
       createdAt = 2, updatedAt = 2\<rparr>"

subsection \<open>Lemmas\<close>

text \<open>The maid's card and the customer's history row show a booking alike.\<close>

lemma maid_card_row_history: "maid_card_row b = history_row b"
  by (cases "status b") (simp_all add: maid_card_row_def history_row_def status_classes_def)

lemma get_booking_stats: "get_booking u ''stats'' s = Err 404 ''Booking not found''"
  by (simp add: get_booking_def parse_int10_stats find_const_False)

lemma mp_refresh_maid:
  assumes "auth_mw (cfg_verify (env_auth env)) (app_users st) (Some (''Bearer '' @ t)) = Inr me"
    and "role me = Maid"
  shows "mp_refresh env (Some t) now st p =
    (let (pe, ac, co) = maid_lists (filter (\<lambda>b. maidId b = JStr (user_oid me)) (bookings (app_store st)))
     in (p\<lparr>mp_pending := pe, mp_active := ac, mp_completed := co, mp_loading := False, mp_err := ''''\<rparr>, st))"
  using assms
  by (simp add: mp_refresh_def api_get_def bearer_of_def handle_app_def webhook_body_def app_mounts_def
        bookings_mount_def bookings_routes_def handle_bookings_def list_bookings_def identity_of_def
        get_booking_stats param_def mp_load_bookings_def mp_load_stats_def maid_lists_def)

lemma app_status_put:
  assumes "auth_mw (cfg_verify (env_auth env)) (app_users st) (Some (''Bearer '' @ t)) = Inr me"
    and "env_parse env (json_status_text (status_str (action_status a))) =
           Some [(''status'', JStr (status_str (action_status a)))]"
  shows "handle_app env (status_put (Some t) b a) now st =
    (let (r, s') = handle_bookings (identity_of me) PUT [dec_str (booking_id b), ''status'']
                     [(''status'', JStr (status_str (action_status a)))] now (app_store st)
     in (reply_map ABookings r, st\<lparr>app_store := s'\<rparr>))"
proof -
  have d: "dispatch bookings_routes PUT [dec_str (booking_id b), ''status''] =
      Some (HUpdate, [(''id'', dec_str (booking_id b))])"
    by (simp add: bookings_routes_def dec_str_ne)
  show ?thesis
    using assms d
    by (simp add: status_put_def action_request_def bearer_of_def handle_app_def webhook_body_def
          app_mounts_def bookings_mount_def split: option.splits prod.splits)
qed

lemma mst3_store: "app_store mst3 = \<lparr>bookings = [mb], nextBookingId = 2\<rparr>"
  by code_simp

subsection \<open>Properties\<close>

text \<open>
  C17. Pressing a button on the maid's dashboard, through the whole
  application and with a token that authenticates a maid, does what the
  lifecycle engine decides for a maid and the booking's status: on a
  refusal the page and the server stay as they were and the server's message
  is alerted; otherwise exactly that booking takes the new status and the
  reload shows the maid's bookings of the new server state in the three
  lists, with no error and no alert.
\<close>

theorem maid_page_action:
  assumes auth: "auth_mw (cfg_verify (env_auth env)) (app_users st) (Some (''Bearer '' @ t)) = Inr me"
    and maid: "role me = Maid"
    and parse: "env_parse env (json_status_text (status_str (action_status a))) =
                  Some [(''status'', JStr (status_str (action_status a)))]"
    and inv: "store_inv (app_store st)" and mem: "b \<in> set (bookings (app_store st))"
  shows "mp_update env (Some t) now st p b a =
    (case decide Maid (customerId b = user_oid me) (maidId b = JStr (user_oid me)) (status b) (action_status a) of
       Some (c, m) \<Rightarrow> (p, Some (if m = [] then ''Failed to update status'' else m), st)
     | None \<Rightarrow>
         (let s' = (app_store st)\<lparr>bookings := (bookings (app_store st))[booking_id b - 1 :=
                       b\<lparr>status := action_status a, updatedAt := now\<rparr>]\<rparr>;
              (pe, ac, co) = maid_lists (filter (\<lambda>b. maidId b = JStr (user_oid me)) (bookings s'))
          in (p\<lparr>mp_pending := pe, mp_active := ac, mp_completed := co, mp_loading := False, mp_err := ''''\<rparr>,
              None, st\<lparr>app_store := s'\<rparr>)))"
proof -
  have u: "urole (identity_of me) = Maid" "uid (identity_of me) = user_oid me"
    using maid by (simp_all add: identity_of_def)
  note step = handle_update_member_step [OF inv mem, of "identity_of me" "action_status a" now]
  note put = app_status_put [OF auth parse, of b now]
  show ?thesis
  proof (cases "decide Maid (customerId b = user_oid me) (maidId b = JStr (user_oid me)) (status b) (action_status a)")
    case None
    have R: "\<And>x n. mp_refresh env (Some t) n (st\<lparr>app_store := x\<rparr>) p =
      (let (pe, ac, co) = maid_lists (filter (\<lambda>b. maidId b = JStr (user_oid me)) (bookings x))
       in (p\<lparr>mp_pending := pe, mp_active := ac, mp_completed := co, mp_loading := False, mp_err := []\<rparr>,
           st\<lparr>app_store := x\<rparr>))"
      using mp_refresh_maid [OF _ maid] auth by simp
    from step put None u show ?thesis
      by (simp add: mp_update_def R split: prod.split)
  next
    case (Some cm)
    then obtain c m where cm: "decide Maid (customerId b = user_oid me) (maidId b = JStr (user_oid me))
        (status b) (action_status a) = Some (c, m)" by (cases cm) auto
    from step put cm u show ?thesis by (simp add: mp_update_def)
  qed
qed

theorem maid_page_action_witness:
  "mp_update maid_env (Some (''jwt.'' @ oid 1)) 3 mst3 maid_page_init mb Accept =
     (maid_page_init\<lparr>mp_active := [mb\<lparr>status := Confirmed, updatedAt := 3\<rparr>], mp_loading := False\<rparr>, None,
      mst3\<lparr>app_store := \<lparr>bookings = [mb\<lparr>status := Confirmed, updatedAt := 3\<rparr>], nextBookingId = 2\<rparr>\<rparr>)"
proof -
  let ?me = "users (app_users mst3) ! 1"
  have a: "auth_mw (cfg_verify (env_auth maid_env)) (app_users mst3) (Some (''Bearer '' @ ''jwt.'' @ oid 1)) = Inr ?me"
    by code_simp
  have r: "role ?me = Maid" by code_simp
  have o: "user_oid ?me = oid 1" by code_simp
  have p: "env_parse maid_env (json_status_text (status_str (action_status Accept))) =
             Some [(''status'', JStr (status_str (action_status Accept)))]" by (simp add: json_status_text_def)
  have i: "store_inv (app_store mst3)"
    by (simp only: mst3_store) (simp add: store_inv_def reachable_status.init upt_rec)
  have m: "mb \<in> set (bookings (app_store mst3))" by (simp only: mst3_store) simp
  note e = maid_page_action [OF a r p i m, of 3 maid_page_init]
  show ?thesis
    unfolding e o by (simp only: mst3_store) (simp add: decide_def maid_lists_def maid_page_init_def)
qed

end
