(* ===== verification/CustomerPage.thy ===== *)
theory CustomerPage
  imports MaidPage
begin

text \<open>
  The customer's dashboard page, \<open>frontend/src/pages/CustomerDashboard.js\<close>,
  as a client of the whole application: its state (lines 8-10),
  \<open>loadStats\<close> (lines 12-25), the effect that runs it when a token is set and
  the Refresh button (lines 27-30, 46), and the four stat cards (lines 32-37,
  50-62). Together with the maid's page it shows what the stats route, shadowed
  by \<open>GET /:id\<close>, does to both dashboards in the deployed application.
\<close>

record customer_page =
  cp_stats :: stats
  cp_loading :: bool
  cp_err :: string

definition customer_page_init :: customer_page where
  "customer_page_init = \<lparr>cp_stats = zero_stats, cp_loading = True, cp_err = ''''\<rparr>"

text \<open>
  \<open>loadStats\<close> (lines 12-25): the stats replace the shown ones and the error
  is cleared; on an error status the server's message (or the fallback) is
  shown and the stats kept. Any other successful answer keeps the stats.
\<close>

definition cp_load_stats :: "api_payload reply \<Rightarrow> customer_page \<Rightarrow> customer_page" where
  "cp_load_stats r p =
     (case r of
        Ok _ (ABookings (PStats st)) \<Rightarrow> p\<lparr>cp_stats := st, cp_loading := False, cp_err := ''''\<rparr>
      | Ok _ _ \<Rightarrow> p\<lparr>cp_loading := False, cp_err := ''''\<rparr>
      | Err _ m \<Rightarrow> p\<lparr>cp_loading := False, cp_err := (if m = [] then ''Failed to load stats'' else m)\<rparr>)"

definition cp_refresh ::
  "app_env \<Rightarrow> string option \<Rightarrow> nat \<Rightarrow> app_state \<Rightarrow> customer_page \<Rightarrow> customer_page \<times> app_state" where
  "cp_refresh env tok now st p =
     (let (r, st') = handle_app env (api_get [''api'', ''bookings'', ''stats''] tok) now st
      in (cp_load_stats r p, st'))"

definition cp_mount :: "app_env \<Rightarrow> string option \<Rightarrow> nat \<Rightarrow> app_state \<Rightarrow> customer_page \<times> app_state" where
  "cp_mount env tok now st =
     (case tok of
        Some t \<Rightarrow> if t \<noteq> [] then cp_refresh env tok now st customer_page_init else (customer_page_init, st)
      | None \<Rightarrow> (customer_page_init, st))"

text \<open>
  The cards (lines 32-37, 56): while loading each shows an ellipsis (\<open>None\<close>);
  the amount spent is shown in rupees through \<open>toLocaleString\<close>, whose
  digit grouping depends on the browser's locale and is left to the display.
\<close>

definition customer_cards :: "customer_page \<Rightarrow> (string \<times> card_value option) list" where
  "customer_cards p =
     map (\<lambda>(l, v). (l, if cp_loading p then None else Some v))
       [(''Total Bookings'', CText (dec_str (total (cp_stats p)))),
        (''Completed'', CText (dec_str (completed (cp_stats p)))),
        (''Pending'', CText (dec_str (pending (cp_stats p)))),
        (''Total Spent'', CRupees (totalSpent (cp_stats p)))]"

subsection \<open>Lemmas\<close>

text \<open>
  \<open>GET /api/bookings/stats\<close> through the application: refused by the
  \<open>auth\<close> middleware, or answered \<open>404\<close> by the by-id handler; never a change.
\<close>

lemma app_get_stats:
  "handle_app env (api_get [''api'', ''bookings'', ''stats''] tok) now st =
     ((case auth_mw (cfg_verify (env_auth env)) (app_users st) (Some (bearer_of tok)) of
         Inl (c, m) \<Rightarrow> Err c m
       | Inr _ \<Rightarrow> Err 404 ''Booking not found''), st)"
  by (simp add: api_get_def handle_app_def webhook_body_def app_mounts_def bookings_mount_def
        bookings_routes_def handle_bookings_def get_booking_stats param_def split: sum.split prod.split)

lemma mp_load_bookings_summary: "mp_summary (mp_load_bookings r p) = mp_summary p"
  by (simp add: mp_load_bookings_def split: reply.split prod.split)

subsection \<open>Properties\<close>

text \<open>
  C37. In the deployed application both dashboards lose their statistics, for
  every token and every server state: the maid's page keeps the summary it had
  (a fresh page shows \<open>0\<close> pending requests however many are pending), and
  the customer's page keeps its stats and shows the error \<open>Booking not found\<close>
  when the token is accepted, the middleware's refusal otherwise; neither load
  changes the server.
\<close>

theorem app_dashboards_stats_broken:
  "mp_summary (fst (mp_refresh env tok now st p)) = mp_summary p \<and>
   pending_card (mp_summary (fst (mp_refresh env tok now st maid_page_init))) = ''0'' \<and>
   cp_refresh env tok now st q =
     (q\<lparr>cp_loading := False,
        cp_err := (case auth_mw (cfg_verify (env_auth env)) (app_users st) (Some (bearer_of tok)) of
                     Inl (c, m) \<Rightarrow> if m = [] then ''Failed to load stats'' else m
                   | Inr _ \<Rightarrow> ''Booking not found'')\<rparr>, st)"
proof (intro conjI)
  have S: "\<And>p. mp_summary (fst (mp_refresh env tok now st p)) = mp_summary p"
    by (simp add: mp_refresh_def app_get_stats mp_load_bookings_summary mp_load_stats_def
          split: prod.split sum.split)
  show "mp_summary (fst (mp_refresh env tok now st p)) = mp_summary p" by (rule S)
  show "pending_card (mp_summary (fst (mp_refresh env tok now st maid_page_init))) = ''0''"
    by (simp add: S pending_card_def maid_page_init_def zero_summary_def dec_str_0)
  show "cp_refresh env tok now st q =
     (q\<lparr>cp_loading := False,
        cp_err := (case auth_mw (cfg_verify (env_auth env)) (app_users st) (Some (bearer_of tok)) of
                     Inl (c, m) \<Rightarrow> if m = [] then ''Failed to load stats'' else m
                   | Inr _ \<Rightarrow> ''Booking not found'')\<rparr>, st)"
    by (simp add: cp_refresh_def app_get_stats cp_load_stats_def split: prod.split sum.split)
qed

end
