(* ===== verification/Navigation.thy ===== *)
theory Navigation
  imports Session
begin

text \<open>
  Client-side navigation. \<open>frontend/src/App.js\<close> (lines 28-67) declares the
  routes of the single-page application: a path, the page it shows, and for
  the protected pages the \<open>role\<close> prop handed to \<open>ProtectedRoute\<close> (a
  component the repository does not contain, so only the prop is modelled,
  not what the guard does with it). The links that lead between pages are
  those of the header (\<open>components/Layout/Header.js\<close>), the home page
  (\<open>pages/Home.js\<close>), the customer dashboard's quick actions
  (\<open>pages/CustomerDashboard.js\<close>) and the payment page's redirect
  (\<open>pages/PaymentPage.js\<close>). The home page's price list is compared with the
  backend catalogue of \<open>Services\<close>.
\<close>

datatype page =
    PgHome | PgLogin | PgRegister | PgCustomerDashboard | PgServiceBooking | PgPayment
  | PgBookingHistory | PgMaidDashboard | PgProfile

text \<open>No \<open>ProtectedRoute\<close>, \<open>ProtectedRoute\<close> without a role, or with \<open>role="..."\<close>.\<close>

datatype guard = Public | Signed_in | Role_only role

definition app_routes :: "(string \<times> page \<times> guard) list" where
  "app_routes =
     [(''/'', PgHome, Public), (''/login'', PgLogin, Public), (''/register'', PgRegister, Public),
      (''/customer/dashboard'', PgCustomerDashboard, Role_only Customer),
      (''/customer/book-service'', PgServiceBooking, Role_only Customer),
      (''/customer/payment'', PgPayment, Role_only Customer),
      (''/customer/bookings'', PgBookingHistory, Role_only Customer),
      (''/maid/dashboard'', PgMaidDashboard, Role_only Maid),
      (''/profile'', PgProfile, Signed_in)]"

text \<open>The route \<open><Routes>\<close> picks for a location (the paths are distinct and exact).\<close>

definition route_of :: "string \<Rightarrow> (page \<times> guard) option" where
  "route_of p = map_of app_routes p"

subsection \<open>Links\<close>

text \<open>
  The header (lines 19-66): logo and three navigation links for everybody; a
  signed-in user gets the dashboard link of line 42 and a greeting, a visitor
  the login and register links. Each link is its label and target.
\<close>

definition header_links :: "user option \<Rightarrow> (string \<times> string) list" where
  "header_links u =
     [(''CleanConnect'', ''/''), (''Home'', ''/''), (''Services'', ''/services''), (''About'', ''/about'')] @
     (case u of
        Some x \<Rightarrow> [(''Dashboard'', dashboard_path (role x))]
      | None \<Rightarrow> [(''Login'', ''/login''), (''Register'', ''/register'')])"

definition header_greeting :: "user option \<Rightarrow> string option" where
  "header_greeting u = map_option (\<lambda>x. ''Welcome, '' @ name x) u"

text \<open>\<open>handleLogout\<close> (lines 9-12): the context's logout, then the home page.\<close>

definition header_logout :: "session \<Rightarrow> session \<times> string" where
  "header_logout s = (ctx_logout s, ''/'')"

text \<open>The home page's hero button(s) (lines 21-43) and call to action (lines 127-134).\<close>

definition home_links :: "user option \<Rightarrow> (string \<times> string) list" where
  "home_links u =
     (case u of
        Some x \<Rightarrow>
          [(if role x = Customer then ''Book a Service'' else ''View Requests'',
            if role x = Customer then ''/customer/book-service'' else ''/maid/dashboard'')]
      | None \<Rightarrow> [(''Get Started'', ''/register''), (''Sign In'', ''/login''), (''Sign Up Today'', ''/register'')])"

text \<open>The customer dashboard's quick actions (lines 67-69), labels without their icons.\<close>

definition customer_links :: "(string \<times> string) list" where
  "customer_links =
     [(''Book Service'', ''/customer/book-service''), (''View Bookings'', ''/customer/bookings''),
      (''Profile'', ''/profile'')]"

text \<open>
  What the payment page does with the outcome of \<open>pay\<close> (lines 19-46): a
  created booking leads to the history page, a refused one and a failed payment
  to an alert; while the checkout is open nothing happens. The result is the
  location to go to and the alert shown.
\<close>

definition payment_next :: "pay_outcome \<Rightarrow> string option \<times> string option" where
  "payment_next o' =
     (case o' of
        Paid (Ok _ _) \<Rightarrow> (Some ''/customer/bookings'', None)
      | Paid (Err _ m) \<Rightarrow> (None, Some (if m = [] then ''Booking creation failed after payment'' else m))
      | PayFailed m \<Rightarrow> (None, Some (''Payment failed: '' @ m))
      | CheckoutOpen \<Rightarrow> (None, None))"

text \<open>Every link a user of the given session can follow from the header and the home page.\<close>

definition visible_links :: "user option \<Rightarrow> string list" where
  "visible_links u = map snd (header_links u @ home_links u)"

subsection \<open>The home page's price list\<close>

text \<open>Lines 99-104: name, price and duration as displayed, icons left out.\<close>

definition home_services :: "(string \<times> string \<times> string) list" where
  "home_services =
     [(''House Cleaning'', ''$80'', ''2 hours''), (''Deep Cleaning'', ''$150'', ''4 hours''),
      (''Office Cleaning'', ''$100'', ''3 hours''), (''Move-in/out'', ''$200'', ''5 hours'')]"

subsection \<open>Lemmas\<close>

lemma route_of_simps:
  "route_of ''/services'' = None" "route_of ''/about'' = None"
  "route_of ''/'' = Some (PgHome, Public)" "route_of ''/login'' = Some (PgLogin, Public)"
  "route_of ''/register'' = Some (PgRegister, Public)"
  "route_of ''/customer/book-service'' = Some (PgServiceBooking, Role_only Customer)"
  "route_of ''/customer/bookings'' = Some (PgBookingHistory, Role_only Customer)"
  "route_of ''/maid/dashboard'' = Some (PgMaidDashboard, Role_only Maid)"
  "route_of ''/customer/dashboard'' = Some (PgCustomerDashboard, Role_only Customer)"
  "route_of ''/profile'' = Some (PgProfile, Signed_in)"
  by (simp_all add: route_of_def app_routes_def)

lemma dashboard_path_route:
  "route_of (dashboard_path r) = Some (if r = Customer then PgCustomerDashboard else PgMaidDashboard,
                                        Role_only (if r = Customer then Customer else Maid))"
  by (simp add: dashboard_path_def route_of_simps)

text \<open>The home page advertises the catalogue's prices (in dollars) and durations.\<close>

lemma home_services_catalogue:
  "map (\<lambda>(n, p, d). (p, d)) home_services =
     map (\<lambda>s. (''$'' @ int_str (basePrice s), dec_str (duration s) @ '' hours'')) services"
  by (simp add: home_services_def services_def int_str_def) code_simp

lemma customer_links_routed:
  "map (\<lambda>(l, t). route_of t) customer_links =
     [Some (PgServiceBooking, Role_only Customer), Some (PgBookingHistory, Role_only Customer),
      Some (PgProfile, Signed_in)]"
  by (simp add: customer_links_def route_of_simps)

lemma visible_links_cases:
  "visible_links None = [''/'', ''/'', ''/services'', ''/about'', ''/login'', ''/register'', ''/register'', ''/login'', ''/register'']"
  "visible_links (Some x) =
     [''/'', ''/'', ''/services'', ''/about'', dashboard_path (role x),
      if role x = Customer then ''/customer/book-service'' else ''/maid/dashboard'']"
  by (simp_all add: visible_links_def header_links_def home_links_def)

subsection \<open>Properties\<close>

text \<open>
  C19. Whoever is signed in, the only links of the header and the home page
  that match no route of App.js are the header's \<open>/services\<close> and
  \<open>/about\<close>, which lead to an empty page; and every protected page a
  signed-in user is linked to is declared for that user's role exactly when
  the user is not an admin: an admin's dashboard and home buttons lead to the
  maid-only dashboard.
\<close>

theorem navigation_links:
  "filter (\<lambda>t. route_of t = None) (visible_links u) = [''/services'', ''/about''] \<and>
   (list_all (\<lambda>t. case route_of t of Some (_, Role_only r) \<Rightarrow> r = role x | _ \<Rightarrow> True)
      (visible_links (Some x)) \<longleftrightarrow> role x \<noteq> Admin)"
proof
  show "filter (\<lambda>t. route_of t = None) (visible_links u) = [''/services'', ''/about'']"
    by (cases u) (simp_all add: visible_links_cases route_of_simps dashboard_path_route)
  show "list_all (\<lambda>t. case route_of t of Some (_, Role_only r) \<Rightarrow> r = role x | _ \<Rightarrow> True)
      (visible_links (Some x)) \<longleftrightarrow> role x \<noteq> Admin"
    by (cases "role x") (simp_all add: visible_links_cases route_of_simps dashboard_path_route)
qed

end
