(* ===== verification/RegisterPage.thy ===== *)
theory RegisterPage
  imports Navigation
begin

text \<open>
  The registration page, \<open>frontend/src/pages/Register.js\<close>, as a machine
  driven by its controls: the initial form (lines 6-8), \<open>onChange\<close> (line 14),
  the two role radio buttons with their fixed values and the five text inputs,
  all \<open>required\<close> (lines 44-58), and the submission of \<open>Session\<close>'s
  \<open>register_submit\<close>. A user can only change the form through these
  controls, so every form the page submits is the initial one after a
  sequence of control events.
\<close>

definition register_init :: register_form where
  "register_init =
     \<lparr>rf_name = '''', rf_email = '''', rf_phone = '''', rf_role = ''customer'', rf_password = '''',
      rf_confirm = ''''\<rparr>"

text \<open>\<open>setForm({ ...form, [e.target.name]: e.target.value })\<close> (line 14).\<close>

definition register_on_change :: "string \<Rightarrow> string \<Rightarrow> register_form \<Rightarrow> register_form" where
  "register_on_change n v f =
     (if n = ''name'' then f\<lparr>rf_name := v\<rparr>
      else if n = ''email'' then f\<lparr>rf_email := v\<rparr>
      else if n = ''phone'' then f\<lparr>rf_phone := v\<rparr>
      else if n = ''role'' then f\<lparr>rf_role := v\<rparr>
      else if n = ''password'' then f\<lparr>rf_password := v\<rparr>
      else if n = ''confirmPassword'' then f\<lparr>rf_confirm := v\<rparr>
      else f)"

datatype reg_field = FName | FEmail | FPhone | FPassword | FConfirm

datatype reg_event = PickCustomer | PickMaid | Type reg_field string

text \<open>The \<open>name\<close> and \<open>value\<close> of the change event each control fires (lines 45, 49, 54-58).\<close>

fun event_change :: "reg_event \<Rightarrow> string \<times> string" where
  "event_change PickCustomer = (''role'', ''customer'')"
| "event_change PickMaid = (''role'', ''maid'')"
| "event_change (Type FName v) = (''name'', v)"
| "event_change (Type FEmail v) = (''email'', v)"
| "event_change (Type FPhone v) = (''phone'', v)"
| "event_change (Type FPassword v) = (''password'', v)"
| "event_change (Type FConfirm v) = (''confirmPassword'', v)"

definition register_step :: "reg_event \<Rightarrow> register_form \<Rightarrow> register_form" where
  "register_step e f = (case event_change e of (n, v) \<Rightarrow> register_on_change n v f)"

definition register_page_form :: "reg_event list \<Rightarrow> register_form" where
  "register_page_form evs = fold register_step evs register_init"

text \<open>The browser submits only when every \<open>required\<close> input is filled (lines 54-58).\<close>

definition register_submittable :: "register_form \<Rightarrow> bool" where
  "register_submittable f \<longleftrightarrow>
     rf_name f \<noteq> [] \<and> rf_email f \<noteq> [] \<and> rf_phone f \<noteq> [] \<and> rf_password f \<noteq> [] \<and> rf_confirm f \<noteq> []"

text \<open>Pressing \<open>Create account\<close>: nothing when the browser blocks the form, else \<open>onSubmit\<close>.\<close>

definition register_page_submit ::
  "auth_cfg \<Rightarrow> reg_event list \<Rightarrow> user_db \<Rightarrow> session \<Rightarrow> ((string + string) \<times> session \<times> user_db) option" where
  "register_page_submit cfg evs db s =
     (if register_submittable (register_page_form evs)
      then Some (register_submit cfg (register_page_form evs) db s) else None)"

subsection \<open>Lemmas\<close>

lemma register_step_role:
  "rf_role (register_step e f) \<in> {rf_role f, ''customer'', ''maid''}"
  by (cases e rule: event_change.cases) (simp_all add: register_step_def register_on_change_def)

lemma fold_register_step_role:
  "rf_role f \<in> {''customer'', ''maid''} \<Longrightarrow> rf_role (fold register_step evs f) \<in> {''customer'', ''maid''}"
proof (induction evs arbitrary: f)
  case Nil then show ?case by simp
next
  case (Cons e evs)
  have "rf_role (register_step e f) \<in> {''customer'', ''maid''}"
    using register_step_role [of e f] Cons.prems by auto
  then show ?case using Cons.IH by simp
qed

lemma register_page_role: "rf_role (register_page_form evs) \<in> {''customer'', ''maid''}"
  unfolding register_page_form_def
  by (rule fold_register_step_role) (simp add: register_init_def)

lemma role_of_page_role:
  "v \<in> {''customer'', ''maid''} \<Longrightarrow> role_of (js_or (JStr v) (JStr ''customer'')) = Some r \<Longrightarrow>
     r = Customer \<and> v = ''customer'' \<or> r = Maid \<and> v = ''maid''"
  by (auto simp: role_of_def js_or_def)

text \<open>A registration through the auth router that answers a user ran \<open>register\<close>.\<close>

lemma handle_auth_register_ok:
  assumes "handle_auth cfg POST [''register''] hdr body db = (Ok c (PUserToken u t), db')"
  shows "\<exists>cl. register (cfg_is_email cfg) (cfg_norm_email cfg) body db = (Ok c (u, cl), db')"
  using assms
  by (auto simp: handle_auth_def auth_routes_def reply_map_Ok split: prod.splits)

lemma register_submit_ok:
  assumes "register_submit cfg f db s = (Inr dest, s', db')"
  shows "\<exists>u c cl. ses_user s' = Some u \<and> dest = dashboard_path (role u) \<and>
           register (cfg_is_email cfg) (cfg_norm_email cfg)
             [(''name'', JStr (rf_name f)), (''email'', JStr (rf_email f)), (''phone'', JStr (rf_phone f)),
              (''role'', JStr (rf_role f)), (''password'', JStr (rf_password f))] db = (Ok c (u, cl), db')"
  using assms
  by (auto simp: register_submit_def ctx_register_def ctx_auth_call_def header_effect_def
        split: if_splits prod.splits sum.splits reply.splits auth_payload.splits
        dest!: handle_auth_register_ok)

lemma register_ok_stored:
  assumes "register ie ne body db = (Ok c (u, t), db')"
  shows "u \<in> set (users db')"
proof -
  from assms obtain ur db1 where sv: "register_save ur db1 = (Ok c (u, t), db')"
    by (auto simp: register_def split: prod.splits sum.splits)
  from register_save_cases [of "fst ur" "snd ur" db1 "Ok c (u, t)" db'] sv
  show ?thesis by auto
qed

subsection \<open>Properties\<close>

text \<open>
  C29. Whatever a user does with the registration page's controls, the role it
  sends is \<open>customer\<close> or \<open>maid\<close> (the admin role the API accepts is out of
  the page's reach), and a successful registration stores the user, signs the
  session in as that customer or maid, and leads to a route App.js declares
  for exactly that role.
\<close>

theorem register_page_roles:
  assumes "register_page_submit cfg evs db s = Some (Inr dest, s', db')"
  shows "\<exists>u. ses_user s' = Some u \<and> u \<in> set (users db') \<and> (role u = Customer \<or> role u = Maid) \<and>
           route_of dest = Some (if role u = Customer then PgCustomerDashboard else PgMaidDashboard,
                                 Role_only (role u))"
proof -
  let ?f = "register_page_form evs"
  have sub: "register_submit cfg ?f db s = (Inr dest, s', db')"
    using assms by (simp add: register_page_submit_def split: if_splits)
  from register_submit_ok [OF sub] obtain u c cl where u: "ses_user s' = Some u"
    and d: "dest = dashboard_path (role u)"
    and r: "register (cfg_is_email cfg) (cfg_norm_email cfg)
             [(''name'', JStr (rf_name ?f)), (''email'', JStr (rf_email ?f)), (''phone'', JStr (rf_phone ?f)),
              (''role'', JStr (rf_role ?f)), (''password'', JStr (rf_password ?f))] db = (Ok c (u, cl), db')"
    by blast
  have "role_of (js_or (JStr (rf_role ?f)) (JStr ''customer'')) = Some (role u)"
    using register_role [OF r] by (simp add: js_get_def)
  then have ro: "role u = Customer \<or> role u = Maid"
    using role_of_page_role [OF register_page_role] by blast
  have "route_of dest = Some (if role u = Customer then PgCustomerDashboard else PgMaidDashboard,
                              Role_only (role u))"
    using ro by (auto simp: d dashboard_path_route)
  with u ro register_ok_stored [OF r] show ?thesis by blast
qed

theorem register_page_roles_witness:
  "\<exists>s' db' u. register_page_submit demo_cfg
       [Type FName ''Ravi'', Type FEmail ''ravi@example.in'', Type FPhone ''9000000001'', PickMaid,
        Type FPassword ''pw1234'', Type FConfirm ''pw1234''] empty_db (initial_session None) =
         Some (Inr ''/maid/dashboard'', s', db') \<and>
       ses_user s' = Some u \<and> role u = Maid"
proof -
  let ?r = "register_page_submit demo_cfg
       [Type FName ''Ravi'', Type FEmail ''ravi@example.in'', Type FPhone ''9000000001'', PickMaid,
        Type FPassword ''pw1234'', Type FConfirm ''pw1234''] empty_db (initial_session None)"
  have h: "map_option fst ?r = Some (Inr ''/maid/dashboard'')" by code_simp
  then obtain x where x: "?r = Some x" and fx: "fst x = Inr ''/maid/dashboard''" by auto
  have e: "?r = Some (Inr ''/maid/dashboard'', fst (snd x), snd (snd x))"
    using x fx by (cases x) auto
  from register_page_roles [OF e] obtain u where "ses_user (fst (snd x)) = Some u"
    and "route_of ''/maid/dashboard'' = Some (if role u = Customer then PgCustomerDashboard else PgMaidDashboard,
                                 Role_only (role u))"
    by blast
  then have "ses_user (fst (snd x)) = Some u" and "role u = Maid"
    by (auto simp: route_of_simps split: if_splits)
  with e show ?thesis by blast
qed

end
