(* ===== verification/ProfilePage.thy ===== *)
theory ProfilePage
  imports Session
begin

text \<open>
  The profile page, \<open>frontend/src/pages/Profile.js\<close>: its two inputs start
  from the session's user (lines 6-7) and \<open>onSave\<close> (lines 11-22, modelled
  in \<open>Session\<close> as \<open>profile_save\<close>) sends only the name and the phone through
  \<open>AuthContext\<close>'s \<open>updateProfile\<close> to \<open>PUT /api/auth/profile\<close>.
\<close>

text \<open>\<open>useState(user?.name || '')\<close> and \<open>useState(user?.phone || '')\<close> (lines 6-7).\<close>

definition profile_init :: "session \<Rightarrow> string \<times> string" where
  "profile_init s = (case ses_user s of Some u \<Rightarrow> (name u, phone u) | None \<Rightarrow> ('''', ''''))"

subsection \<open>Lemmas\<close>

text \<open>
  The update the page sends, through the schema: the name is trimmed, and it
  must be non-empty and at most 100 characters; the phone must be non-empty.
\<close>

lemma apply_update_name_phone:
  "apply_update u (js_object [(''name'', JStr nm), (''phone'', JStr ph)]) = Some u' \<longleftrightarrow>
     trim_ws nm \<noteq> [] \<and> length (trim_ws nm) \<le> 100 \<and> ph \<noteq> [] \<and> u' = u\<lparr>name := trim_ws nm, phone := ph\<rparr>"
  by (auto simp: js_object_distinct Let_def split: option.splits)

subsection \<open>Properties\<close>

text \<open>
  C24. Saving the profile page changes exactly the name and the phone of the
  signed-in user whose token the session sends, in the user collection and in
  the session, and nothing else: not the role, the email or the password,
  which \<open>PUT /api/auth/profile\<close> itself would let a client rewrite. The
  name stored is the one typed with the surrounding white space trimmed (the
  schema's \<open>trim\<close> setter); a save succeeds only with a name of 1 to 100
  characters after trimming and a non-empty phone.
\<close>

theorem profile_page_save:
  assumes "profile_save cfg nm ph db s = (''Profile updated'', s', db')"
  shows "\<exists>me i. auth_mw (cfg_verify cfg) db (ses_header s) = Inr me \<and> i < length (users db) \<and>
           user_oid (users db ! i) = user_oid me \<and>
           trim_ws nm \<noteq> [] \<and> length (trim_ws nm) \<le> 100 \<and> ph \<noteq> [] \<and>
           db' = db\<lparr>users := (users db)[i := (users db ! i)\<lparr>name := trim_ws nm, phone := ph\<rparr>]\<rparr> \<and>
           ses_user s' = Some ((users db ! i)\<lparr>name := trim_ws nm, phone := ph\<rparr>)"
proof -
  from assms obtain me c where a: "auth_mw (cfg_verify cfg) db (ses_header s) = Inr me"
    and u: "update_profile (identity_of me) [(''name'', JStr nm), (''phone'', JStr ph)] db =
             (Ok c (the (ses_user s')), db')"
    and ne: "ses_user s' \<noteq> None"
    by (auto simp: profile_save_def ctx_update_profile_def handle_auth_def auth_routes_def reply_map_Ok
          split: prod.splits sum.splits reply.splits auth_payload.splits)
  from update_profile_cases [OF u] obtain i u' where i: "i < length (users db)"
    and o: "user_oid (users db ! i) = uid (identity_of me)"
    and ap: "apply_update (users db ! i) (js_object [(''name'', JStr nm), (''phone'', JStr ph)]) = Some u'"
    and r: "Ok c (the (ses_user s')) = (Ok 200 u' :: user reply)"
    and d: "db' = db\<lparr>users := (users db)[i := u']\<rparr>"
    by auto
  have "trim_ws nm \<noteq> [] \<and> length (trim_ws nm) \<le> 100 \<and> ph \<noteq> [] \<and>
      u' = (users db ! i)\<lparr>name := trim_ws nm, phone := ph\<rparr>"
    using apply_update_name_phone [THEN iffD1, OF ap] .
  then have v: "trim_ws nm \<noteq> [] \<and> length (trim_ws nm) \<le> 100 \<and> ph \<noteq> []"
    and u': "u' = (users db ! i)\<lparr>name := trim_ws nm, phone := ph\<rparr>" by simp_all
  have "ses_user s' = Some u'" using r ne by auto
  with a i o d u' v show ?thesis by (auto simp: identity_of_def)
qed

theorem profile_page_save_witness:
  "\<exists>s' db' me. profile_save demo_cfg '' Asha K '' ''9111111111'' reg_db
       \<lparr>ses_user = Some demo_user, ses_token = Some (''jwt.'' @ oid 0),
        ses_header = Some (''Bearer jwt.'' @ oid 0), ses_storage = Some (''jwt.'' @ oid 0)\<rparr> =
       (''Profile updated'', s', db') \<and>
     auth_mw (cfg_verify demo_cfg) reg_db (Some (''Bearer jwt.'' @ oid 0)) = Inr me \<and>
     users db' = [demo_user\<lparr>name := ''Asha K'', phone := ''9111111111''\<rparr>]"
proof -
  let ?s = "\<lparr>ses_user = Some demo_user, ses_token = Some (''jwt.'' @ oid 0),
        ses_header = Some (''Bearer jwt.'' @ oid 0), ses_storage = Some (''jwt.'' @ oid 0)\<rparr>"
  let ?r = "profile_save demo_cfg '' Asha K '' ''9111111111'' reg_db ?s"
  have h: "fst ?r = ''Profile updated''" by code_simp
  have e: "?r = (''Profile updated'', fst (snd ?r), snd (snd ?r))"
    using h by (cases ?r) auto
  from profile_page_save [OF e] obtain me i where
    a: "auth_mw (cfg_verify demo_cfg) reg_db (Some (''Bearer jwt.'' @ oid 0)) = Inr me"
    and i: "i < length (users reg_db)"
    and d: "snd (snd ?r) = reg_db\<lparr>users := (users reg_db)[i := (users reg_db ! i)\<lparr>name := trim_ws '' Asha K '', phone := ''9111111111''\<rparr>]\<rparr>"
    by auto
  have t: "trim_ws '' Asha K '' = ''Asha K''" by code_simp
  have "i = 0" using i by (simp add: reg_eq)
  then have "users (snd (snd ?r)) = [demo_user\<lparr>name := ''Asha K'', phone := ''9111111111''\<rparr>]"
    using d t by (simp add: reg_eq)
  with e a show ?thesis by blast
qed

end
