(* ===== verification/Spec2Isabelle.thy ===== *)
theory Spec2Isabelle
  imports Maid_Run Booking_Json CustomerPage RegisterPage ProfilePage
begin

text \<open>
  \<^bold>\<open>A verification model of the maid-service platform.\<close>

  \<^bold>\<open>The program.\<close> \<open>src/maid-service-platform-complete\<close> is an Express
  backend with a React frontend. Customers register, pick a service and a maid,
  pay through Razorpay and then create a booking; the maid accepts or declines
  it, starts and completes the job; the customer may cancel while it is
  pending. The booking engine is \<open>backend/routes/bookings.js\<close>: an in-memory
  array \<open>bookings\<close> with a counter \<open>nextBookingId\<close> and five handlers behind
  the \<open>auth\<close> middleware (\<open>backend/middleware/auth.js\<close>). Users live in a
  MongoDB collection (\<open>backend/models/User.js\<close>) served by
  \<open>backend/controllers/authController.js\<close> under \<open>/api/auth\<close>; the catalogue
  (\<open>routes/services.js\<close>), the maid listing (\<open>routes/users.js\<close>) and the
  payment routes (\<open>routes/payments.js\<close>) complete the API, mounted by
  \<open>backend/server.js\<close> with the fallthrough of
  \<open>middleware/errorHandler.js\<close>. The pages under \<open>frontend/src\<close> call these
  routes through \<open>context/AuthContext.js\<close>'s session.

  \<^bold>\<open>Theories.\<close>
  \<^item> \<open>Prelude\<close>: the reply type of every handler (\<open>Err code message\<close>,
    \<open>Ok code data\<close>), the \<open>handler_defs\<close> and \<open>js_simps\<close> collections, list
    and option lemmas.
  \<^item> \<open>JsValue\<close>: the JavaScript semantics the code relies on (JSON values,
    truthiness, \<open>||\<close>, \<open>Number\<close>, \<open>parseInt(_, 10)\<close> and \<open>parseInt\<close>
    without a radix, \<open>String(n)\<close>, \<open>toLowerCase\<close>, the object
    \<open>JSON.parse\<close> builds, \<open>findIndex\<close>), restricted to integers and to
    characters below 256.
  \<^item> \<open>Booking\<close>, \<open>Lifecycle\<close>, \<open>Store\<close>: the booking record and statuses, the
    authorisation and transition checks \<open>decide\<close> against the design's table
    \<open>transition\<close>, and the module state \<open>store\<close> with the five handlers
    (\<open>create_booking\<close>, \<open>list_bookings\<close>, \<open>get_booking\<close>,
    \<open>update_status\<close>, \<open>get_stats\<close>), the reachable stores \<open>store_reach\<close>,
    the invariant \<open>store_inv\<close>, and runs of writing requests
    (\<open>write_step\<close>, \<open>status_changes\<close>).
  \<^item> \<open>Router\<close>: Express's first-match dispatch (\<open>dispatch\<close>), the bookings
    routes in registration order, \<open>notFound\<close> and \<open>errorHandler\<close>, and
    \<open>serve\<close> for a sequence of requests.
  \<^item> \<open>Auth\<close>: the user document, the \<open>auth\<close> middleware \<open>auth_mw\<close>,
    registration in its two phases around the await (\<open>register_check\<close>,
    \<open>register_save\<close>), \<open>login\<close>, \<open>get_profile\<close>, \<open>update_profile\<close>
    with the schema's casts, setters and validators (\<open>set_field\<close>: trim,
    lowercase, required, maxlength, minlength, enum, the email regex
    \<open>email_match\<close>), and \<open>udb_reach\<close>, the collections interleaved requests
    produce. bcrypt is symbolic (\<open>Hashed\<close>/\<open>Plain\<close>), \<open>jwt.verify\<close> and
    express-validator's \<open>isEmail\<close> and \<open>normalizeEmail\<close> are parameters.
  \<^item> \<open>Payments\<close>: \<open>create_order\<close>, \<open>verify_payment\<close>, \<open>webhook\<close> and the
    body-parser chain in front of the webhook, for JSON object and array
    bodies; Razorpay, HMAC and \<open>JSON.parse\<close> are parameters.
  \<^item> \<open>Services\<close>, \<open>Users\<close>: the catalogue with its lookup by \<open>parseInt\<close>
    without a radix, and
    the maid listing (filter and sort by rating).
  \<^item> \<open>Booking_Json\<close>: the JSON value types of stored bookings against the
    types the source's comment documents.
  \<^item> \<open>Frontend\<close>: the booking form, payment and booking creation
    (\<open>pay\<close>), the maid dashboard's lists and buttons, both dashboards' stats.
  \<^item> \<open>Maid_Run\<close>: a maid pressing the first button of a booking's card until
    none is left (\<open>maid_run\<close>, a \<open>function\<close> whose termination is proved
    with the lifecycle rank as measure).
  \<^item> \<open>Session\<close>: the auth router \<open>handle_auth\<close>, \<open>AuthContext\<close>'s session
    (state, header effect, profile reload, login, register, logout, profile
    update), the register and profile pages.
  \<^item> \<open>App\<close>: \<open>server.js\<close> assembled: the application-wide JSON parser,
    the five mounts under \<open>/api\<close>, the payments router, the bookings
    routes' per-route \<open>auth\<close>, the health check and the \<open>notFound\<close>
    fallthrough (\<open>handle_app\<close>, \<open>app_serve\<close>), over a state made of the
    bookings store and the user collection; \<open>app_reach\<close> is every state
    the application reaches.
  \<^item> \<open>History\<close>: the customer's booking history page, loading through
    the whole application and rendering rows with status labels and classes.
  \<^item> \<open>MaidPage\<close>: the maid's dashboard page as a client of the whole
    application: its loads, the request behind each button, the reload after
    it, the summary cards and the booking card's text.
  \<^item> \<open>CustomerPage\<close>: the customer's dashboard page as a client of the whole
    application, and what the shadowed stats route does to both dashboards.
  \<^item> \<open>RegisterPage\<close>: the registration page as a machine over its control
    events (role radios, text inputs), its browser validation and submission.
  \<^item> \<open>ProfilePage\<close>: the profile page's initial values and what saving it
    writes.
  \<^item> \<open>Navigation\<close>: \<open>App.js\<close>'s route table with each protected page's
    role prop, the links of the header, the home page and the customer
    dashboard, the payment page's redirect, and the home page's price list.
  \<^item> This theory: runs of request sequences (the design's scenarios) and the
    properties spanning backend and frontend.

  \<^bold>\<open>Execution model.\<close> A handler that does not await runs to completion
  before the next request (Node's event loop), so it is one atomic step
  \<open>state \<Rightarrow> reply \<times> state\<close>; concurrency is the order of requests
  (\<open>serve\<close>, \<open>store_reach\<close>). Registration awaits between its check and its
  save, so \<open>udb_reach\<close> lets checks and saves of different requests interleave.
  Clock readings, JWT, bcrypt, HMAC, Razorpay and \<open>JSON.parse\<close> enter as
  parameters; numbers are integers (the app's prices and ids are whole numbers).

  \<^bold>\<open>What is proved.\<close> The store invariant in every reachable store; the
  engine refines the transition table; a status request succeeds exactly when
  the table and the caller's party allow it, changes only that booking, never
  leaves a terminal status, and of two racing requests at most one wins; in
  any run of requests by any callers a booking changes status at most three
  times (\<open>status_changes_bound\<close>), and the maid can always drive a live
  booking to completion from the dashboard (\<open>maid_run\<close>, which stops after at
  most three requests); created bookings are found again; stats aggregate the
  list; stored bookings keep truthy required fields; emails stay unique under
  interleaved registrations; register-then-login, login tokens and the client
  session authenticate; every state the whole server reaches is made of
  reachable component states, and only an authenticated customer or maid
  changes a booking through it; payment checks, the catalogue lookup, the maid listing,
  the end-to-end booking flow, the history page, the maid's dashboard actions
  and the maid choice agree across components; the registration page can only
  create customers and maids, and the profile page only rewrites the name
  (trimmed by the schema) and the phone, though the API behind both accepts
  more.
  Modelling also showed defects, listed as findings with the theorems that
  show them: the unreachable stats route, the dashboards' lost statistics, the
  Complete button on confirmed bookings, self-assigned roles, passwords stored
  unhashed by profile updates, the webhook that refuses every Razorpay event
  (it succeeds only for a JSON array body), the hexadecimal service ids, header
  links to pages App.js does not route, an admin's dashboard link to the
  maid-only page, a checkout never prefilled, and undocumented value types.

  \<^bold>\<open>Not modelled.\<close> The database driver, HTTP framework internals, rate
  limiting, CORS and helmet (\<open>server.js\<close> configuration), React rendering,
  the static text of \<open>Home.js\<close> and \<open>Footer.js\<close>, and what \<open>App.js\<close>'s
  route guards do: \<open>ProtectedRoute\<close>, \<open>Login\<close> and \<open>Layout\<close> are not in the
  repository, so only the role each route declares is modelled, and
  \<open>AuthContext\<close>'s \<open>loading\<close> flag, which only those would read, is left out. Request
  bodies are flat JSON objects, so the client's \<open>notes\<close> object of an order
  is not modelled through the whole application; the elements of an array
  body are primitives. Profile updates carrying nested objects (\<open>address\<close>,
  \<open>profile\<close>) and the user document's timestamps are not modelled, nor what
  \<open>findByIdAndUpdate\<close> does with an array body (an update pipeline). A
  token whose \<open>id\<close> is no well-formed ObjectId is refused with 401 like an
  unknown id, though the code's message differs (\<open>Invalid token.\<close>).
  JavaScript strings are modelled by their code units below 256; numbers
  are integers, so \<open>Number\<close> reads decimal integer literals only.
\<close>

text \<open>A booking request body as the payment page sends it, for amount \<open>a\<close>.\<close>

definition booking_body :: "jsval \<Rightarrow> jsobj" where
  "booking_body a =
     [(''service'', JStr ''House Cleaning''), (''date'', JStr ''2025-01-01''),
      (''time'', JStr ''10:00''), (''address'', JStr ''1 Main St''),
      (''amount'', a), (''specialInstructions'', JStr ''''), (''maidId'', JStr ''m1'')]"

definition scen_confirm :: "request list" where
  "scen_confirm =
     [(demo_customer, POST, [], booking_body (JNum (Num 800))),
      (demo_maid, PUT, [''1'', ''status''], status_body Confirmed),
      (demo_customer, PUT, [''1'', ''status''], status_body Cancelled),
      (demo_maid, PUT, [''1'', ''status''], status_body In_progress),
      (demo_maid, PUT, [''1'', ''status''], status_body Completed)]"

definition scen_cancel :: "request list" where
  "scen_cancel =
     [(demo_customer, POST, [], booking_body (JNum (Num 800))),
      (demo_customer, PUT, [''1'', ''status''], status_body Cancelled),
      (demo_maid, PUT, [''1'', ''status''], status_body Confirmed)]"

definition scen_stats :: "request list" where
  "scen_stats =
     [(demo_customer, POST, [], booking_body (JNum (Num 100))),
      (demo_customer, POST, [], booking_body (JNum (Num 50))),
      (demo_customer, POST, [], booking_body (JNum (Num 0))),
      (demo_maid, PUT, [''1'', ''status''], status_body Confirmed),
      (demo_maid, PUT, [''1'', ''status''], status_body In_progress),
      (demo_maid, PUT, [''1'', ''status''], status_body Completed),
      (demo_maid, PUT, [''3'', ''status''], status_body Declined)]"

text \<open>The amount stored for a booking created with amount field \<open>a\<close>.\<close>

definition stored_amount :: "jsval \<Rightarrow> int option" where
  "stored_amount a =
     (case fst (create_booking demo_customer (booking_body a) 0 init_store) of
        Ok _ b \<Rightarrow> Some (amount b)
      | Err _ _ \<Rightarrow> None)"

abbreviation demo_form :: booking_form where
  "demo_form \<equiv> initial_form\<lparr>f_address := ''1 Main St'', f_date := ''2025-01-01'', f_time := ''10:00'',
                              f_maidId := oid 1\<rparr>"

abbreviation demo_payer :: user where
  "demo_payer \<equiv> \<lparr>user_oid = oid 0, name = ''Asha'', email = ''asha@example.in'', password = Hashed ''secret1'',
     role = Customer, phone = ''9000000000'', isActive = True, rating = 0\<rparr>"

abbreviation demo_checkout :: "order_data \<Rightarrow> rzp_response option" where
  "demo_checkout \<equiv> \<lambda>od. Some \<lparr>razorpay_order_id = orderId od, razorpay_payment_id = ''pay_1'',
                              razorpay_signature = ''k'' @ orderId od @ ''|pay_1''\<rparr>"

abbreviation maid_body :: jsobj where
  "maid_body \<equiv> [(''name'', JStr ''Ravi''), (''email'', JStr ''ravi@example.in''),
     (''password'', JStr ''pw1234''), (''phone'', JStr ''9000000001''), (''role'', JStr ''maid'')]"

abbreviation maid_db :: user_db where
  "maid_db \<equiv> snd (register (\<lambda>_. True) id maid_body empty_db)"

subsection \<open>Lemmas\<close>

lemma handle_stats_404:
  "handle_bookings u GET [''stats''] body now s = (Err 404 ''Booking not found'', s)"
  by (simp add: handle_bookings_def dispatch_stats_path param_def get_booking_def parse_int10_stats
      find_None_iff)

section \<open>Properties spanning the components\<close>

text \<open>
  The first scenario of the design, through the router: the customer
  creates a booking (201); the maid confirms it (200); the customer's cancel is
  refused with 403 \<open>Customer cannot set this status\<close> since it is no longer
  pending; the maid starts (200) and completes it (200), ending in the terminal
  status \<open>completed\<close>.
\<close>

theorem scenario_confirm_flow:
  "map reply_code (fst (serve scen_confirm 0 init_store)) = [201, 200, 403, 200, 200] \<and>
   fst (serve scen_confirm 0 init_store) ! 2 = Err 403 ''Customer cannot set this status'' \<and>
   map status (bookings (snd (serve scen_confirm 0 init_store))) = [Completed]"
  by code_simp

text \<open>
  The second scenario: the customer creates and cancels a booking; the
  maid's later confirm is refused with 400
  \<open>Invalid transition from cancelled to confirmed\<close>, and the booking stays
  cancelled.
\<close>

theorem scenario_cancel_flow:
  "map reply_code (fst (serve scen_cancel 0 init_store)) = [201, 200, 400] \<and>
   fst (serve scen_cancel 0 init_store) ! 2 = Err 400 ''Invalid transition from cancelled to confirmed'' \<and>
   map status (bookings (snd (serve scen_cancel 0 init_store))) = [Cancelled]"
  by code_simp

text \<open>
  The stats example of the design: a customer whose bookings are
  completed (100), pending (50) and declined (0) gets from the stats handler
  \<open>{total: 3, completed: 1, pending: 1, totalSpent: 150}\<close>; the declined
  booking's amount counts, as the handler sums every booking of the caller. Yet
  over HTTP the same customer's \<open>GET /stats\<close> is answered 404.
\<close>

theorem scenario_stats:
  "get_stats demo_customer (snd (serve scen_stats 0 init_store)) =
     Ok 200 \<lparr>total = 3, completed = 1, pending = 1, totalSpent = 150\<rparr> \<and>
   fst (serve [(demo_customer, GET, [''stats''], [])] 7 (snd (serve scen_stats 0 init_store))) =
     [Err 404 ''Booking not found'']"
  by code_simp

text \<open>
  \<open>amount: Number(amount) || 0\<close> coerces the amount field: a number is
  kept, also a negative one; a numeric string is converted; a non-numeric
  string, a missing field and \<open>NaN\<close> give 0; \<open>true\<close> gives 1. Nothing keeps a
  stored amount non-negative.
\<close>

theorem amount_coercion:
  "map stored_amount [JNum (Num (-500)), JStr '' 42 '', JStr ''abc'', JUndef, JNum NaN, JBool True] =
     [Some (-500), Some 42, Some 0, Some 0, Some 0, Some 1]"
  by code_simp

text \<open>
  Both dashboards lose their statistics: their \<open>GET /bookings/stats\<close>
  is answered 404 for every caller and store, so the maid's summary keeps its
  zeros (the error is swallowed) and its \<open>Pending Requests\<close> card shows
  \<open>0\<close> however many requests are pending, and the customer's dashboard shows
  zeros with the error \<open>Booking not found\<close>.
\<close>

theorem dashboards_stats_broken:
  "maid_summary_after (fst (handle_bookings u GET [''stats''] body now s)) zero_summary = zero_summary \<and>
   pending_card (maid_summary_after (fst (handle_bookings u GET [''stats''] body now s)) zero_summary) = ''0'' \<and>
   customer_stats_after (fst (handle_bookings u GET [''stats''] body now s)) zero_stats =
     (zero_stats, ''Booking not found'')"
  by (simp add: handle_stats_404 maid_summary_after_def customer_stats_after_def pending_card_def
      zero_summary_def dec_str_0)

text \<open>
  C38. The booking flow end to end: a booking form the browser submits, an
  order Razorpay creates, and a checkout response signed with the key secret
  lead to a created booking, pending, of the paying customer, for the chosen
  maid, whose amount is the page's price, charged in paise as 100 times that
  amount both by the checkout and by the order.
\<close>

theorem checkout_creates_booking:
  assumes "on_submit f = Inr bd" and "form_submittable True f" and "role customer = Customer"
    and "rz (order_options customer (fst (order_request bd)) (snd (order_request bd)) now) = Some ord"
    and "checkout \<lparr>orderId = order_id ord, od_amount = ord_amount ord, od_currency = ord_currency ord,
                   od_key = key\<rparr> = Some rsp"
    and "razorpay_order_id rsp \<noteq> []" and "razorpay_payment_id rsp \<noteq> []" and "razorpay_signature rsp \<noteq> []"
    and "razorpay_signature rsp = hmac k (razorpay_order_id rsp @ ''|'' @ razorpay_payment_id rsp)"
  shows "\<exists>b. pay True rz key hmac (Some k) customer bd checkout now s =
               (Paid (Ok 201 b), s\<lparr>bookings := bookings s @ [b], nextBookingId := Suc (nextBookingId s)\<rparr>) \<and>
             status b = Pending \<and> customerId b = user_oid customer \<and> maidId b = JStr (f_maidId f) \<and>
             amount b = bd_amount bd \<and> checkout_amount bd = 100 * amount b \<and>
             o_amount (order_options customer (fst (order_request bd)) (snd (order_request bd)) now) =
               Num (100 * amount b)"
proof -
  note sub = on_submit_Inr [OF assms(1)]
  have filled: "bd_date bd \<noteq> []" "bd_time bd \<noteq> []" "bd_address bd \<noteq> []"
    using sub assms(2) by (simp_all add: form_submittable_def)
  note co = create_order_request [of bd rz customer now ord key] sub assms(4)
  note vf = verify_genuine [where hmac = hmac and k = k, OF assms(6-9)]
  have cu: "urole (identity_of customer) = Customer" using assms(3) by (simp add: identity_of_def)
  note cb = create_booking_payload [OF cu, of bd now s] sub filled
  show ?thesis
    using co vf cb assms(5)
    by (simp add: pay_def checkout_amount_def identity_of_def)
qed

theorem checkout_creates_booking_witness:
  "\<exists>b. pay True rz_echo JUndef (\<lambda>k m. k @ m) (Some ''k'') demo_payer
         (projr (on_submit demo_form)) demo_checkout 7 init_store =
       (Paid (Ok 201 b), init_store\<lparr>bookings := [b], nextBookingId := 2\<rparr>) \<and>
       amount b = 800 \<and> maidId b = JStr (oid 1)"
proof -
  let ?bd = "projr (on_submit demo_form)"
  have sub: "on_submit demo_form = Inr ?bd" by code_simp
  have fs: "form_submittable True demo_form" by code_simp
  have amt: "bd_amount ?bd = 800" by code_simp
  have rz: "rz_echo (order_options demo_payer (fst (order_request ?bd)) (snd (order_request ?bd)) 7) =
      Some \<lparr>order_id = ''order_1'', ord_amount = Num 80000, ord_currency = JStr ''INR''\<rparr>"
    by code_simp
  have ck: "demo_checkout \<lparr>orderId = order_id \<lparr>order_id = ''order_1'', ord_amount = Num 80000, ord_currency = JStr ''INR''\<rparr>,
      od_amount = ord_amount \<lparr>order_id = ''order_1'', ord_amount = Num 80000, ord_currency = JStr ''INR''\<rparr>,
      od_currency = ord_currency \<lparr>order_id = ''order_1'', ord_amount = Num 80000, ord_currency = JStr ''INR''\<rparr>,
      od_key = JUndef\<rparr> =
      Some \<lparr>razorpay_order_id = ''order_1'', razorpay_payment_id = ''pay_1'', razorpay_signature = ''korder_1|pay_1''\<rparr>"
    by simp
  show ?thesis
    using checkout_creates_booking [where f = demo_form and bd = ?bd and rz = rz_echo and customer = demo_payer
        and now = 7 and ord = "\<lparr>order_id = ''order_1'', ord_amount = Num 80000, ord_currency = JStr ''INR''\<rparr>"
        and checkout = demo_checkout and key = JUndef and k = "''k''" and hmac = "\<lambda>k m. k @ m"
        and rsp = "\<lparr>razorpay_order_id = ''order_1'', razorpay_payment_id = ''pay_1'',
                    razorpay_signature = ''korder_1|pay_1''\<rparr>" and s = init_store,
        OF sub fs _ rz ck] amt
    unfolding init_store_def by fastforce
qed

text \<open>
  C39. The maid a booking is addressed to, whether the one the booking form
  preselects from \<open>GET /api/users/maids\<close> or any other option of the maid
  select, is an active maid of the user collection, and the identifier the
  form sends is the one the bookings routes compare with that maid's
  \<open>req.user.id\<close>: the maid's booking list is exactly the bookings addressed
  with it.
\<close>

theorem listed_maid_receives_booking:
  assumes "udb_reach db" and "get_maids db = Ok c ms" and "ms \<noteq> []"
    and "load_maids (Ok c ms) f = (ms', f', e)"
    and "v = f_maidId f' \<or> (\<exists>l r. (v, l, r) \<in> set (map maid_option ms))"
  shows "\<exists>m\<in>set (users db). role m = Maid \<and> isActive m \<and> v = user_oid m \<and>
           list_bookings (identity_of m) s = Ok 200 (filter (\<lambda>b. maidId b = JStr v) (bookings s))"
proof -
  have "\<exists>m\<in>set (users db). role m = Maid \<and> isActive m \<and> v = user_oid m"
    using assms(5)
  proof
    assume v: "v = f_maidId f'"
    obtain m where m: "m \<in> set (users db)" "role m = Maid" "isActive m" and h: "hd ms = user_json m"
      using get_maids_hd [OF assms(2,3)] by blast
    have "user_oid m \<noteq> []" using udb_reach_oids [OF assms(1)] m(1) by blast
    then have "f_maidId f' = user_oid m"
      using assms(3,4) h by (auto simp: load_maids_def maid_id_of_user_json)
    with m v show ?thesis by blast
  next
    assume "\<exists>l r. (v, l, r) \<in> set (map maid_option ms)"
    then obtain l r where o: "(v, l, r) \<in> set (map maid_option ms)" by blast
    have "maid_select False ms = MsOptions (map maid_option ms)"
      using assms(3) by (simp add: maid_select_def)
    from maid_select_active [OF assms(1,2) this o, of f] show ?thesis by blast
  qed
  then show ?thesis by (auto simp: list_bookings_def identity_of_def)
qed

theorem listed_maid_receives_booking_witness:
  "f_maidId (fst (snd (load_maids (get_maids maid_db) initial_form))) = oid 0 \<and>
   list_bookings \<lparr>uid = oid 0, urole = Maid\<rparr> init_store = Ok 200 []"
proof -
  have r: "udb_reach maid_db" using register_reach [OF udb_reach.init] .
  have g: "get_maids maid_db = Ok 200 [user_json (hd (users maid_db))]" by code_simp
  have u: "hd (users maid_db) = \<lparr>user_oid = oid 0, name = ''Ravi'', email = ''ravi@example.in'',
      password = Hashed ''pw1234'', role = Maid, phone = ''9000000001'', isActive = True, rating = 0\<rparr>"
    by code_simp
  have l: "load_maids (Ok 200 [user_json (hd (users maid_db))]) initial_form =
      ([user_json (hd (users maid_db))], initial_form\<lparr>f_maidId := oid 0\<rparr>, [])"
    by (simp add: u load_maids_def maid_id_of_user_json oid_ne)
  have "\<exists>m\<in>set (users maid_db). role m = Maid \<and> isActive m \<and> oid 0 = user_oid m \<and>
      list_bookings (identity_of m) init_store = Ok 200 (filter (\<lambda>b. maidId b = JStr (oid 0)) (bookings init_store))"
    by (rule listed_maid_receives_booking [OF r g _ l]) simp_all
  then obtain m where "oid 0 = user_oid m" "role m = Maid"
    "list_bookings (identity_of m) init_store = Ok 200 (filter (\<lambda>b. maidId b = JStr (oid 0)) (bookings init_store))"
    by blast
  then show ?thesis using g l by (simp add: identity_of_def init_store_def)
qed

text \<open>
  The booking page and the catalogue disagree on every price: the page's
  service ids are the catalogue's, but its prices (800, 1500, 1200, 2000) are
  none of the catalogue's base prices (80, 150, 100, 200), and the booking
  and the payment take the page's.
\<close>

theorem frontend_prices_differ:
  "list_all2 (\<lambda>fs s. fs_id fs = dec_str (nat (sv_id s)) \<and> price fs \<noteq> basePrice s) fe_services services"
  by code_simp

end
